theory Spec2Isabelle
  imports Main
begin

section \<open>JavaScript values\<close>

text \<open>
  The values that flow through the providers of
  \<^verbatim>\<open>src/v1/services/github/github.provider.js\<close>: parameter values, configuration
  values and response payloads are JSON-like. Numbers are restricted to the integers
  (page numbers, status codes); \<open>JFunction\<close> stands for a built-in method read as a
  property (\<^verbatim>\<open>data.values\<close> on an array). Strings are sequences of Latin-1 code
  units, one \<open>char\<close> each.
\<close>

datatype jsval =
    JUndefined
  | JNull
  | JBool bool
  | JNum int
  | JStr string
  | JArr "jsval list"
  | JObj "(string \<times> jsval) list"
  | JFunction

text \<open>Truthiness, as \<^verbatim>\<open>!x\<close> and \<^verbatim>\<open>x || d\<close> read it.\<close>

fun truthy :: "jsval \<Rightarrow> bool" where
  "truthy JUndefined = False"
| "truthy JNull = False"
| "truthy (JBool b) = b"
| "truthy (JNum n) = (n \<noteq> 0)"
| "truthy (JStr s) = (s \<noteq> [])"
| "truthy (JArr xs) = True"
| "truthy (JObj kvs) = True"
| "truthy JFunction = True"

definition js_or :: "jsval \<Rightarrow> jsval \<Rightarrow> jsval" where
  "js_or v d = (if truthy v then v else d)"

text \<open>Decimal digits of a natural number, for numbers inside template literals.\<close>

fun dec :: "nat \<Rightarrow> string" where
  "dec n = (if n < 10 then [char_of (48 + n)]
            else dec (n div 10) @ [char_of (48 + n mod 10)])"

fun join_comma :: "string list \<Rightarrow> string" where
  "join_comma [] = []"
| "join_comma [s] = s"
| "join_comma (s # t # ss) = s @ '','' @ join_comma (t # ss)"

text \<open>
  String conversion of a value interpolated into a template literal. Integers print in
  decimal; the exponent notation of numbers from \<open>10^21\<close> on is not modelled.
\<close>

fun to_string :: "jsval \<Rightarrow> string" where
  "to_string JUndefined = ''undefined''"
| "to_string JNull = ''null''"
| "to_string (JBool b) = (if b then ''true'' else ''false'')"
| "to_string (JNum n) = (if n < 0 then CHR ''-'' # dec (nat (- n)) else dec (nat n))"
| "to_string (JStr s) = s"
| "to_string (JArr xs) =
     join_comma (map (\<lambda>x. if x = JNull \<or> x = JUndefined then [] else to_string x) xs)"
| "to_string (JObj kvs) = ''[object Object]''"
| "to_string JFunction = ''function () { [native code] }''"

text \<open>
  \<^verbatim>\<open>String.prototype.trim\<close>: the white space of Latin-1 is TAB, LF, VT, FF, CR,
  SPACE and NBSP.
\<close>

definition is_ws :: "char \<Rightarrow> bool" where
  "is_ws c = (c \<in> set [CHR 0x09, CHR 0x0A, CHR 0x0B, CHR 0x0C, CHR 0x0D, CHR 0x20, CHR 0xA0])"

definition trim :: "string \<Rightarrow> string" where
  "trim s = rev (dropWhile is_ws (rev (dropWhile is_ws s)))"

section \<open>Errors\<close>

text \<open>
  What a \<^verbatim>\<open>throw\<close> can carry. \<open>AppError message statusCode errorCode\<close> is
  \<^verbatim>\<open>new AppError(message, statusCode, errorCode)\<close>; the class lives in
  \<^verbatim>\<open>core/errors/AppError.js\<close>, which is not part of the sources, so the third
  field records the argument of the call site (\<open>None\<close> when the call site passes two
  arguments). \<open>TypeError\<close> is the engine's error for a property read on
  \<^verbatim>\<open>undefined\<close>/\<^verbatim>\<open>null\<close> or a call of a non-function, \<open>PlainError\<close> is
  \<^verbatim>\<open>new Error()\<close>, and \<open>TransportError rs sc\<close> is any other rejected value (of
  the HTTP client or of the configuration store) whose \<^verbatim>\<open>response?.status\<close> is
  \<open>rs\<close> and whose \<^verbatim>\<open>statusCode\<close> is \<open>sc\<close>.
\<close>

datatype thrown =
    AppError string int "string option"
  | TypeError
  | PlainError
  | TransportError jsval jsval

text \<open>\<^verbatim>\<open>error.response?.status\<close> and \<^verbatim>\<open>error.statusCode\<close>.\<close>

fun resp_status :: "thrown \<Rightarrow> jsval" where
  "resp_status (TransportError rs sc) = rs"
| "resp_status e = JUndefined"

fun status_code :: "thrown \<Rightarrow> jsval" where
  "status_code (AppError m c k) = JNum c"
| "status_code (TransportError rs sc) = sc"
| "status_code e = JUndefined"

fun is_AppError :: "thrown \<Rightarrow> bool" where
  "is_AppError (AppError m c k) = True"
| "is_AppError e = False"

section \<open>Parameters and call options\<close>

text \<open>
  A \<open>ParameterSpec\<close> entry as the providers read it: its \<^verbatim>\<open>key\<close> and its
  \<^verbatim>\<open>value\<close> sequence (field \<open>pvalue\<close>). A configuration group and the
  \<^verbatim>\<open>configs\<close> of a call carry \<^verbatim>\<open>params\<close>, \<open>None\<close> when the property is
  missing. The options of a call carry \<^verbatim>\<open>configs\<close> and the top-level properties
  the Bitbucket provider reads (\<^verbatim>\<open>sort\<close>, \<^verbatim>\<open>page\<close>, \<^verbatim>\<open>perPage\<close>).
\<close>

record param =
  key :: string
  pvalue :: "jsval list"

record config_group =
  params :: "param list option"

record call_options =
  configs :: "config_group option"
  opt_sort :: jsval
  opt_page :: jsval
  opt_perPage :: jsval

text \<open>\<^verbatim>\<open>options?.configs?.params\<close> and \<^verbatim>\<open>options?.configs?.params || []\<close>.\<close>

definition call_params :: "call_options \<Rightarrow> param list option" where
  "call_params options = (case configs options of None \<Rightarrow> None | Some c \<Rightarrow> params c)"

definition params_or_empty :: "call_options \<Rightarrow> param list" where
  "params_or_empty options = (case call_params options of None \<Rightarrow> [] | Some ps \<Rightarrow> ps)"

text \<open>
  The extraction idioms, written inline in every action:
  \<^verbatim>\<open>options?.find((par) => par.key === k)\<close>, then \<^verbatim>\<open>?.value[0]\<close>, then
  \<^verbatim>\<open>?.trim()\<close>, then \<^verbatim>\<open>|| d\<close>. Calling \<^verbatim>\<open>trim\<close> on a value that is
  neither nullish nor a string is a TypeError.
\<close>

definition find_param :: "param list \<Rightarrow> string \<Rightarrow> param option" where
  "find_param ps k = List.find (\<lambda>par. key par = k) ps"

definition first_value :: "param option \<Rightarrow> jsval" where
  "first_value p =
     (case p of None \<Rightarrow> JUndefined
      | Some par \<Rightarrow> (case pvalue par of [] \<Rightarrow> JUndefined | v # vs \<Rightarrow> v))"

fun opt_trim :: "jsval \<Rightarrow> thrown + jsval" where
  "opt_trim JUndefined = Inr JUndefined"
| "opt_trim JNull = Inr JUndefined"
| "opt_trim (JStr s) = Inr (JStr (trim s))"
| "opt_trim v = Inl TypeError"

text \<open>\<^verbatim>\<open>options?.find(...)?.value[0] || d\<close>\<close>

definition get_raw :: "param list \<Rightarrow> string \<Rightarrow> jsval \<Rightarrow> jsval" where
  "get_raw ps k d = js_or (first_value (find_param ps k)) d"

text \<open>\<^verbatim>\<open>options?.find(...)?.value[0]?.trim()\<close>\<close>

definition get_trim :: "param list \<Rightarrow> string \<Rightarrow> thrown + jsval" where
  "get_trim ps k = opt_trim (first_value (find_param ps k))"

text \<open>\<^verbatim>\<open>options?.find(...)?.value[0]?.trim() || d\<close>\<close>

definition get_trimmed :: "param list \<Rightarrow> string \<Rightarrow> jsval \<Rightarrow> thrown + jsval" where
  "get_trimmed ps k d =
     (case get_trim ps k of Inl e \<Rightarrow> Inl e | Inr v \<Rightarrow> Inr (js_or v d))"

text \<open>
  \<^verbatim>\<open>options?.find(...).value[0].trim() || d\<close>, without optional chaining after
  \<^verbatim>\<open>find\<close> (GithubProvider.actionListCommitModifications): a missing entry and
  a missing first value are TypeErrors.
\<close>

definition get_strict :: "param list \<Rightarrow> string \<Rightarrow> jsval \<Rightarrow> thrown + jsval" where
  "get_strict ps k d =
     (case find_param ps k of
        None \<Rightarrow> Inl TypeError
      | Some par \<Rightarrow>
          (case pvalue par of
             [] \<Rightarrow> Inl TypeError
           | v # vs \<Rightarrow>
               (case v of JStr s \<Rightarrow> Inr (js_or (JStr (trim s)) d) | _ \<Rightarrow> Inl TypeError)))"

section \<open>HTTP client, configuration store and provider state\<close>

text \<open>
  The client that \<^verbatim>\<open>axios.create\<close> builds, a request, and the transport: the
  answer to a request may depend on the calls made before it. The answer is the
  \<^verbatim>\<open>data\<close> of the response, or the rejected value.
\<close>

datatype http_method = GET | POST

record http_client =
  baseURL :: string
  headers :: "(string \<times> string) list"
  auth :: "(jsval \<times> jsval) option"

record request =
  meth :: http_method
  url :: string
  query :: "(string \<times> jsval) list"
  body :: jsval

type_synonym call = "http_client \<times> request"

type_synonym transport = "call list \<Rightarrow> http_client \<Rightarrow> request \<Rightarrow> thrown + jsval"

text \<open>
  \<^verbatim>\<open>ConfigManager\<close> (\<^verbatim>\<open>core/ConfigManager.js\<close>) is not part of the sources:
  its two operations are parameters, over a store of any type.
\<close>

record 's config_manager =
  getConfig :: "'s \<Rightarrow> string \<Rightarrow> thrown + config_group option"
  saveConfigs :: "'s \<Rightarrow> config_group option \<Rightarrow> thrown + 's"

text \<open>
  \<^verbatim>\<open>this.config\<close> is set by \<^verbatim>\<open>BaseProvider\<close> from
  \<^verbatim>\<open>config/github.config.js\<close> or \<^verbatim>\<open>config/bitbucket.config.js\<close>, none of them
  part of the sources: the two properties the providers read.
\<close>

record provider_config =
  apiBaseUrl :: string
  apiVersion :: string

text \<open>
  The state a provider method runs on: the fields \<^verbatim>\<open>this.client\<close>,
  \<^verbatim>\<open>this.owner\<close> and \<^verbatim>\<open>this.config\<close> of the instance, the configuration
  store, and the HTTP calls made so far.
\<close>

record 's state =
  client :: "http_client option"
  owner :: jsval
  config :: provider_config
  store :: 's
  calls :: "call list"

text \<open>What an action returns.\<close>

datatype result =
    Data jsval
  | ConfigUpdated string "config_group option"

section \<open>Sequencing, throw and try/catch\<close>

type_synonym ('s, 'a) prog = "'s state \<Rightarrow> (thrown + 'a) \<times> 's state"

definition ret :: "'a \<Rightarrow> ('s, 'a) prog" where
  "ret x s = (Inr x, s)"

definition throw :: "thrown \<Rightarrow> ('s, 'a) prog" where
  "throw e s = (Inl e, s)"

definition lift_e :: "thrown + 'a \<Rightarrow> ('s, 'a) prog" where
  "lift_e r s = (r, s)"

definition bnd :: "('s, 'a) prog \<Rightarrow> ('a \<Rightarrow> ('s, 'b) prog) \<Rightarrow> ('s, 'b) prog" where
  "bnd m f s = (case m s of (Inl e, s') \<Rightarrow> (Inl e, s') | (Inr x, s') \<Rightarrow> f x s')"

definition try_catch :: "('s, 'a) prog \<Rightarrow> (thrown \<Rightarrow> ('s, 'a) prog) \<Rightarrow> ('s, 'a) prog" where
  "try_catch m h s = (case m s of (Inl e, s') \<Rightarrow> h e s' | (Inr x, s') \<Rightarrow> (Inr x, s'))"

text \<open>
  \<^verbatim>\<open>await this.client.get(url, {params})\<close> and
  \<^verbatim>\<open>await this.client.post(url, body)\<close>: a TypeError while the client is
  \<^verbatim>\<open>null\<close>, otherwise one call of the transport, recorded in \<open>calls\<close>.
\<close>

definition client_request :: "transport \<Rightarrow> request \<Rightarrow> ('s, jsval) prog" where
  "client_request T r s =
     (case client s of
        None \<Rightarrow> (Inl TypeError, s)
      | Some c \<Rightarrow> (T (calls s) c r, s\<lparr>calls := calls s @ [(c, r)]\<rparr>))"

definition client_get :: "transport \<Rightarrow> string \<Rightarrow> (string \<times> jsval) list \<Rightarrow> ('s, jsval) prog" where
  "client_get T u q = client_request T \<lparr>meth = GET, url = u, query = q, body = JUndefined\<rparr>"

definition client_post :: "transport \<Rightarrow> string \<Rightarrow> jsval \<Rightarrow> ('s, jsval) prog" where
  "client_post T u b = client_request T \<lparr>meth = POST, url = u, query = [], body = b\<rparr>"

text \<open>
  Property read \<^verbatim>\<open>v.name\<close> on a response payload, for the names the providers
  read: own properties of an object; on an array, \<^verbatim>\<open>values\<close> is the built-in
  method; a read on \<^verbatim>\<open>undefined\<close> or \<^verbatim>\<open>null\<close> is a TypeError.
\<close>

fun get_prop :: "jsval \<Rightarrow> string \<Rightarrow> thrown + jsval" where
  "get_prop JUndefined k = Inl TypeError"
| "get_prop JNull k = Inl TypeError"
| "get_prop (JObj kvs) k = (case map_of kvs k of None \<Rightarrow> Inr JUndefined | Some v \<Rightarrow> Inr v)"
| "get_prop (JArr xs) k = (if k = ''values'' then Inr JFunction else Inr JUndefined)"
| "get_prop v k = Inr JUndefined"

text \<open>
  \<^verbatim>\<open>v.map(f)\<close>: only an array has the method; a callback that throws ends the
  traversal.
\<close>

definition bind_e :: "thrown + 'a \<Rightarrow> ('a \<Rightarrow> thrown + 'b) \<Rightarrow> thrown + 'b" where
  "bind_e r f = (case r of Inl e \<Rightarrow> Inl e | Inr x \<Rightarrow> f x)"

fun map_e :: "('a \<Rightarrow> thrown + 'b) \<Rightarrow> 'a list \<Rightarrow> thrown + 'b list" where
  "map_e f [] = Inr []"
| "map_e f (x # xs) = bind_e (f x) (\<lambda>y. bind_e (map_e f xs) (\<lambda>ys. Inr (y # ys)))"

definition js_map :: "jsval \<Rightarrow> (jsval \<Rightarrow> thrown + jsval) \<Rightarrow> thrown + jsval" where
  "js_map v f = (case v of JArr xs \<Rightarrow> bind_e (map_e f xs) (\<lambda>ys. Inr (JArr ys)) | _ \<Rightarrow> Inl TypeError)"

text \<open>The properties \<open>ks\<close> of \<open>v\<close>, read in order, as the entries of an object literal.\<close>

definition pick :: "jsval \<Rightarrow> string list \<Rightarrow> thrown + (string \<times> jsval) list" where
  "pick v ks = map_e (\<lambda>k. bind_e (get_prop v k) (\<lambda>x. Inr (k, x))) ks"

text \<open>
  Object spread \<^verbatim>\<open>{...v}\<close> (own enumerable properties: the entries of an object,
  the indexed elements of an array or a string, nothing otherwise) and a property
  written after the spread.
\<close>

definition spread :: "jsval \<Rightarrow> (string \<times> jsval) list" where
  "spread v =
     (case v of
        JObj kvs \<Rightarrow> kvs
      | JArr xs \<Rightarrow> map (\<lambda>i. (dec i, xs ! i)) [0..<length xs]
      | JStr s \<Rightarrow> map (\<lambda>i. (dec i, JStr [s ! i])) [0..<length s]
      | _ \<Rightarrow> [])"

fun obj_set :: "(string \<times> jsval) list \<Rightarrow> string \<Rightarrow> jsval \<Rightarrow> (string \<times> jsval) list" where
  "obj_set [] k v = [(k, v)]"
| "obj_set (p # ps) k v = (if fst p = k then (k, v) # ps else p # obj_set ps k v)"

text \<open>Reading and assigning the fields of the instance.\<close>

definition this_owner :: "('s, jsval) prog" where
  "this_owner s = (Inr (owner s), s)"

definition set_owner :: "jsval \<Rightarrow> ('s, unit) prog" where
  "set_owner v s = (Inr (), s\<lparr>owner := v\<rparr>)"

definition set_client :: "('s state \<Rightarrow> http_client) \<Rightarrow> ('s, unit) prog" where
  "set_client mk s = (Inr (), s\<lparr>client := Some (mk s)\<rparr>)"

text \<open>
  \<^verbatim>\<open>ConfigManager.getConfig(name)\<close> and
  \<^verbatim>\<open>await ConfigManager.saveConfigs(newConfigs)\<close> on the store of the state.
\<close>

definition get_config :: "'s config_manager \<Rightarrow> string \<Rightarrow> ('s, config_group option) prog" where
  "get_config cm name s = (getConfig cm (store s) name, s)"

definition save_configs :: "'s config_manager \<Rightarrow> config_group option \<Rightarrow> ('s, unit) prog" where
  "save_configs cm newConfigs s =
     (case saveConfigs cm (store s) newConfigs of
        Inl e \<Rightarrow> (Inl e, s)
      | Inr st \<Rightarrow> (Inr (), s\<lparr>store := st\<rparr>))"

text \<open>\<^verbatim>\<open>configs?.params?.find((par) => par?.key === k)\<close>\<close>

definition config_param :: "config_group option \<Rightarrow> string \<Rightarrow> param option" where
  "config_param cfgs k =
     (case cfgs of None \<Rightarrow> None
      | Some g \<Rightarrow> (case params g of None \<Rightarrow> None | Some ps \<Rightarrow> find_param ps k))"

section \<open>The catch blocks\<close>

text \<open>
  Every action ends in \<^verbatim>\<open>catch (error) { ... }\<close> and every catch block throws.
  The blocks come in five shapes; each action below names its shape and its literals.
  \<open>catch_404_400_500\<close> is the block of every GithubProvider action (lines 116-128 and
  alike): 404 is mapped, 400 is re-thrown, the rest becomes 500.
\<close>

definition catch_404_400_500 ::
  "string \<Rightarrow> string \<Rightarrow> string \<Rightarrow> string \<Rightarrow> thrown \<Rightarrow> thrown" where
  "catch_404_400_500 m404 c404 m500 c500 error =
     (if resp_status error = JNum 404 \<or> status_code error = JNum 404
      then AppError m404 404 (Some c404)
      else if resp_status error = JNum 400 \<or> status_code error = JNum 400
      then error
      else AppError m500 500 (Some c500))"

text \<open>
  BitbucketProvider: the block that re-throws on \<^verbatim>\<open>statusCode === "400"\<close>,
  \<^verbatim>\<open>response?.status === 400\<close> or \<^verbatim>\<open>statusCode === 400\<close> (lines 795-809 and
  alike), the block without the string comparison (lines 689-697 and alike), the
  block that maps 404 and nothing else (lines 1018-1029), and the block that turns
  everything into 500 (lines 732-738 and alike).
\<close>

definition catch_400s_500 :: "string \<Rightarrow> string \<Rightarrow> thrown \<Rightarrow> thrown" where
  "catch_400s_500 m500 c500 error =
     (if status_code error = JStr ''400'' \<or> resp_status error = JNum 400
         \<or> status_code error = JNum 400
      then error
      else AppError m500 500 (Some c500))"

definition catch_400_500 :: "string \<Rightarrow> string \<Rightarrow> thrown \<Rightarrow> thrown" where
  "catch_400_500 m500 c500 error =
     (if resp_status error = JNum 400 \<or> status_code error = JNum 400
      then error
      else AppError m500 500 (Some c500))"

definition catch_404_500 :: "string \<Rightarrow> string \<Rightarrow> string \<Rightarrow> string \<Rightarrow> thrown \<Rightarrow> thrown" where
  "catch_404_500 m404 c404 m500 c500 error =
     (if resp_status error = JNum 404 \<or> status_code error = JNum 404
      then AppError m404 404 (Some c404)
      else AppError m500 500 (Some c500))"

definition catch_500 :: "string \<Rightarrow> string \<Rightarrow> thrown \<Rightarrow> thrown" where
  "catch_500 m500 c500 error = AppError m500 500 (Some c500)"

definition missing_params :: "string \<Rightarrow> thrown" where
  "missing_params m = AppError m 400 (Some ''MISSING_REQUIRED_PARAMS'')"

section \<open>GithubProvider\<close>

subsection \<open>init and createClient (lines 14-72)\<close>

definition gh_client :: "jsval \<Rightarrow> 's state \<Rightarrow> http_client" where
  "gh_client token s =
     \<lparr>baseURL = apiBaseUrl (config s),
      headers = [(''Authorization'', ''Bearer '' @ to_string token),
                 (''Accept'', ''application/vnd.github+json''),
                 (''X-GitHub-Api-Version'', apiVersion (config s))],
      auth = None\<rparr>"

definition gh_createClient :: "transport \<Rightarrow> jsval \<Rightarrow> ('s, jsval) prog" where
  "gh_createClient T token =
     try_catch
       (if \<not> truthy token
        then throw (AppError ''GitHub authentication failed'' 401 (Some ''AUTH_FAILED''))
        else bnd (set_client (gh_client token)) (\<lambda>u. client_get T ''/user'' []))
       (\<lambda>error. throw error)"

definition gh_init_body :: "'s config_manager \<Rightarrow> transport \<Rightarrow> ('s, unit) prog" where
  "gh_init_body cm T =
     bnd (get_config cm ''github_config'') (\<lambda>cfgs.
       let token = js_or (first_value (config_param cfgs ''token'')) (JStr '''') in
       bnd (set_owner (js_or (first_value (config_param cfgs ''owner'')) (JStr ''''))) (\<lambda>u.
       bnd this_owner (\<lambda>own.
         if \<not> truthy token
         then throw (AppError ''GitHub token not found in configurations'' 401
                       (Some ''AUTH_FAILED''))
         else if \<not> truthy own
         then throw (AppError ''GitHub owner (account username) not found in configurations''
                       401 (Some ''AUTH_FAILED''))
         else bnd (gh_createClient T token) (\<lambda>d. ret ()))))"

definition gh_init_catch :: "thrown \<Rightarrow> thrown" where
  "gh_init_catch error =
     (if status_code error = JStr ''401'' \<or> resp_status error = JNum 401
         \<or> status_code error = JNum 401
      then error
      else AppError ''Failed to initialize GitHub provider'' 500 None)"

definition gh_init :: "'s config_manager \<Rightarrow> transport \<Rightarrow> ('s, unit) prog" where
  "gh_init cm T = try_catch (gh_init_body cm T) (\<lambda>error. throw (gh_init_catch error))"

subsection \<open>actionUpdatePluginConfig (lines 74-95)\<close>

definition gh_actionUpdatePluginConfig_body ::
  "'s config_manager \<Rightarrow> transport \<Rightarrow> call_options \<Rightarrow> ('s, result) prog" where
  "gh_actionUpdatePluginConfig_body cm T options =
     (let newConfigs = configs options in
      bnd (save_configs cm newConfigs) (\<lambda>u.
      bnd (gh_init cm T) (\<lambda>v.
      ret (ConfigUpdated ''Configuration updated successfully'' newConfigs))))"

definition gh_actionUpdatePluginConfig_catch :: "thrown \<Rightarrow> thrown" where
  "gh_actionUpdatePluginConfig_catch error =
     AppError ''Failed to update plugin configuration'' 500 (Some ''CONFIG_UPDATE_FAILED'')"

definition gh_actionUpdatePluginConfig ::
  "'s config_manager \<Rightarrow> transport \<Rightarrow> call_options \<Rightarrow> ('s, result) prog" where
  "gh_actionUpdatePluginConfig cm T options =
     try_catch (gh_actionUpdatePluginConfig_body cm T options)
       (\<lambda>error. throw (gh_actionUpdatePluginConfig_catch error))"

subsection \<open>actionListRepos (lines 97-129)\<close>

definition gh_actionListRepos_body :: "transport \<Rightarrow> call_options \<Rightarrow> ('s, result) prog" where
  "gh_actionListRepos_body T options =
     (let ps = params_or_empty options;
          visibility = get_raw ps ''visibility'' (JStr ''all'');
          sort = get_raw ps ''sort'' (JStr ''updated'');
          page = get_raw ps ''page'' (JNum 1)
      in bnd (client_get T ''/user/repos''
                [(''visibility'', visibility), (''sort'', sort),
                 (''per_page'', JNum 50), (''page'', page)])
           (\<lambda>d. ret (Data d)))"

definition gh_actionListRepos_catch :: "thrown \<Rightarrow> thrown" where
  "gh_actionListRepos_catch =
     catch_404_400_500 ''Resources not found'' ''RESOURCE_NOT_FOUND''
       ''Failed to fetch repositories'' ''FETCH_REPOS_FAILED''"

definition gh_actionListRepos :: "transport \<Rightarrow> call_options \<Rightarrow> ('s, result) prog" where
  "gh_actionListRepos T options =
     try_catch (gh_actionListRepos_body T options) (\<lambda>error. throw (gh_actionListRepos_catch error))"

subsection \<open>actionGetRepo (lines 131-163)\<close>

definition gh_actionGetRepo_body :: "transport \<Rightarrow> call_options \<Rightarrow> ('s, result) prog" where
  "gh_actionGetRepo_body T options =
     (let ps = params_or_empty options in
      bnd (lift_e (get_trimmed ps ''repoName'' (JStr ''''))) (\<lambda>repoName.
        if \<not> truthy repoName
        then throw (missing_params ''Repository name is required'')
        else bnd this_owner (\<lambda>own.
             bnd (client_get T (''/repos/'' @ to_string own @ ''/'' @ to_string repoName) [])
               (\<lambda>d. ret (Data d)))))"

definition gh_actionGetRepo_catch :: "thrown \<Rightarrow> thrown" where
  "gh_actionGetRepo_catch =
     catch_404_400_500 ''Repository not found'' ''REPOSITORY_NOT_FOUND''
       ''Failed to fetch repository'' ''FETCH_REPO_FAILED''"

definition gh_actionGetRepo :: "transport \<Rightarrow> call_options \<Rightarrow> ('s, result) prog" where
  "gh_actionGetRepo T options =
     try_catch (gh_actionGetRepo_body T options) (\<lambda>error. throw (gh_actionGetRepo_catch error))"

subsection \<open>actionListRepoContents (lines 165-212)\<close>

definition gh_actionListRepoContents_body :: "transport \<Rightarrow> call_options \<Rightarrow> ('s, result) prog" where
  "gh_actionListRepoContents_body T options =
     (let ps = params_or_empty options in
      bnd (lift_e (get_trimmed ps ''repoName'' (JStr ''''))) (\<lambda>repoName.
      bnd (lift_e (get_trimmed ps ''path'' (JStr ''''))) (\<lambda>path.
      bnd (lift_e (get_trimmed ps ''ref'' (JStr ''''))) (\<lambda>ref.
        if \<not> truthy repoName
        then throw (missing_params ''Repository name is required'')
        else bnd this_owner (\<lambda>own.
             bnd (client_get T
                    (''/repos/'' @ to_string own @ ''/'' @ to_string repoName @ ''/contents/''
                       @ to_string path)
                    [(''ref'', js_or ref JUndefined)])
               (\<lambda>d. ret (Data d)))))))"

definition gh_actionListRepoContents_catch :: "thrown \<Rightarrow> thrown" where
  "gh_actionListRepoContents_catch =
     catch_404_400_500 ''Repository path or reference not found'' ''RESOURCE_NOT_FOUND''
       ''Failed to fetch repository contents'' ''FETCH_CONTENTS_FAILED''"

definition gh_actionListRepoContents :: "transport \<Rightarrow> call_options \<Rightarrow> ('s, result) prog" where
  "gh_actionListRepoContents T options =
     try_catch (gh_actionListRepoContents_body T options)
       (\<lambda>error. throw (gh_actionListRepoContents_catch error))"

subsection \<open>actionGetRepoFileContent (lines 214-261)\<close>

definition gh_actionGetRepoFileContent_body :: "transport \<Rightarrow> call_options \<Rightarrow> ('s, result) prog" where
  "gh_actionGetRepoFileContent_body T options =
     (let ps = params_or_empty options in
      bnd (lift_e (get_trimmed ps ''repoName'' (JStr ''''))) (\<lambda>repoName.
      bnd (lift_e (get_trimmed ps ''path'' (JStr ''''))) (\<lambda>path.
      bnd (lift_e (get_trimmed ps ''ref'' (JStr ''''))) (\<lambda>ref.
        if \<not> truthy repoName \<or> \<not> truthy path
        then throw (missing_params ''Repository name and file path are required'')
        else bnd this_owner (\<lambda>own.
             bnd (client_get T
                    (''/repos/'' @ to_string own @ ''/'' @ to_string repoName @ ''/contents/''
                       @ to_string path)
                    [(''ref'', js_or ref JUndefined)])
               (\<lambda>d. ret (Data d)))))))"

definition gh_actionGetRepoFileContent_catch :: "thrown \<Rightarrow> thrown" where
  "gh_actionGetRepoFileContent_catch =
     catch_404_400_500 ''File not found or inaccessible'' ''RESOURCE_NOT_FOUND''
       ''Failed to fetch file content'' ''FETCH_CONTENT_FAILED''"

definition gh_actionGetRepoFileContent :: "transport \<Rightarrow> call_options \<Rightarrow> ('s, result) prog" where
  "gh_actionGetRepoFileContent T options =
     try_catch (gh_actionGetRepoFileContent_body T options)
       (\<lambda>error. throw (gh_actionGetRepoFileContent_catch error))"

subsection \<open>actionListBranches (lines 263-295)\<close>

definition gh_actionListBranches_body :: "transport \<Rightarrow> call_options \<Rightarrow> ('s, result) prog" where
  "gh_actionListBranches_body T options =
     (let ps = params_or_empty options in
      bnd (lift_e (get_trimmed ps ''repoName'' (JStr ''''))) (\<lambda>repoName.
        if \<not> truthy repoName
        then throw (missing_params ''Repository name is required'')
        else bnd this_owner (\<lambda>own.
             bnd (client_get T
                    (''/repos/'' @ to_string own @ ''/'' @ to_string repoName @ ''/branches'') [])
               (\<lambda>d. ret (Data d)))))"

definition gh_actionListBranches_catch :: "thrown \<Rightarrow> thrown" where
  "gh_actionListBranches_catch =
     catch_404_400_500 ''Repository not found'' ''REPOSITORY_NOT_FOUND''
       ''Failed to fetch branches'' ''FETCH_BRANCHES_FAILED''"

definition gh_actionListBranches :: "transport \<Rightarrow> call_options \<Rightarrow> ('s, result) prog" where
  "gh_actionListBranches T options =
     try_catch (gh_actionListBranches_body T options)
       (\<lambda>error. throw (gh_actionListBranches_catch error))"

subsection \<open>actionListBranchCommits (lines 297-342)\<close>

definition gh_actionListBranchCommits_body :: "transport \<Rightarrow> call_options \<Rightarrow> ('s, result) prog" where
  "gh_actionListBranchCommits_body T options =
     (let ps = params_or_empty options in
      bnd (lift_e (get_trimmed ps ''repoName'' (JStr ''''))) (\<lambda>repoName.
      bnd (lift_e (get_trimmed ps ''branch'' (JStr ''''))) (\<lambda>branch.
        if \<not> truthy repoName
        then throw (missing_params ''Repository name is required'')
        else bnd this_owner (\<lambda>own.
             bnd (client_get T
                    (''/repos/'' @ to_string own @ ''/'' @ to_string repoName @ ''/commits'')
                    [(''sha'', js_or branch JUndefined)])
               (\<lambda>d. ret (Data d))))))"

definition gh_actionListBranchCommits_catch :: "thrown \<Rightarrow> thrown" where
  "gh_actionListBranchCommits_catch =
     catch_404_400_500 ''Branch or repository not found'' ''RESOURCE_NOT_FOUND''
       ''Failed to fetch commits'' ''FETCH_COMMITS_FAILED''"

definition gh_actionListBranchCommits :: "transport \<Rightarrow> call_options \<Rightarrow> ('s, result) prog" where
  "gh_actionListBranchCommits T options =
     try_catch (gh_actionListBranchCommits_body T options)
       (\<lambda>error. throw (gh_actionListBranchCommits_catch error))"

subsection \<open>actionListCommitModifications (lines 344-394)\<close>

text \<open>\<^verbatim>\<open>data.files.map((file) => ({filename: file.filename, ...}))\<close>\<close>

definition gh_file_summary :: "jsval \<Rightarrow> thrown + jsval" where
  "gh_file_summary file =
     bind_e (pick file [''filename'', ''status'', ''additions'', ''deletions'', ''changes''])
       (\<lambda>kvs. Inr (JObj kvs))"

definition gh_actionListCommitModifications_body ::
  "transport \<Rightarrow> call_options \<Rightarrow> ('s, result) prog" where
  "gh_actionListCommitModifications_body T options =
     (let ps = params_or_empty options in
      bnd (lift_e (get_strict ps ''repoName'' (JStr ''''))) (\<lambda>repoName.
      bnd (lift_e (get_strict ps ''commitSha'' (JStr ''''))) (\<lambda>commitSha.
        let includeContent = get_raw ps ''includeContent'' (JBool False) in
        if \<not> truthy repoName \<or> \<not> truthy commitSha
        then throw (missing_params ''Repository name and commit SHA are required'')
        else bnd this_owner (\<lambda>own.
             bnd (client_get T
                    (''/repos/'' @ to_string own @ ''/'' @ to_string repoName @ ''/commits/''
                       @ to_string commitSha) [])
               (\<lambda>d. bnd (lift_e (get_prop d ''files'')) (\<lambda>files.
                  if \<not> truthy includeContent
                  then bnd (lift_e (js_map files gh_file_summary)) (\<lambda>r. ret (Data r))
                  else ret (Data files)))))))"

definition gh_actionListCommitModifications_catch :: "thrown \<Rightarrow> thrown" where
  "gh_actionListCommitModifications_catch =
     catch_404_400_500 ''Commit or repository not found'' ''RESOURCE_NOT_FOUND''
       ''Failed to fetch commit modifications'' ''FETCH_MODIFICATIONS_FAILED''"

definition gh_actionListCommitModifications ::
  "transport \<Rightarrow> call_options \<Rightarrow> ('s, result) prog" where
  "gh_actionListCommitModifications T options =
     try_catch (gh_actionListCommitModifications_body T options)
       (\<lambda>error. throw (gh_actionListCommitModifications_catch error))"

subsection \<open>actionGetCommitDetails (lines 396-448)\<close>

definition gh_commit_details :: "jsval \<Rightarrow> thrown + jsval" where
  "gh_commit_details d =
     bind_e (pick d [''sha'', ''author'', ''committer'']) (\<lambda>top.
     bind_e (get_prop d ''commit'') (\<lambda>commit.
     bind_e (pick commit [''message'', ''author'', ''committer'', ''verification'']) (\<lambda>inner.
     bind_e (pick d [''stats'', ''files'', ''parents'', ''html_url'']) (\<lambda>rest.
       Inr (JObj (top @ [(''commit'', JObj inner)] @ rest))))))"

definition gh_actionGetCommitDetails_body :: "transport \<Rightarrow> call_options \<Rightarrow> ('s, result) prog" where
  "gh_actionGetCommitDetails_body T options =
     (let ps = params_or_empty options in
      bnd (lift_e (get_trimmed ps ''repoName'' (JStr ''''))) (\<lambda>repoName.
      bnd (lift_e (get_trimmed ps ''commitSha'' (JStr ''''))) (\<lambda>commitSha.
        if \<not> truthy repoName \<or> \<not> truthy commitSha
        then throw (missing_params ''Repository name and commit SHA are required'')
        else bnd this_owner (\<lambda>own.
             bnd (client_get T
                    (''/repos/'' @ to_string own @ ''/'' @ to_string repoName @ ''/commits/''
                       @ to_string commitSha) [])
               (\<lambda>d. bnd (lift_e (gh_commit_details d)) (\<lambda>r. ret (Data r)))))))"

definition gh_actionGetCommitDetails_catch :: "thrown \<Rightarrow> thrown" where
  "gh_actionGetCommitDetails_catch =
     catch_404_400_500 ''Commit or repository not found'' ''RESOURCE_NOT_FOUND''
       ''Failed to fetch commit details'' ''FETCH_COMMIT_DETAILS_FAILED''"

definition gh_actionGetCommitDetails :: "transport \<Rightarrow> call_options \<Rightarrow> ('s, result) prog" where
  "gh_actionGetCommitDetails T options =
     try_catch (gh_actionGetCommitDetails_body T options)
       (\<lambda>error. throw (gh_actionGetCommitDetails_catch error))"

subsection \<open>actionCommitsDiff (lines 450-500)\<close>

definition gh_actionCommitsDiff_body :: "transport \<Rightarrow> call_options \<Rightarrow> ('s, result) prog" where
  "gh_actionCommitsDiff_body T options =
     (let ps = params_or_empty options in
      bnd (lift_e (get_trimmed ps ''repoName'' (JStr ''''))) (\<lambda>repoName.
      bnd (lift_e (get_trimmed ps ''baseCommit'' (JStr ''''))) (\<lambda>baseCommit.
      bnd (lift_e (get_trimmed ps ''headCommit'' (JStr ''''))) (\<lambda>headCommit.
      bnd (lift_e (get_trim ps ''filePath'')) (\<lambda>filePath.
        if \<not> truthy repoName \<or> \<not> truthy baseCommit \<or> \<not> truthy headCommit
        then throw (missing_params ''Repository name, base commit and head commit are required'')
        else bnd this_owner (\<lambda>own.
             bnd (client_get T
                    (''/repos/'' @ to_string own @ ''/'' @ to_string repoName @ ''/compare/''
                       @ to_string baseCommit @ ''...'' @ to_string headCommit)
                    [(''path'', js_or filePath JUndefined)])
               (\<lambda>d. ret (Data d))))))))"

definition gh_actionCommitsDiff_catch :: "thrown \<Rightarrow> thrown" where
  "gh_actionCommitsDiff_catch =
     catch_404_400_500 ''Repository or commits not found'' ''RESOURCE_NOT_FOUND''
       ''Failed to compare commits'' ''COMPARE_COMMITS_FAILED''"

definition gh_actionCommitsDiff :: "transport \<Rightarrow> call_options \<Rightarrow> ('s, result) prog" where
  "gh_actionCommitsDiff T options =
     try_catch (gh_actionCommitsDiff_body T options)
       (\<lambda>error. throw (gh_actionCommitsDiff_catch error))"

subsection \<open>actionCommentPrs (lines 502-543)\<close>

definition gh_actionCommentPrs_body :: "transport \<Rightarrow> call_options \<Rightarrow> ('s, result) prog" where
  "gh_actionCommentPrs_body T options =
     (let ps = params_or_empty options in
      bnd (lift_e (get_trimmed ps ''repoName'' (JStr ''''))) (\<lambda>repoName.
      bnd (lift_e (get_trimmed ps ''prNumber'' (JStr ''''))) (\<lambda>prNumber.
      bnd (lift_e (get_trimmed ps ''comment'' (JStr ''''))) (\<lambda>comment.
        if \<not> truthy repoName \<or> \<not> truthy prNumber \<or> \<not> truthy comment
        then throw (missing_params ''Repository name, PR number and comment text are required'')
        else bnd this_owner (\<lambda>own.
             bnd (client_post T
                    (''/repos/'' @ to_string own @ ''/'' @ to_string repoName @ ''/issues/''
                       @ to_string prNumber @ ''/comments'')
                    (JObj [(''body'', comment)]))
               (\<lambda>d. ret (Data d)))))))"

definition gh_actionCommentPrs_catch :: "thrown \<Rightarrow> thrown" where
  "gh_actionCommentPrs_catch =
     catch_404_400_500 ''Pull request or repository not found'' ''RESOURCE_NOT_FOUND''
       ''Failed to create PR comment'' ''CREATE_COMMENT_FAILED''"

definition gh_actionCommentPrs :: "transport \<Rightarrow> call_options \<Rightarrow> ('s, result) prog" where
  "gh_actionCommentPrs T options =
     try_catch (gh_actionCommentPrs_body T options)
       (\<lambda>error. throw (gh_actionCommentPrs_catch error))"

subsection \<open>actionListPipelines (lines 545-577)\<close>

definition gh_actionListPipelines_body :: "transport \<Rightarrow> call_options \<Rightarrow> ('s, result) prog" where
  "gh_actionListPipelines_body T options =
     (let ps = params_or_empty options in
      bnd (lift_e (get_trimmed ps ''repoName'' (JStr ''''))) (\<lambda>repoName.
        if \<not> truthy repoName
        then throw (missing_params ''Repository name is required'')
        else bnd this_owner (\<lambda>own.
             bnd (client_get T
                    (''/repos/'' @ to_string own @ ''/'' @ to_string repoName
                       @ ''/methods/workflows'') [])
               (\<lambda>d. ret (Data d)))))"

definition gh_actionListPipelines_catch :: "thrown \<Rightarrow> thrown" where
  "gh_actionListPipelines_catch =
     catch_404_400_500 ''Repository not found'' ''RESOURCE_NOT_FOUND''
       ''Failed to fetch pipelines'' ''FETCH_PIPELINES_FAILED''"

definition gh_actionListPipelines :: "transport \<Rightarrow> call_options \<Rightarrow> ('s, result) prog" where
  "gh_actionListPipelines T options =
     try_catch (gh_actionListPipelines_body T options)
       (\<lambda>error. throw (gh_actionListPipelines_catch error))"

subsection \<open>actionListDeployments (lines 579-611)\<close>

definition gh_actionListDeployments_body :: "transport \<Rightarrow> call_options \<Rightarrow> ('s, result) prog" where
  "gh_actionListDeployments_body T options =
     (let ps = params_or_empty options in
      bnd (lift_e (get_trimmed ps ''repoName'' (JStr ''''))) (\<lambda>repoName.
        if \<not> truthy repoName
        then throw (missing_params ''Repository name is required'')
        else bnd this_owner (\<lambda>own.
             bnd (client_get T
                    (''/repos/'' @ to_string own @ ''/'' @ to_string repoName @ ''/deployments'') [])
               (\<lambda>d. ret (Data d)))))"

definition gh_actionListDeployments_catch :: "thrown \<Rightarrow> thrown" where
  "gh_actionListDeployments_catch =
     catch_404_400_500 ''Repository not found'' ''RESOURCE_NOT_FOUND''
       ''Failed to fetch deployments'' ''FETCH_DEPLOYMENTS_FAILED''"

definition gh_actionListDeployments :: "transport \<Rightarrow> call_options \<Rightarrow> ('s, result) prog" where
  "gh_actionListDeployments T options =
     try_catch (gh_actionListDeployments_body T options)
       (\<lambda>error. throw (gh_actionListDeployments_catch error))"

section \<open>BitbucketProvider\<close>

subsection \<open>init and createClient (lines 626-670)\<close>

text \<open>
  \<^verbatim>\<open>configs?.params?.find((par) => par?.key === k)?.value\<close>: the whole value
  sequence of the entry, not its first element.
\<close>

definition config_value :: "config_group option \<Rightarrow> string \<Rightarrow> jsval" where
  "config_value cfgs k =
     (case config_param cfgs k of None \<Rightarrow> JUndefined | Some par \<Rightarrow> JArr (pvalue par))"

definition bb_client :: "jsval \<Rightarrow> jsval \<Rightarrow> 's state \<Rightarrow> http_client" where
  "bb_client username appPassword s =
     \<lparr>baseURL = apiBaseUrl (config s),
      headers = [(''Accept'', ''application/json'')],
      auth = Some (username, appPassword)\<rparr>"

definition bb_createClient :: "transport \<Rightarrow> jsval \<Rightarrow> jsval \<Rightarrow> ('s, jsval) prog" where
  "bb_createClient T username appPassword =
     try_catch
       (bnd (set_client (bb_client username appPassword)) (\<lambda>u. client_get T ''/user'' []))
       (\<lambda>error. throw (AppError ''Bitbucket authentication failed'' 401 (Some ''AUTH_FAILED'')))"

definition bb_init_body :: "'s config_manager \<Rightarrow> transport \<Rightarrow> ('s, unit) prog" where
  "bb_init_body cm T =
     bnd (get_config cm ''bitbucket_config'') (\<lambda>cfgs.
       let username = js_or (config_value cfgs ''username'') (JStr '''');
           appPassword = js_or (config_value cfgs ''appPassword'') (JStr '''')
       in
       bnd (set_owner (js_or (config_value cfgs ''owner'') (JStr ''''))) (\<lambda>u.
         if \<not> truthy username \<or> \<not> truthy appPassword
         then throw (AppError ''Bitbucket credentials not found'' 401 (Some ''AUTH_FAILED''))
         else bnd (bb_createClient T username appPassword) (\<lambda>d. ret ())))"

definition bb_init_catch :: "thrown \<Rightarrow> thrown" where
  "bb_init_catch error =
     (if resp_status error = JNum 401 \<or> status_code error = JNum 401
      then error
      else AppError ''Failed to initialize Bitbucket provider'' 500 None)"

definition bb_init :: "'s config_manager \<Rightarrow> transport \<Rightarrow> ('s, unit) prog" where
  "bb_init cm T = try_catch (bb_init_body cm T) (\<lambda>error. throw (bb_init_catch error))"

subsection \<open>actionListBitbucketWorkspaces (lines 672-699)\<close>

definition bb_actionListBitbucketWorkspaces_body ::
  "transport \<Rightarrow> call_options \<Rightarrow> ('s, result) prog" where
  "bb_actionListBitbucketWorkspaces_body T options =
     (let ps = params_or_empty options;
          page = get_raw ps ''page'' (JNum 1);
          role = get_raw ps ''role'' (JStr ''member'')
      in bnd (client_get T ''/workspaces''
                [(''page'', page), (''pagelen'', JNum 50), (''role'', role)])
           (\<lambda>d. bnd (lift_e (get_prop d ''values'')) (\<lambda>v. ret (Data (js_or v (JArr []))))))"

definition bb_actionListBitbucketWorkspaces_catch :: "thrown \<Rightarrow> thrown" where
  "bb_actionListBitbucketWorkspaces_catch =
     catch_400_500 ''Failed to fetch workspaces'' ''FETCH_WORKSPACES_FAILED''"

definition bb_actionListBitbucketWorkspaces ::
  "transport \<Rightarrow> call_options \<Rightarrow> ('s, result) prog" where
  "bb_actionListBitbucketWorkspaces T options =
     try_catch (bb_actionListBitbucketWorkspaces_body T options)
       (\<lambda>error. throw (bb_actionListBitbucketWorkspaces_catch error))"

subsection \<open>actionListRepos (lines 721-740)\<close>

text \<open>
  The class defines \<^verbatim>\<open>actionListRepos\<close> twice (lines 702-719 and 721-740); the
  later definition is the method of the class. The two bodies differ in a
  \<^verbatim>\<open>console.error\<close> only.
\<close>

definition bb_actionListRepos_body :: "transport \<Rightarrow> call_options \<Rightarrow> ('s, result) prog" where
  "bb_actionListRepos_body T options =
     bnd this_owner (\<lambda>own.
     bnd (client_get T (''/repositories/'' @ to_string own)
            [(''sort'', js_or (opt_sort options) (JStr ''-updated_on'')),
             (''page'', js_or (opt_page options) (JNum 1)),
             (''pagelen'', js_or (opt_perPage options) (JNum 50))])
       (\<lambda>d. bnd (lift_e (get_prop d ''values'')) (\<lambda>v. ret (Data v))))"

definition bb_actionListRepos_catch :: "thrown \<Rightarrow> thrown" where
  "bb_actionListRepos_catch = catch_500 ''Failed to fetch repositories'' ''FETCH_REPOS_FAILED''"

definition bb_actionListRepos :: "transport \<Rightarrow> call_options \<Rightarrow> ('s, result) prog" where
  "bb_actionListRepos T options =
     try_catch (bb_actionListRepos_body T options)
       (\<lambda>error. throw (bb_actionListRepos_catch error))"

subsection \<open>actionGetRepo (lines 742-763)\<close>

definition bb_actionGetRepo_body :: "transport \<Rightarrow> call_options \<Rightarrow> ('s, result) prog" where
  "bb_actionGetRepo_body T options =
     (let ps = params_or_empty options in
      bnd (lift_e (get_trimmed ps ''repoName'' (JStr ''''))) (\<lambda>repoName.
        if \<not> truthy repoName
        then throw PlainError
        else bnd this_owner (\<lambda>own.
             bnd (client_get T (''/repositories/'' @ to_string own @ ''/'' @ to_string repoName) [])
               (\<lambda>d. ret (Data d)))))"

definition bb_actionGetRepo_catch :: "thrown \<Rightarrow> thrown" where
  "bb_actionGetRepo_catch = catch_500 ''Failed to fetch repository'' ''FETCH_REPO_FAILED''"

definition bb_actionGetRepo :: "transport \<Rightarrow> call_options \<Rightarrow> ('s, result) prog" where
  "bb_actionGetRepo T options =
     try_catch (bb_actionGetRepo_body T options) (\<lambda>error. throw (bb_actionGetRepo_catch error))"

subsection \<open>actionListRepoContents (lines 765-811)\<close>

definition bb_actionListRepoContents_body :: "transport \<Rightarrow> call_options \<Rightarrow> ('s, result) prog" where
  "bb_actionListRepoContents_body T options =
     (let ps = params_or_empty options in
      bnd (lift_e (get_trimmed ps ''repoName'' (JStr ''''))) (\<lambda>repoName.
      bnd (lift_e (get_trimmed ps ''ref'' (JStr ''''))) (\<lambda>commit.
        if \<not> truthy repoName \<or> \<not> truthy commit
        then throw (missing_params ''Repository name and commit are required'')
        else bnd this_owner (\<lambda>own.
             bnd (client_get T
                    (''/repositories/'' @ to_string own @ ''/'' @ to_string repoName @ ''/src''
                       @ (if truthy commit then ''/'' @ to_string commit else '''') @ ''/'') [])
               (\<lambda>d. bnd (lift_e (get_prop d ''values'')) (\<lambda>v. ret (Data (js_or v d))))))))"

definition bb_actionListRepoContents_catch :: "thrown \<Rightarrow> thrown" where
  "bb_actionListRepoContents_catch =
     catch_400s_500 ''Failed to fetch repository contents'' ''FETCH_CONTENTS_FAILED''"

definition bb_actionListRepoContents :: "transport \<Rightarrow> call_options \<Rightarrow> ('s, result) prog" where
  "bb_actionListRepoContents T options =
     try_catch (bb_actionListRepoContents_body T options)
       (\<lambda>error. throw (bb_actionListRepoContents_catch error))"

subsection \<open>actionGetRepoFileContent (lines 813-854)\<close>

definition bb_actionGetRepoFileContent_body :: "transport \<Rightarrow> call_options \<Rightarrow> ('s, result) prog" where
  "bb_actionGetRepoFileContent_body T options =
     (let ps = params_or_empty options in
      bnd (lift_e (get_trimmed ps ''repoName'' (JStr ''''))) (\<lambda>repoName.
      bnd (lift_e (get_trimmed ps ''path'' (JStr ''''))) (\<lambda>path.
      bnd (lift_e (get_trimmed ps ''ref'' (JStr ''master''))) (\<lambda>ref.
        if \<not> truthy repoName \<or> \<not> truthy ref \<or> \<not> truthy path
        then throw (AppError
               ''In order to fetch file/directory contents from Bitbucket please fill all required fields.''
               400 None)
        else bnd this_owner (\<lambda>own.
             bnd (client_get T
                    (''/repositories/'' @ to_string own @ ''/'' @ to_string repoName @ ''/src''
                       @ (if truthy ref then ''/'' @ to_string ref else '''') @ ''/''
                       @ to_string path) [])
               (\<lambda>d. ret (Data d)))))))"

definition bb_actionGetRepoFileContent_catch :: "thrown \<Rightarrow> thrown" where
  "bb_actionGetRepoFileContent_catch =
     catch_400s_500 ''Failed to fetch file content'' ''FETCH_CONTENT_FAILED''"

definition bb_actionGetRepoFileContent :: "transport \<Rightarrow> call_options \<Rightarrow> ('s, result) prog" where
  "bb_actionGetRepoFileContent T options =
     try_catch (bb_actionGetRepoFileContent_body T options)
       (\<lambda>error. throw (bb_actionGetRepoFileContent_catch error))"

subsection \<open>actionListRepoBranches (lines 856-888)\<close>

definition bb_actionListRepoBranches_body :: "transport \<Rightarrow> call_options \<Rightarrow> ('s, result) prog" where
  "bb_actionListRepoBranches_body T options =
     (let ps = params_or_empty options in
      bnd (lift_e (get_trimmed ps ''repoName'' (JStr ''''))) (\<lambda>repoName.
        if \<not> truthy repoName
        then throw (AppError ''Please required field (repository name)'' 400 None)
        else bnd this_owner (\<lambda>own.
             bnd (client_get T
                    (''/repositories/'' @ to_string own @ ''/'' @ to_string repoName
                       @ ''/refs/branches'') [])
               (\<lambda>d. bnd (lift_e (get_prop d ''values'')) (\<lambda>v. ret (Data v))))))"

definition bb_actionListRepoBranches_catch :: "thrown \<Rightarrow> thrown" where
  "bb_actionListRepoBranches_catch =
     catch_400s_500 ''Failed to fetch branches'' ''FETCH_BRANCHES_FAILED''"

definition bb_actionListRepoBranches :: "transport \<Rightarrow> call_options \<Rightarrow> ('s, result) prog" where
  "bb_actionListRepoBranches T options =
     try_catch (bb_actionListRepoBranches_body T options)
       (\<lambda>error. throw (bb_actionListRepoBranches_catch error))"

subsection \<open>actionListBranchCommits (lines 890-914)\<close>

definition bb_actionListBranchCommits_body :: "transport \<Rightarrow> call_options \<Rightarrow> ('s, result) prog" where
  "bb_actionListBranchCommits_body T options =
     (let ps = params_or_empty options in
      bnd (lift_e (get_trimmed ps ''repoName'' (JStr ''''))) (\<lambda>repoName.
      bnd (lift_e (get_trimmed ps ''branch'' (JStr ''''))) (\<lambda>branch.
        if \<not> truthy repoName
        then throw PlainError
        else bnd this_owner (\<lambda>own.
             bnd (client_get T
                    (''/repositories/'' @ to_string own @ ''/'' @ to_string repoName
                       @ ''/commits/'' @ to_string branch) [])
               (\<lambda>d. bnd (lift_e (get_prop d ''values'')) (\<lambda>v. ret (Data v)))))))"

definition bb_actionListBranchCommits_catch :: "thrown \<Rightarrow> thrown" where
  "bb_actionListBranchCommits_catch =
     catch_500 ''Failed to fetch commits'' ''FETCH_COMMITS_FAILED''"

definition bb_actionListBranchCommits :: "transport \<Rightarrow> call_options \<Rightarrow> ('s, result) prog" where
  "bb_actionListBranchCommits T options =
     try_catch (bb_actionListBranchCommits_body T options)
       (\<lambda>error. throw (bb_actionListBranchCommits_catch error))"

subsection \<open>actionListCommitModifications (lines 916-973)\<close>

text \<open>
  \<^verbatim>\<open>{...modification, diffContent: diffContent, commitHash: commitSha,
  repository: repoName}\<close>
\<close>

definition bb_enrich :: "jsval \<Rightarrow> jsval \<Rightarrow> jsval \<Rightarrow> jsval \<Rightarrow> thrown + jsval" where
  "bb_enrich diffContent commitSha repoName modification =
     Inr (JObj (obj_set (obj_set (obj_set (spread modification)
            ''diffContent'' diffContent) ''commitHash'' commitSha) ''repository'' repoName))"

definition bb_actionListCommitModifications_body ::
  "transport \<Rightarrow> call_options \<Rightarrow> ('s, result) prog" where
  "bb_actionListCommitModifications_body T options =
     (let ps = params_or_empty options in
      bnd (lift_e (get_trimmed ps ''repoName'' (JStr ''''))) (\<lambda>repoName.
      bnd (lift_e (get_trimmed ps ''commitSha'' (JStr ''''))) (\<lambda>commitSha.
        let includeContent = get_raw ps ''includeContent'' (JBool False) in
        if \<not> truthy repoName \<or> \<not> truthy commitSha
        then throw (missing_params ''Repository name and commit SHA are required'')
        else bnd this_owner (\<lambda>own.
             bnd (client_get T
                    (''/repositories/'' @ to_string own @ ''/'' @ to_string repoName
                       @ ''/diffstat/'' @ to_string commitSha) [])
               (\<lambda>statsData.
             bnd (if truthy includeContent
                  then bnd this_owner (\<lambda>own2.
                       client_get T
                         (''/repositories/'' @ to_string own2 @ ''/'' @ to_string repoName
                            @ ''/diff/'' @ to_string commitSha) [])
                  else ret JNull)
               (\<lambda>diffContent.
             bnd (lift_e (get_prop statsData ''values'')) (\<lambda>vs.
             bnd (lift_e (js_map vs (bb_enrich diffContent commitSha repoName)))
               (\<lambda>enrichedData. ret (Data enrichedData)))))))))"

definition bb_actionListCommitModifications_catch :: "thrown \<Rightarrow> thrown" where
  "bb_actionListCommitModifications_catch =
     catch_400s_500 ''Failed to fetch commit modifications'' ''FETCH_MODIFICATIONS_FAILED''"

definition bb_actionListCommitModifications ::
  "transport \<Rightarrow> call_options \<Rightarrow> ('s, result) prog" where
  "bb_actionListCommitModifications T options =
     try_catch (bb_actionListCommitModifications_body T options)
       (\<lambda>error. throw (bb_actionListCommitModifications_catch error))"

subsection \<open>actionGetCommitDetails (lines 975-1031)\<close>

definition bb_commit_details :: "jsval \<Rightarrow> thrown + jsval" where
  "bb_commit_details d =
     bind_e (pick d [''hash'', ''author'', ''message'', ''date'', ''parents'', ''repository''])
       (\<lambda>kvs. Inr (JObj kvs))"

definition bb_actionGetCommitDetails_body :: "transport \<Rightarrow> call_options \<Rightarrow> ('s, result) prog" where
  "bb_actionGetCommitDetails_body T options =
     (let ps = params_or_empty options in
      bnd (lift_e (get_trimmed ps ''repoName'' (JStr ''''))) (\<lambda>repoName.
      bnd (lift_e (get_trimmed ps ''commitSha'' (JStr ''''))) (\<lambda>commitSha.
        if \<not> truthy repoName \<or> \<not> truthy commitSha
        then throw (missing_params ''Repository name and commit SHA are required'')
        else bnd this_owner (\<lambda>own.
             bnd (client_get T (''/repositories/'' @ to_string own @ ''/'' @ to_string repoName) [])
               (\<lambda>repoCheck.
             if \<not> truthy repoCheck
             then throw (AppError ''Repository not found or access denied'' 404
                           (Some ''REPOSITORY_NOT_FOUND''))
             else bnd this_owner (\<lambda>own2.
                  bnd (client_get T
                         (''/repositories/'' @ to_string own2 @ ''/'' @ to_string repoName
                            @ ''/commit/'' @ to_string commitSha) [])
                    (\<lambda>d. bnd (lift_e (bb_commit_details d)) (\<lambda>r. ret (Data r)))))))))"

definition bb_actionGetCommitDetails_catch :: "thrown \<Rightarrow> thrown" where
  "bb_actionGetCommitDetails_catch =
     catch_404_500 ''Repository or commit not found'' ''RESOURCE_NOT_FOUND''
       ''Failed to fetch commit details'' ''FETCH_COMMIT_DETAILS_FAILED''"

definition bb_actionGetCommitDetails :: "transport \<Rightarrow> call_options \<Rightarrow> ('s, result) prog" where
  "bb_actionGetCommitDetails T options =
     try_catch (bb_actionGetCommitDetails_body T options)
       (\<lambda>error. throw (bb_actionGetCommitDetails_catch error))"

subsection \<open>actionCommitsDiff (lines 1033-1074)\<close>

definition bb_actionCommitsDiff_body :: "transport \<Rightarrow> call_options \<Rightarrow> ('s, result) prog" where
  "bb_actionCommitsDiff_body T options =
     (let ps = params_or_empty options in
      bnd (lift_e (get_trimmed ps ''repoName'' (JStr ''''))) (\<lambda>repoName.
      bnd (lift_e (get_trimmed ps ''baseCommit'' (JStr ''''))) (\<lambda>baseCommit.
      bnd (lift_e (get_trimmed ps ''headCommit'' (JStr ''''))) (\<lambda>headCommit.
        if \<not> truthy repoName \<or> \<not> truthy baseCommit \<or> \<not> truthy headCommit
        then throw (missing_params ''Repository name, base commit and head commit are required'')
        else bnd this_owner (\<lambda>own.
             bnd (client_get T
                    (''/repositories/'' @ to_string own @ ''/'' @ to_string repoName @ ''/diff/''
                       @ to_string baseCommit @ ''..'' @ to_string headCommit) [])
               (\<lambda>d. ret (Data (js_or d (JObj [])))))))))"

definition bb_actionCommitsDiff_catch :: "thrown \<Rightarrow> thrown" where
  "bb_actionCommitsDiff_catch =
     catch_400s_500 ''Failed to compare commits'' ''COMPARE_COMMITS_FAILED''"

definition bb_actionCommitsDiff :: "transport \<Rightarrow> call_options \<Rightarrow> ('s, result) prog" where
  "bb_actionCommitsDiff T options =
     try_catch (bb_actionCommitsDiff_body T options)
       (\<lambda>error. throw (bb_actionCommitsDiff_catch error))"

subsection \<open>actionCommentPRs (lines 1076-1117)\<close>

definition bb_actionCommentPRs_body :: "transport \<Rightarrow> call_options \<Rightarrow> ('s, result) prog" where
  "bb_actionCommentPRs_body T options =
     (let ps = params_or_empty options in
      bnd (lift_e (get_trimmed ps ''repoName'' (JStr ''''))) (\<lambda>repoName.
      bnd (lift_e (get_trimmed ps ''prNumber'' (JStr ''''))) (\<lambda>prNumber.
      bnd (lift_e (get_trimmed ps ''comment'' (JStr ''''))) (\<lambda>comment.
        if \<not> truthy repoName \<or> \<not> truthy prNumber \<or> \<not> truthy comment
        then throw (missing_params ''Repository name, PR number and comment text are required'')
        else bnd this_owner (\<lambda>own.
             bnd (client_post T
                    (''/repositories/'' @ to_string own @ ''/'' @ to_string repoName
                       @ ''/pullrequests/'' @ to_string prNumber @ ''/comments'')
                    (JObj [(''content'', JObj [(''raw'', comment)])]))
               (\<lambda>d. ret (Data d)))))))"

definition bb_actionCommentPRs_catch :: "thrown \<Rightarrow> thrown" where
  "bb_actionCommentPRs_catch =
     catch_400_500 ''Failed to add comment to pull request'' ''COMMENT_PR_FAILED''"

definition bb_actionCommentPRs :: "transport \<Rightarrow> call_options \<Rightarrow> ('s, result) prog" where
  "bb_actionCommentPRs T options =
     try_catch (bb_actionCommentPRs_body T options)
       (\<lambda>error. throw (bb_actionCommentPRs_catch error))"

subsection \<open>actionListPipelines (lines 1119-1154)\<close>

definition bb_actionListPipelines_body :: "transport \<Rightarrow> call_options \<Rightarrow> ('s, result) prog" where
  "bb_actionListPipelines_body T options =
     (let ps = params_or_empty options in
      bnd (lift_e (get_trimmed ps ''repoName'' (JStr ''''))) (\<lambda>repoName.
        if \<not> truthy repoName
        then throw (missing_params ''Repository name is required'')
        else bnd this_owner (\<lambda>own.
             bnd (client_get T
                    (''/repositories/'' @ to_string own @ ''/'' @ to_string repoName
                       @ ''/pipelines/'') [])
               (\<lambda>d. bnd (lift_e (get_prop d ''values'')) (\<lambda>v. ret (Data (js_or v (JArr []))))))))"

definition bb_actionListPipelines_catch :: "thrown \<Rightarrow> thrown" where
  "bb_actionListPipelines_catch =
     catch_400s_500 ''Failed to fetch pipelines'' ''FETCH_PIPELINES_FAILED''"

definition bb_actionListPipelines :: "transport \<Rightarrow> call_options \<Rightarrow> ('s, result) prog" where
  "bb_actionListPipelines T options =
     try_catch (bb_actionListPipelines_body T options)
       (\<lambda>error. throw (bb_actionListPipelines_catch error))"

subsection \<open>actionListDeployments (lines 1156-1188)\<close>

definition bb_actionListDeployments_body :: "transport \<Rightarrow> call_options \<Rightarrow> ('s, result) prog" where
  "bb_actionListDeployments_body T options =
     (let ps = params_or_empty options in
      bnd (lift_e (get_trimmed ps ''repoName'' (JStr ''''))) (\<lambda>repoName.
        if \<not> truthy repoName
        then throw (missing_params ''Repository name is required'')
        else bnd this_owner (\<lambda>own.
             bnd (client_get T
                    (''/repositories/'' @ to_string own @ ''/'' @ to_string repoName
                       @ ''/deployments'') [])
               (\<lambda>d. bnd (lift_e (get_prop d ''values'')) (\<lambda>v. ret (Data (js_or v (JArr []))))))))"

definition bb_actionListDeployments_catch :: "thrown \<Rightarrow> thrown" where
  "bb_actionListDeployments_catch =
     catch_400_500 ''Failed to fetch deployments'' ''FETCH_DEPLOYMENTS_FAILED''"

definition bb_actionListDeployments :: "transport \<Rightarrow> call_options \<Rightarrow> ('s, result) prog" where
  "bb_actionListDeployments T options =
     try_catch (bb_actionListDeployments_body T options)
       (\<lambda>error. throw (bb_actionListDeployments_catch error))"

section \<open>The actions of the two providers\<close>

text \<open>
  The methods whose names begin with \<^verbatim>\<open>action\<close>, by provider, and the method each
  name stands for.
\<close>

datatype action =
    GH_actionUpdatePluginConfig
  | GH_actionListRepos
  | GH_actionGetRepo
  | GH_actionListRepoContents
  | GH_actionGetRepoFileContent
  | GH_actionListBranches
  | GH_actionListBranchCommits
  | GH_actionListCommitModifications
  | GH_actionGetCommitDetails
  | GH_actionCommitsDiff
  | GH_actionCommentPrs
  | GH_actionListPipelines
  | GH_actionListDeployments
  | BB_actionListBitbucketWorkspaces
  | BB_actionListRepos
  | BB_actionGetRepo
  | BB_actionListRepoContents
  | BB_actionGetRepoFileContent
  | BB_actionListRepoBranches
  | BB_actionListBranchCommits
  | BB_actionListCommitModifications
  | BB_actionGetCommitDetails
  | BB_actionCommitsDiff
  | BB_actionCommentPRs
  | BB_actionListPipelines
  | BB_actionListDeployments

fun run :: "'s config_manager \<Rightarrow> transport \<Rightarrow> action \<Rightarrow> call_options \<Rightarrow> ('s, result) prog" where
  "run cm T GH_actionUpdatePluginConfig = gh_actionUpdatePluginConfig cm T"
| "run cm T GH_actionListRepos = gh_actionListRepos T"
| "run cm T GH_actionGetRepo = gh_actionGetRepo T"
| "run cm T GH_actionListRepoContents = gh_actionListRepoContents T"
| "run cm T GH_actionGetRepoFileContent = gh_actionGetRepoFileContent T"
| "run cm T GH_actionListBranches = gh_actionListBranches T"
| "run cm T GH_actionListBranchCommits = gh_actionListBranchCommits T"
| "run cm T GH_actionListCommitModifications = gh_actionListCommitModifications T"
| "run cm T GH_actionGetCommitDetails = gh_actionGetCommitDetails T"
| "run cm T GH_actionCommitsDiff = gh_actionCommitsDiff T"
| "run cm T GH_actionCommentPrs = gh_actionCommentPrs T"
| "run cm T GH_actionListPipelines = gh_actionListPipelines T"
| "run cm T GH_actionListDeployments = gh_actionListDeployments T"
| "run cm T BB_actionListBitbucketWorkspaces = bb_actionListBitbucketWorkspaces T"
| "run cm T BB_actionListRepos = bb_actionListRepos T"
| "run cm T BB_actionGetRepo = bb_actionGetRepo T"
| "run cm T BB_actionListRepoContents = bb_actionListRepoContents T"
| "run cm T BB_actionGetRepoFileContent = bb_actionGetRepoFileContent T"
| "run cm T BB_actionListRepoBranches = bb_actionListRepoBranches T"
| "run cm T BB_actionListBranchCommits = bb_actionListBranchCommits T"
| "run cm T BB_actionListCommitModifications = bb_actionListCommitModifications T"
| "run cm T BB_actionGetCommitDetails = bb_actionGetCommitDetails T"
| "run cm T BB_actionCommitsDiff = bb_actionCommitsDiff T"
| "run cm T BB_actionCommentPRs = bb_actionCommentPRs T"
| "run cm T BB_actionListPipelines = bb_actionListPipelines T"
| "run cm T BB_actionListDeployments = bb_actionListDeployments T"

text \<open>The try block and the catch block of each action.\<close>

fun body_of :: "'s config_manager \<Rightarrow> transport \<Rightarrow> action \<Rightarrow> call_options \<Rightarrow> ('s, result) prog" where
  "body_of cm T GH_actionUpdatePluginConfig = gh_actionUpdatePluginConfig_body cm T"
| "body_of cm T GH_actionListRepos = gh_actionListRepos_body T"
| "body_of cm T GH_actionGetRepo = gh_actionGetRepo_body T"
| "body_of cm T GH_actionListRepoContents = gh_actionListRepoContents_body T"
| "body_of cm T GH_actionGetRepoFileContent = gh_actionGetRepoFileContent_body T"
| "body_of cm T GH_actionListBranches = gh_actionListBranches_body T"
| "body_of cm T GH_actionListBranchCommits = gh_actionListBranchCommits_body T"
| "body_of cm T GH_actionListCommitModifications = gh_actionListCommitModifications_body T"
| "body_of cm T GH_actionGetCommitDetails = gh_actionGetCommitDetails_body T"
| "body_of cm T GH_actionCommitsDiff = gh_actionCommitsDiff_body T"
| "body_of cm T GH_actionCommentPrs = gh_actionCommentPrs_body T"
| "body_of cm T GH_actionListPipelines = gh_actionListPipelines_body T"
| "body_of cm T GH_actionListDeployments = gh_actionListDeployments_body T"
| "body_of cm T BB_actionListBitbucketWorkspaces = bb_actionListBitbucketWorkspaces_body T"
| "body_of cm T BB_actionListRepos = bb_actionListRepos_body T"
| "body_of cm T BB_actionGetRepo = bb_actionGetRepo_body T"
| "body_of cm T BB_actionListRepoContents = bb_actionListRepoContents_body T"
| "body_of cm T BB_actionGetRepoFileContent = bb_actionGetRepoFileContent_body T"
| "body_of cm T BB_actionListRepoBranches = bb_actionListRepoBranches_body T"
| "body_of cm T BB_actionListBranchCommits = bb_actionListBranchCommits_body T"
| "body_of cm T BB_actionListCommitModifications = bb_actionListCommitModifications_body T"
| "body_of cm T BB_actionGetCommitDetails = bb_actionGetCommitDetails_body T"
| "body_of cm T BB_actionCommitsDiff = bb_actionCommitsDiff_body T"
| "body_of cm T BB_actionCommentPRs = bb_actionCommentPRs_body T"
| "body_of cm T BB_actionListPipelines = bb_actionListPipelines_body T"
| "body_of cm T BB_actionListDeployments = bb_actionListDeployments_body T"

fun catch_of :: "action \<Rightarrow> thrown \<Rightarrow> thrown" where
  "catch_of GH_actionUpdatePluginConfig = gh_actionUpdatePluginConfig_catch"
| "catch_of GH_actionListRepos = gh_actionListRepos_catch"
| "catch_of GH_actionGetRepo = gh_actionGetRepo_catch"
| "catch_of GH_actionListRepoContents = gh_actionListRepoContents_catch"
| "catch_of GH_actionGetRepoFileContent = gh_actionGetRepoFileContent_catch"
| "catch_of GH_actionListBranches = gh_actionListBranches_catch"
| "catch_of GH_actionListBranchCommits = gh_actionListBranchCommits_catch"
| "catch_of GH_actionListCommitModifications = gh_actionListCommitModifications_catch"
| "catch_of GH_actionGetCommitDetails = gh_actionGetCommitDetails_catch"
| "catch_of GH_actionCommitsDiff = gh_actionCommitsDiff_catch"
| "catch_of GH_actionCommentPrs = gh_actionCommentPrs_catch"
| "catch_of GH_actionListPipelines = gh_actionListPipelines_catch"
| "catch_of GH_actionListDeployments = gh_actionListDeployments_catch"
| "catch_of BB_actionListBitbucketWorkspaces = bb_actionListBitbucketWorkspaces_catch"
| "catch_of BB_actionListRepos = bb_actionListRepos_catch"
| "catch_of BB_actionGetRepo = bb_actionGetRepo_catch"
| "catch_of BB_actionListRepoContents = bb_actionListRepoContents_catch"
| "catch_of BB_actionGetRepoFileContent = bb_actionGetRepoFileContent_catch"
| "catch_of BB_actionListRepoBranches = bb_actionListRepoBranches_catch"
| "catch_of BB_actionListBranchCommits = bb_actionListBranchCommits_catch"
| "catch_of BB_actionListCommitModifications = bb_actionListCommitModifications_catch"
| "catch_of BB_actionGetCommitDetails = bb_actionGetCommitDetails_catch"
| "catch_of BB_actionCommitsDiff = bb_actionCommitsDiff_catch"
| "catch_of BB_actionCommentPRs = bb_actionCommentPRs_catch"
| "catch_of BB_actionListPipelines = bb_actionListPipelines_catch"
| "catch_of BB_actionListDeployments = bb_actionListDeployments_catch"

section \<open>Environments of the examples\<close>

text \<open>
  A provider as its constructor leaves it (lines 8-12 and 620-624), the rejection of the
  HTTP client for an upstream response with status \<open>n\<close> (an error with
  \<^verbatim>\<open>response.status\<close> and no \<^verbatim>\<open>statusCode\<close>), two transports, and two
  configuration stores: one that holds a single group under every name, and one whose
  \<^verbatim>\<open>saveConfigs\<close> fails.
\<close>

definition new_provider :: "provider_config \<Rightarrow> 's \<Rightarrow> 's state" where
  "new_provider cfg st = \<lparr>client = None, owner = JStr '''', config = cfg, store = st, calls = []\<rparr>"

definition github_config :: provider_config where
  "github_config = \<lparr>apiBaseUrl = ''https://api.github.com'', apiVersion = ''2022-11-28''\<rparr>"

definition bitbucket_config :: provider_config where
  "bitbucket_config = \<lparr>apiBaseUrl = ''https://api.bitbucket.org/2.0'', apiVersion = ''2.0''\<rparr>"

definition upstream :: "int \<Rightarrow> thrown" where
  "upstream n = TransportError (JNum n) JUndefined"

definition answering :: "jsval \<Rightarrow> transport" where
  "answering d = (\<lambda>h c r. Inr d)"

definition rejecting :: "int \<Rightarrow> transport" where
  "rejecting n = (\<lambda>h c r. Inl (upstream n))"

definition one_group_store :: "(config_group option) config_manager" where
  "one_group_store = \<lparr>getConfig = (\<lambda>st name. Inr st), saveConfigs = (\<lambda>st new. Inr new)\<rparr>"

definition failing_store :: "(config_group option) config_manager" where
  "failing_store =
     \<lparr>getConfig = (\<lambda>st name. Inr st),
      saveConfigs = (\<lambda>st new. Inl (TransportError JUndefined JUndefined))\<rparr>"

definition single :: "string \<Rightarrow> jsval \<Rightarrow> param" where
  "single k v = \<lparr>key = k, pvalue = [v]\<rparr>"

definition group_of :: "param list \<Rightarrow> config_group option" where
  "group_of ps = Some \<lparr>params = Some ps\<rparr>"

definition with_params :: "param list \<Rightarrow> call_options" where
  "with_params ps =
     \<lparr>configs = group_of ps, opt_sort = JUndefined, opt_page = JUndefined,
      opt_perPage = JUndefined\<rparr>"

definition github_group :: "string \<Rightarrow> string \<Rightarrow> config_group option" where
  "github_group token own = group_of [single ''owner'' (JStr own), single ''token'' (JStr token)]"

definition bitbucket_group :: "string \<Rightarrow> string \<Rightarrow> string \<Rightarrow> config_group option" where
  "bitbucket_group username appPassword own =
     group_of [single ''username'' (JStr username), single ''appPassword'' (JStr appPassword),
               single ''owner'' (JStr own)]"

definition config_update_failed :: thrown where
  "config_update_failed =
     AppError ''Failed to update plugin configuration'' 500 (Some ''CONFIG_UPDATE_FAILED'')"

text \<open>
  The provider after a successful \<^verbatim>\<open>init()\<close> against a store holding the token
  \<open>tok_1\<close> and the owner \<open>acme\<close>, resp. the Bitbucket credentials.
\<close>

definition github_ready :: "(config_group option) state" where
  "github_ready =
     snd (gh_init one_group_store (answering JNull)
            (new_provider github_config (github_group ''tok_1'' ''acme'')))"

definition bitbucket_ready :: "(config_group option) state" where
  "bitbucket_ready =
     snd (bb_init one_group_store (answering JNull)
            (new_provider bitbucket_config (bitbucket_group ''jane'' ''app_pw'' ''acme'')))"

section \<open>Vocabulary of the properties\<close>

text \<open>
  A required parameter is missing from a parameter sequence when no entry has the key,
  when the first entry with the key has an empty value sequence, or when its first
  value is a string that is empty after trimming.
\<close>

definition required_missing :: "param list \<Rightarrow> string \<Rightarrow> bool" where
  "required_missing ps k =
     (case find_param ps k of
        None \<Rightarrow> True
      | Some par \<Rightarrow>
          (case pvalue par of
             [] \<Rightarrow> True
           | v # vs \<Rightarrow> (case v of JStr s \<Rightarrow> trim s = [] | _ \<Rightarrow> False)))"

text \<open>The first value under a key, when there is one, is a string (or null).\<close>

definition string_or_absent :: "param list \<Rightarrow> string \<Rightarrow> bool" where
  "string_or_absent ps k =
     (case first_value (find_param ps k) of
        JUndefined \<Rightarrow> True | JNull \<Rightarrow> True | JStr s \<Rightarrow> True | _ \<Rightarrow> False)"

text \<open>
  The parameters an action requires (the operands of its \<^verbatim>\<open>if (!a || !b)\<close> check)
  and the parameters it extracts with \<^verbatim>\<open>trim()\<close>.
\<close>

fun required_keys :: "action \<Rightarrow> string list" where
  "required_keys GH_actionUpdatePluginConfig = []"
| "required_keys GH_actionListRepos = []"
| "required_keys GH_actionGetRepo = [''repoName'']"
| "required_keys GH_actionListRepoContents = [''repoName'']"
| "required_keys GH_actionGetRepoFileContent = [''repoName'', ''path'']"
| "required_keys GH_actionListBranches = [''repoName'']"
| "required_keys GH_actionListBranchCommits = [''repoName'']"
| "required_keys GH_actionListCommitModifications = [''repoName'', ''commitSha'']"
| "required_keys GH_actionGetCommitDetails = [''repoName'', ''commitSha'']"
| "required_keys GH_actionCommitsDiff = [''repoName'', ''baseCommit'', ''headCommit'']"
| "required_keys GH_actionCommentPrs = [''repoName'', ''prNumber'', ''comment'']"
| "required_keys GH_actionListPipelines = [''repoName'']"
| "required_keys GH_actionListDeployments = [''repoName'']"
| "required_keys BB_actionListBitbucketWorkspaces = []"
| "required_keys BB_actionListRepos = []"
| "required_keys BB_actionGetRepo = [''repoName'']"
| "required_keys BB_actionListRepoContents = [''repoName'', ''ref'']"
| "required_keys BB_actionGetRepoFileContent = [''repoName'', ''path'']"
| "required_keys BB_actionListRepoBranches = [''repoName'']"
| "required_keys BB_actionListBranchCommits = [''repoName'']"
| "required_keys BB_actionListCommitModifications = [''repoName'', ''commitSha'']"
| "required_keys BB_actionGetCommitDetails = [''repoName'', ''commitSha'']"
| "required_keys BB_actionCommitsDiff = [''repoName'', ''baseCommit'', ''headCommit'']"
| "required_keys BB_actionCommentPRs = [''repoName'', ''prNumber'', ''comment'']"
| "required_keys BB_actionListPipelines = [''repoName'']"
| "required_keys BB_actionListDeployments = [''repoName'']"

fun trimmed_keys :: "action \<Rightarrow> string list" where
  "trimmed_keys GH_actionUpdatePluginConfig = []"
| "trimmed_keys GH_actionListRepos = []"
| "trimmed_keys GH_actionGetRepo = [''repoName'']"
| "trimmed_keys GH_actionListRepoContents = [''repoName'', ''path'', ''ref'']"
| "trimmed_keys GH_actionGetRepoFileContent = [''repoName'', ''path'', ''ref'']"
| "trimmed_keys GH_actionListBranches = [''repoName'']"
| "trimmed_keys GH_actionListBranchCommits = [''repoName'', ''branch'']"
| "trimmed_keys GH_actionListCommitModifications = [''repoName'', ''commitSha'']"
| "trimmed_keys GH_actionGetCommitDetails = [''repoName'', ''commitSha'']"
| "trimmed_keys GH_actionCommitsDiff = [''repoName'', ''baseCommit'', ''headCommit'', ''filePath'']"
| "trimmed_keys GH_actionCommentPrs = [''repoName'', ''prNumber'', ''comment'']"
| "trimmed_keys GH_actionListPipelines = [''repoName'']"
| "trimmed_keys GH_actionListDeployments = [''repoName'']"
| "trimmed_keys BB_actionListBitbucketWorkspaces = []"
| "trimmed_keys BB_actionListRepos = []"
| "trimmed_keys BB_actionGetRepo = [''repoName'']"
| "trimmed_keys BB_actionListRepoContents = [''repoName'', ''ref'']"
| "trimmed_keys BB_actionGetRepoFileContent = [''repoName'', ''path'', ''ref'']"
| "trimmed_keys BB_actionListRepoBranches = [''repoName'']"
| "trimmed_keys BB_actionListBranchCommits = [''repoName'', ''branch'']"
| "trimmed_keys BB_actionListCommitModifications = [''repoName'', ''commitSha'']"
| "trimmed_keys BB_actionGetCommitDetails = [''repoName'', ''commitSha'']"
| "trimmed_keys BB_actionCommitsDiff = [''repoName'', ''baseCommit'', ''headCommit'']"
| "trimmed_keys BB_actionCommentPRs = [''repoName'', ''prNumber'', ''comment'']"
| "trimmed_keys BB_actionListPipelines = [''repoName'']"
| "trimmed_keys BB_actionListDeployments = [''repoName'']"

text \<open>
  What each action answers when a required parameter is missing and every trimmed
  parameter is a string: \<open>400 MISSING_REQUIRED_PARAMS\<close> in sixteen actions, the 500 of
  the catch block after \<^verbatim>\<open>throw new Error()\<close> in BitbucketProvider.actionGetRepo
  and actionListBranchCommits, and a 400 built without an error code in
  BitbucketProvider.actionGetRepoFileContent and actionListRepoBranches. No entry is given
  for GithubProvider.actionListCommitModifications (its extraction has no optional
  chaining) and BitbucketProvider.actionGetCommitDetails (its catch block has no 400
  branch), nor for the actions without required parameters.
\<close>

fun missing_error :: "action \<Rightarrow> thrown option" where
  "missing_error GH_actionGetRepo = Some (missing_params ''Repository name is required'')"
| "missing_error GH_actionListRepoContents = Some (missing_params ''Repository name is required'')"
| "missing_error GH_actionGetRepoFileContent =
     Some (missing_params ''Repository name and file path are required'')"
| "missing_error GH_actionListBranches = Some (missing_params ''Repository name is required'')"
| "missing_error GH_actionListBranchCommits = Some (missing_params ''Repository name is required'')"
| "missing_error GH_actionGetCommitDetails =
     Some (missing_params ''Repository name and commit SHA are required'')"
| "missing_error GH_actionCommitsDiff =
     Some (missing_params ''Repository name, base commit and head commit are required'')"
| "missing_error GH_actionCommentPrs =
     Some (missing_params ''Repository name, PR number and comment text are required'')"
| "missing_error GH_actionListPipelines = Some (missing_params ''Repository name is required'')"
| "missing_error GH_actionListDeployments = Some (missing_params ''Repository name is required'')"
| "missing_error BB_actionGetRepo =
     Some (AppError ''Failed to fetch repository'' 500 (Some ''FETCH_REPO_FAILED''))"
| "missing_error BB_actionListRepoContents =
     Some (missing_params ''Repository name and commit are required'')"
| "missing_error BB_actionGetRepoFileContent =
     Some (AppError
       ''In order to fetch file/directory contents from Bitbucket please fill all required fields.''
       400 None)"
| "missing_error BB_actionListRepoBranches =
     Some (AppError ''Please required field (repository name)'' 400 None)"
| "missing_error BB_actionListBranchCommits =
     Some (AppError ''Failed to fetch commits'' 500 (Some ''FETCH_COMMITS_FAILED''))"
| "missing_error BB_actionListCommitModifications =
     Some (missing_params ''Repository name and commit SHA are required'')"
| "missing_error BB_actionCommitsDiff =
     Some (missing_params ''Repository name, base commit and head commit are required'')"
| "missing_error BB_actionCommentPRs =
     Some (missing_params ''Repository name, PR number and comment text are required'')"
| "missing_error BB_actionListPipelines = Some (missing_params ''Repository name is required'')"
| "missing_error BB_actionListDeployments = Some (missing_params ''Repository name is required'')"
| "missing_error a = None"

text \<open>The sixteen actions that answer a missing required parameter with 400 MISSING_REQUIRED_PARAMS.\<close>

definition missing_400_actions :: "action list" where
  "missing_400_actions =
     [GH_actionGetRepo, GH_actionListRepoContents, GH_actionGetRepoFileContent,
      GH_actionListBranches, GH_actionListBranchCommits, GH_actionGetCommitDetails,
      GH_actionCommitsDiff, GH_actionCommentPrs, GH_actionListPipelines,
      GH_actionListDeployments, BB_actionListRepoContents, BB_actionListCommitModifications,
      BB_actionCommitsDiff, BB_actionCommentPRs, BB_actionListPipelines,
      BB_actionListDeployments]"

text \<open>
  An error carries the status 400 (resp. 401) when its \<^verbatim>\<open>response.status\<close> or its
  \<^verbatim>\<open>statusCode\<close> is that number, or its \<^verbatim>\<open>statusCode\<close> is that numeral as a
  string.
\<close>

definition is_400 :: "thrown \<Rightarrow> bool" where
  "is_400 e =
     (resp_status e = JNum 400 \<or> status_code e = JNum 400 \<or> status_code e = JStr ''400'')"

definition is_401 :: "thrown \<Rightarrow> bool" where
  "is_401 e =
     (resp_status e = JNum 401 \<or> status_code e = JNum 401 \<or> status_code e = JStr ''401'')"

text \<open>The actions whose catch block has a branch that re-throws an error of status 400.\<close>

primrec passes_400 :: "action \<Rightarrow> bool" where
  "passes_400 GH_actionUpdatePluginConfig = False"
| "passes_400 GH_actionListRepos = True"
| "passes_400 GH_actionGetRepo = True"
| "passes_400 GH_actionListRepoContents = True"
| "passes_400 GH_actionGetRepoFileContent = True"
| "passes_400 GH_actionListBranches = True"
| "passes_400 GH_actionListBranchCommits = True"
| "passes_400 GH_actionListCommitModifications = True"
| "passes_400 GH_actionGetCommitDetails = True"
| "passes_400 GH_actionCommitsDiff = True"
| "passes_400 GH_actionCommentPrs = True"
| "passes_400 GH_actionListPipelines = True"
| "passes_400 GH_actionListDeployments = True"
| "passes_400 BB_actionListBitbucketWorkspaces = True"
| "passes_400 BB_actionListRepos = False"
| "passes_400 BB_actionGetRepo = False"
| "passes_400 BB_actionListRepoContents = True"
| "passes_400 BB_actionGetRepoFileContent = True"
| "passes_400 BB_actionListRepoBranches = True"
| "passes_400 BB_actionListBranchCommits = False"
| "passes_400 BB_actionListCommitModifications = True"
| "passes_400 BB_actionGetCommitDetails = False"
| "passes_400 BB_actionCommitsDiff = True"
| "passes_400 BB_actionCommentPRs = True"
| "passes_400 BB_actionListPipelines = True"
| "passes_400 BB_actionListDeployments = True"

text \<open>The actions whose catch block has a branch for the status 404.\<close>

primrec maps_404 :: "action \<Rightarrow> bool" where
  "maps_404 GH_actionUpdatePluginConfig = False"
| "maps_404 GH_actionListRepos = True"
| "maps_404 GH_actionGetRepo = True"
| "maps_404 GH_actionListRepoContents = True"
| "maps_404 GH_actionGetRepoFileContent = True"
| "maps_404 GH_actionListBranches = True"
| "maps_404 GH_actionListBranchCommits = True"
| "maps_404 GH_actionListCommitModifications = True"
| "maps_404 GH_actionGetCommitDetails = True"
| "maps_404 GH_actionCommitsDiff = True"
| "maps_404 GH_actionCommentPrs = True"
| "maps_404 GH_actionListPipelines = True"
| "maps_404 GH_actionListDeployments = True"
| "maps_404 BB_actionListBitbucketWorkspaces = False"
| "maps_404 BB_actionListRepos = False"
| "maps_404 BB_actionGetRepo = False"
| "maps_404 BB_actionListRepoContents = False"
| "maps_404 BB_actionGetRepoFileContent = False"
| "maps_404 BB_actionListRepoBranches = False"
| "maps_404 BB_actionListBranchCommits = False"
| "maps_404 BB_actionListCommitModifications = False"
| "maps_404 BB_actionGetCommitDetails = True"
| "maps_404 BB_actionCommitsDiff = False"
| "maps_404 BB_actionCommentPRs = False"
| "maps_404 BB_actionListPipelines = False"
| "maps_404 BB_actionListDeployments = False"

text \<open>
  A credential is missing or empty in a configuration group when no entry has its key,
  when the first entry with the key has an empty value sequence, or when its first value
  is the empty string.
\<close>

definition credential_missing :: "config_group option \<Rightarrow> string \<Rightarrow> bool" where
  "credential_missing cfgs k =
     (case config_param cfgs k of
        None \<Rightarrow> True
      | Some par \<Rightarrow> (case pvalue par of [] \<Rightarrow> True | v # vs \<Rightarrow> v = JStr ''''))"

definition user_request :: request where
  "user_request = \<lparr>meth = GET, url = ''/user'', query = [], body = JUndefined\<rparr>"

section \<open>Basic facts about sequencing and try/catch\<close>

lemma run_try_catch:
  "run cm T a options = try_catch (body_of cm T a options) (\<lambda>error. throw (catch_of a error))"
  by (cases a)
     (simp_all add: gh_actionUpdatePluginConfig_def gh_actionListRepos_def gh_actionGetRepo_def
        gh_actionListRepoContents_def gh_actionGetRepoFileContent_def gh_actionListBranches_def
        gh_actionListBranchCommits_def gh_actionListCommitModifications_def
        gh_actionGetCommitDetails_def gh_actionCommitsDiff_def gh_actionCommentPrs_def
        gh_actionListPipelines_def gh_actionListDeployments_def
        bb_actionListBitbucketWorkspaces_def bb_actionListRepos_def bb_actionGetRepo_def
        bb_actionListRepoContents_def bb_actionGetRepoFileContent_def bb_actionListRepoBranches_def
        bb_actionListBranchCommits_def bb_actionListCommitModifications_def
        bb_actionGetCommitDetails_def bb_actionCommitsDiff_def bb_actionCommentPRs_def
        bb_actionListPipelines_def bb_actionListDeployments_def)

lemma try_catch_fail:
  "m s = (Inl e, s') \<Longrightarrow> try_catch m (\<lambda>error. throw (h error)) s = (Inl (h e), s')"
  by (simp add: try_catch_def throw_def)

lemma try_catch_ok:
  "m s = (Inr x, s') \<Longrightarrow> try_catch m h s = (Inr x, s')"
  by (simp add: try_catch_def)

lemma try_catch_cases:
  assumes "try_catch m (\<lambda>error. throw (h error)) s = (r, s')"
  obtains (thrown) e where "m s = (Inl e, s')" and "r = Inl (h e)"
        | (returned) x where "m s = (Inr x, s')" and "r = Inr x"
  using assms by (auto simp: try_catch_def throw_def split: prod.splits sum.splits)

lemmas prog_defs = bnd_def ret_def throw_def lift_e_def try_catch_def this_owner_def set_owner_def
  set_client_def get_config_def save_configs_def client_get_def client_post_def client_request_def

lemmas env_defs = new_provider_def github_config_def bitbucket_config_def upstream_def answering_def
  rejecting_def one_group_store_def failing_store_def single_def group_of_def with_params_def
  github_group_def bitbucket_group_def

lemmas gh_init_defs = gh_init_def gh_init_body_def gh_init_catch_def gh_createClient_def
  gh_client_def config_param_def find_param_def first_value_def js_or_def

lemmas bb_init_defs = bb_init_def bb_init_body_def bb_init_catch_def bb_createClient_def
  bb_client_def config_param_def config_value_def find_param_def js_or_def

section \<open>actionUpdatePluginConfig\<close>

lemma update_unfold:
  "gh_actionUpdatePluginConfig cm T options s =
    (case saveConfigs cm (store s) (configs options) of
       Inl e \<Rightarrow> (Inl config_update_failed, s)
     | Inr st \<Rightarrow>
        (case gh_init cm T (s\<lparr>store := st\<rparr>) of
           (Inl e, s') \<Rightarrow> (Inl config_update_failed, s')
         | (Inr u, s') \<Rightarrow>
             (Inr (ConfigUpdated ''Configuration updated successfully'' (configs options)), s')))"
  by (simp add: gh_actionUpdatePluginConfig_def gh_actionUpdatePluginConfig_body_def
      gh_actionUpdatePluginConfig_catch_def config_update_failed_def try_catch_def bnd_def
      save_configs_def throw_def ret_def Let_def
      split: sum.splits prod.splits)

text \<open>
  C6. actionUpdatePluginConfig(options) hands \<^verbatim>\<open>options.configs\<close> as it is to
  \<^verbatim>\<open>saveConfigs\<close>, then runs \<^verbatim>\<open>init()\<close> on the updated store. When saving
  fails, or when the re-initialisation fails, it fails with the AppError
  \<open>{statusCode: 500, errorCode: "CONFIG_UPDATE_FAILED"}\<close>; when both succeed it returns
  exactly \<open>{message: "Configuration updated successfully", configs: options.configs}\<close>.
\<close>

theorem C6_actionUpdatePluginConfig:
  "(\<forall>e. saveConfigs cm (store s) (configs options) = Inl e \<longrightarrow>
       gh_actionUpdatePluginConfig cm T options s = (Inl config_update_failed, s))
   \<and> (\<forall>st e s'. saveConfigs cm (store s) (configs options) = Inr st \<longrightarrow>
         gh_init cm T (s\<lparr>store := st\<rparr>) = (Inl e, s') \<longrightarrow>
         gh_actionUpdatePluginConfig cm T options s = (Inl config_update_failed, s'))
   \<and> (\<forall>st u s'. saveConfigs cm (store s) (configs options) = Inr st \<longrightarrow>
         gh_init cm T (s\<lparr>store := st\<rparr>) = (Inr u, s') \<longrightarrow>
         gh_actionUpdatePluginConfig cm T options s =
           (Inr (ConfigUpdated ''Configuration updated successfully'' (configs options)), s'))"
  by (simp add: update_unfold)

theorem C6_actionUpdatePluginConfig_witness:
  "fst (gh_actionUpdatePluginConfig one_group_store (answering JNull)
          (with_params [single ''owner'' (JStr ''acme''), single ''token'' (JStr ''tok_1'')])
          (new_provider github_config None))
     = Inr (ConfigUpdated ''Configuration updated successfully'' (github_group ''tok_1'' ''acme''))
   \<and> fst (gh_actionUpdatePluginConfig failing_store (answering JNull)
          (with_params [single ''owner'' (JStr ''acme''), single ''token'' (JStr ''tok_1'')])
          (new_provider github_config None))
     = Inl config_update_failed
   \<and> fst (gh_actionUpdatePluginConfig one_group_store (rejecting 403)
          (with_params [single ''owner'' (JStr ''acme''), single ''token'' (JStr ''tok_1'')])
          (new_provider github_config None))
     = Inl config_update_failed"
proof -
  let ?o = "with_params [single ''owner'' (JStr ''acme''), single ''token'' (JStr ''tok_1'')]"
  let ?s = "new_provider github_config (None :: config_group option)"
  have cfg: "configs ?o = github_group ''tok_1'' ''acme''"
    by (simp add: env_defs)
  have save: "saveConfigs one_group_store (store ?s) (configs ?o) = Inr (github_group ''tok_1'' ''acme'')"
    by (simp add: env_defs)
  obtain u s1 where ok:
    "gh_init one_group_store (answering JNull) (?s\<lparr>store := github_group ''tok_1'' ''acme''\<rparr>)
       = (Inr u, s1)"
    by (simp add: gh_init_defs prog_defs env_defs)
  obtain e s2 where bad:
    "gh_init one_group_store (rejecting 403) (?s\<lparr>store := github_group ''tok_1'' ''acme''\<rparr>)
       = (Inl e, s2)"
    by (simp add: gh_init_defs prog_defs env_defs)
  have nosave: "saveConfigs failing_store (store ?s) (configs ?o)
                  = Inl (TransportError JUndefined JUndefined)"
    by (simp add: env_defs)
  from C6_actionUpdatePluginConfig [of one_group_store ?s ?o "answering JNull"] save ok
  have 1: "gh_actionUpdatePluginConfig one_group_store (answering JNull) ?o ?s
             = (Inr (ConfigUpdated ''Configuration updated successfully'' (configs ?o)), s1)"
    by blast
  from C6_actionUpdatePluginConfig [of failing_store ?s ?o "answering JNull"] nosave
  have 2: "gh_actionUpdatePluginConfig failing_store (answering JNull) ?o ?s
             = (Inl config_update_failed, ?s)"
    by blast
  from C6_actionUpdatePluginConfig [of one_group_store ?s ?o "rejecting 403"] save bad
  have 3: "gh_actionUpdatePluginConfig one_group_store (rejecting 403) ?o ?s
             = (Inl config_update_failed, s2)"
    by blast
  from 1 2 3 cfg show ?thesis by simp
qed

section \<open>Parameter extraction\<close>

text \<open>
  C8. The extraction of GithubProvider.actionListCommitModifications (lines 346-350) reads
  \<^verbatim>\<open>.value[0].trim()\<close> without optional chaining: on a parameter sequence with no
  \<^verbatim>\<open>repoName\<close> entry it throws a TypeError, which the catch block of the action
  reports as \<open>500 FETCH_MODIFICATIONS_FAILED\<close>, while the idiom of the other actions
  returns the default.
\<close>

theorem C8_strict_extraction_throws:
  "get_strict [] ''repoName'' (JStr '''') = Inl TypeError
   \<and> get_trimmed [] ''repoName'' (JStr '''') = Inr (JStr '''')
   \<and> gh_actionListCommitModifications T (with_params []) s
       = (Inl (AppError ''Failed to fetch commit modifications'' 500
                 (Some ''FETCH_MODIFICATIONS_FAILED'')), s)"
  by (simp add: gh_actionListCommitModifications_def gh_actionListCommitModifications_body_def
      gh_actionListCommitModifications_catch_def catch_404_400_500_def prog_defs env_defs
      params_or_empty_def call_params_def get_strict_def get_trimmed_def get_trim_def
      find_param_def first_value_def js_or_def)
lemmas action_defs =
  gh_actionUpdatePluginConfig_def gh_actionListRepos_def gh_actionGetRepo_def
  gh_actionListRepoContents_def gh_actionGetRepoFileContent_def gh_actionListBranches_def
  gh_actionListBranchCommits_def gh_actionListCommitModifications_def
  gh_actionGetCommitDetails_def gh_actionCommitsDiff_def gh_actionCommentPrs_def
  gh_actionListPipelines_def gh_actionListDeployments_def
  bb_actionListBitbucketWorkspaces_def bb_actionListRepos_def bb_actionGetRepo_def
  bb_actionListRepoContents_def bb_actionGetRepoFileContent_def bb_actionListRepoBranches_def
  bb_actionListBranchCommits_def bb_actionListCommitModifications_def
  bb_actionGetCommitDetails_def bb_actionCommitsDiff_def bb_actionCommentPRs_def
  bb_actionListPipelines_def bb_actionListDeployments_def

lemmas body_defs =
  gh_actionUpdatePluginConfig_body_def gh_actionListRepos_body_def gh_actionGetRepo_body_def
  gh_actionListRepoContents_body_def gh_actionGetRepoFileContent_body_def
  gh_actionListBranches_body_def gh_actionListBranchCommits_body_def
  gh_actionListCommitModifications_body_def gh_actionGetCommitDetails_body_def
  gh_actionCommitsDiff_body_def gh_actionCommentPrs_body_def gh_actionListPipelines_body_def
  gh_actionListDeployments_body_def
  bb_actionListBitbucketWorkspaces_body_def bb_actionListRepos_body_def bb_actionGetRepo_body_def
  bb_actionListRepoContents_body_def bb_actionGetRepoFileContent_body_def
  bb_actionListRepoBranches_body_def bb_actionListBranchCommits_body_def
  bb_actionListCommitModifications_body_def bb_actionGetCommitDetails_body_def
  bb_actionCommitsDiff_body_def bb_actionCommentPRs_body_def bb_actionListPipelines_body_def
  bb_actionListDeployments_body_def

lemmas catch_defs =
  gh_actionUpdatePluginConfig_catch_def gh_actionListRepos_catch_def gh_actionGetRepo_catch_def
  gh_actionListRepoContents_catch_def gh_actionGetRepoFileContent_catch_def
  gh_actionListBranches_catch_def gh_actionListBranchCommits_catch_def
  gh_actionListCommitModifications_catch_def gh_actionGetCommitDetails_catch_def
  gh_actionCommitsDiff_catch_def gh_actionCommentPrs_catch_def gh_actionListPipelines_catch_def
  gh_actionListDeployments_catch_def
  bb_actionListBitbucketWorkspaces_catch_def bb_actionListRepos_catch_def bb_actionGetRepo_catch_def
  bb_actionListRepoContents_catch_def bb_actionGetRepoFileContent_catch_def
  bb_actionListRepoBranches_catch_def bb_actionListBranchCommits_catch_def
  bb_actionListCommitModifications_catch_def bb_actionGetCommitDetails_catch_def
  bb_actionCommitsDiff_catch_def bb_actionCommentPRs_catch_def bb_actionListPipelines_catch_def
  bb_actionListDeployments_catch_def

lemmas catch_shape_defs =
  catch_404_400_500_def catch_400s_500_def catch_400_500_def catch_404_500_def catch_500_def

section \<open>Required parameters\<close>

lemma get_trimmed_missing:
  "required_missing ps k \<Longrightarrow> get_trimmed ps k (JStr '''') = Inr (JStr '''')"
  by (auto simp: required_missing_def get_trimmed_def get_trim_def first_value_def js_or_def
      split: option.splits list.splits jsval.splits)

lemma get_trimmed_typed:
  "string_or_absent ps k \<Longrightarrow> get_trimmed ps k d \<noteq> Inl e"
  by (auto simp: string_or_absent_def get_trimmed_def get_trim_def split: jsval.splits)

lemma get_trim_typed:
  "string_or_absent ps k \<Longrightarrow> get_trim ps k \<noteq> Inl e"
  by (auto simp: string_or_absent_def get_trim_def split: jsval.splits)

lemma opt_trim_Inl: "opt_trim v = Inl e \<Longrightarrow> e = TypeError"
  by (cases v) auto

lemma get_trim_Inl: "get_trim ps k = Inl e \<Longrightarrow> e = TypeError"
  by (auto simp: get_trim_def dest: opt_trim_Inl)

lemma get_trimmed_Inl: "get_trimmed ps k d = Inl e \<Longrightarrow> e = TypeError"
  by (auto simp: get_trimmed_def split: sum.splits dest: get_trim_Inl)

lemma get_strict_Inl: "get_strict ps k d = Inl e \<Longrightarrow> e = TypeError"
  by (auto simp: get_strict_def split: option.splits list.splits jsval.splits)

lemma get_strict_missing:
  "required_missing ps k \<Longrightarrow>
     get_strict ps k (JStr '''') = Inl TypeError \<or> get_strict ps k (JStr '''') = Inr (JStr '''')"
  by (auto simp: required_missing_def get_strict_def js_or_def
      split: option.splits list.splits jsval.splits)

lemma missing_gh_actionGetRepo:
  assumes "k \<in> set (required_keys GH_actionGetRepo)"
    and "required_missing (params_or_empty options) k"
    and "\<forall>k' \<in> set (trimmed_keys GH_actionGetRepo). string_or_absent (params_or_empty options) k'"
  shows "gh_actionGetRepo T options s =
           (Inl (missing_params ''Repository name is required''), s)"
  using assms
  by (auto simp: gh_actionGetRepo_def gh_actionGetRepo_body_def gh_actionGetRepo_catch_def catch_shape_defs
        missing_params_def bnd_def lift_e_def throw_def try_catch_def Let_def
        get_trimmed_missing get_trimmed_typed get_trim_typed split: sum.splits)

lemma missing_gh_actionListRepoContents:
  assumes "k \<in> set (required_keys GH_actionListRepoContents)"
    and "required_missing (params_or_empty options) k"
    and "\<forall>k' \<in> set (trimmed_keys GH_actionListRepoContents). string_or_absent (params_or_empty options) k'"
  shows "gh_actionListRepoContents T options s =
           (Inl (missing_params ''Repository name is required''), s)"
  using assms
  by (auto simp: gh_actionListRepoContents_def gh_actionListRepoContents_body_def gh_actionListRepoContents_catch_def catch_shape_defs
        missing_params_def bnd_def lift_e_def throw_def try_catch_def Let_def
        get_trimmed_missing get_trimmed_typed get_trim_typed split: sum.splits)

lemma missing_gh_actionGetRepoFileContent:
  assumes "k \<in> set (required_keys GH_actionGetRepoFileContent)"
    and "required_missing (params_or_empty options) k"
    and "\<forall>k' \<in> set (trimmed_keys GH_actionGetRepoFileContent). string_or_absent (params_or_empty options) k'"
  shows "gh_actionGetRepoFileContent T options s =
           (Inl (missing_params ''Repository name and file path are required''), s)"
  using assms
  by (auto simp: gh_actionGetRepoFileContent_def gh_actionGetRepoFileContent_body_def gh_actionGetRepoFileContent_catch_def catch_shape_defs
        missing_params_def bnd_def lift_e_def throw_def try_catch_def Let_def
        get_trimmed_missing get_trimmed_typed get_trim_typed split: sum.splits)

lemma missing_gh_actionListBranches:
  assumes "k \<in> set (required_keys GH_actionListBranches)"
    and "required_missing (params_or_empty options) k"
    and "\<forall>k' \<in> set (trimmed_keys GH_actionListBranches). string_or_absent (params_or_empty options) k'"
  shows "gh_actionListBranches T options s =
           (Inl (missing_params ''Repository name is required''), s)"
  using assms
  by (auto simp: gh_actionListBranches_def gh_actionListBranches_body_def gh_actionListBranches_catch_def catch_shape_defs
        missing_params_def bnd_def lift_e_def throw_def try_catch_def Let_def
        get_trimmed_missing get_trimmed_typed get_trim_typed split: sum.splits)

lemma missing_gh_actionListBranchCommits:
  assumes "k \<in> set (required_keys GH_actionListBranchCommits)"
    and "required_missing (params_or_empty options) k"
    and "\<forall>k' \<in> set (trimmed_keys GH_actionListBranchCommits). string_or_absent (params_or_empty options) k'"
  shows "gh_actionListBranchCommits T options s =
           (Inl (missing_params ''Repository name is required''), s)"
  using assms
  by (auto simp: gh_actionListBranchCommits_def gh_actionListBranchCommits_body_def gh_actionListBranchCommits_catch_def catch_shape_defs
        missing_params_def bnd_def lift_e_def throw_def try_catch_def Let_def
        get_trimmed_missing get_trimmed_typed get_trim_typed split: sum.splits)

lemma missing_gh_actionGetCommitDetails:
  assumes "k \<in> set (required_keys GH_actionGetCommitDetails)"
    and "required_missing (params_or_empty options) k"
    and "\<forall>k' \<in> set (trimmed_keys GH_actionGetCommitDetails). string_or_absent (params_or_empty options) k'"
  shows "gh_actionGetCommitDetails T options s =
           (Inl (missing_params ''Repository name and commit SHA are required''), s)"
  using assms
  by (auto simp: gh_actionGetCommitDetails_def gh_actionGetCommitDetails_body_def gh_actionGetCommitDetails_catch_def catch_shape_defs
        missing_params_def bnd_def lift_e_def throw_def try_catch_def Let_def
        get_trimmed_missing get_trimmed_typed get_trim_typed split: sum.splits)

lemma missing_gh_actionCommitsDiff:
  assumes "k \<in> set (required_keys GH_actionCommitsDiff)"
    and "required_missing (params_or_empty options) k"
    and "\<forall>k' \<in> set (trimmed_keys GH_actionCommitsDiff). string_or_absent (params_or_empty options) k'"
  shows "gh_actionCommitsDiff T options s =
           (Inl (missing_params ''Repository name, base commit and head commit are required''), s)"
  using assms
  by (auto simp: gh_actionCommitsDiff_def gh_actionCommitsDiff_body_def gh_actionCommitsDiff_catch_def catch_shape_defs
        missing_params_def bnd_def lift_e_def throw_def try_catch_def Let_def
        get_trimmed_missing get_trimmed_typed get_trim_typed split: sum.splits)

lemma missing_gh_actionCommentPrs:
  assumes "k \<in> set (required_keys GH_actionCommentPrs)"
    and "required_missing (params_or_empty options) k"
    and "\<forall>k' \<in> set (trimmed_keys GH_actionCommentPrs). string_or_absent (params_or_empty options) k'"
  shows "gh_actionCommentPrs T options s =
           (Inl (missing_params ''Repository name, PR number and comment text are required''), s)"
  using assms
  by (auto simp: gh_actionCommentPrs_def gh_actionCommentPrs_body_def gh_actionCommentPrs_catch_def catch_shape_defs
        missing_params_def bnd_def lift_e_def throw_def try_catch_def Let_def
        get_trimmed_missing get_trimmed_typed get_trim_typed split: sum.splits)

lemma missing_gh_actionListPipelines:
  assumes "k \<in> set (required_keys GH_actionListPipelines)"
    and "required_missing (params_or_empty options) k"
    and "\<forall>k' \<in> set (trimmed_keys GH_actionListPipelines). string_or_absent (params_or_empty options) k'"
  shows "gh_actionListPipelines T options s =
           (Inl (missing_params ''Repository name is required''), s)"
  using assms
  by (auto simp: gh_actionListPipelines_def gh_actionListPipelines_body_def gh_actionListPipelines_catch_def catch_shape_defs
        missing_params_def bnd_def lift_e_def throw_def try_catch_def Let_def
        get_trimmed_missing get_trimmed_typed get_trim_typed split: sum.splits)

lemma missing_gh_actionListDeployments:
  assumes "k \<in> set (required_keys GH_actionListDeployments)"
    and "required_missing (params_or_empty options) k"
    and "\<forall>k' \<in> set (trimmed_keys GH_actionListDeployments). string_or_absent (params_or_empty options) k'"
  shows "gh_actionListDeployments T options s =
           (Inl (missing_params ''Repository name is required''), s)"
  using assms
  by (auto simp: gh_actionListDeployments_def gh_actionListDeployments_body_def gh_actionListDeployments_catch_def catch_shape_defs
        missing_params_def bnd_def lift_e_def throw_def try_catch_def Let_def
        get_trimmed_missing get_trimmed_typed get_trim_typed split: sum.splits)

lemma missing_bb_actionGetRepo:
  assumes "k \<in> set (required_keys BB_actionGetRepo)"
    and "required_missing (params_or_empty options) k"
    and "\<forall>k' \<in> set (trimmed_keys BB_actionGetRepo). string_or_absent (params_or_empty options) k'"
  shows "bb_actionGetRepo T options s =
           (Inl (AppError ''Failed to fetch repository'' 500 (Some ''FETCH_REPO_FAILED'')), s)"
  using assms
  by (auto simp: bb_actionGetRepo_def bb_actionGetRepo_body_def bb_actionGetRepo_catch_def catch_shape_defs
        missing_params_def bnd_def lift_e_def throw_def try_catch_def Let_def
        get_trimmed_missing get_trimmed_typed get_trim_typed split: sum.splits)

lemma missing_bb_actionListRepoContents:
  assumes "k \<in> set (required_keys BB_actionListRepoContents)"
    and "required_missing (params_or_empty options) k"
    and "\<forall>k' \<in> set (trimmed_keys BB_actionListRepoContents). string_or_absent (params_or_empty options) k'"
  shows "bb_actionListRepoContents T options s =
           (Inl (missing_params ''Repository name and commit are required''), s)"
  using assms
  by (auto simp: bb_actionListRepoContents_def bb_actionListRepoContents_body_def bb_actionListRepoContents_catch_def catch_shape_defs
        missing_params_def bnd_def lift_e_def throw_def try_catch_def Let_def
        get_trimmed_missing get_trimmed_typed get_trim_typed split: sum.splits)

lemma missing_bb_actionGetRepoFileContent:
  assumes "k \<in> set (required_keys BB_actionGetRepoFileContent)"
    and "required_missing (params_or_empty options) k"
    and "\<forall>k' \<in> set (trimmed_keys BB_actionGetRepoFileContent). string_or_absent (params_or_empty options) k'"
  shows "bb_actionGetRepoFileContent T options s =
           (Inl (AppError ''In order to fetch file/directory contents from Bitbucket please fill all required fields.'' 400 None), s)"
  using assms
  by (auto simp: bb_actionGetRepoFileContent_def bb_actionGetRepoFileContent_body_def bb_actionGetRepoFileContent_catch_def catch_shape_defs
        missing_params_def bnd_def lift_e_def throw_def try_catch_def Let_def
        get_trimmed_missing get_trimmed_typed get_trim_typed split: sum.splits)

lemma missing_bb_actionListRepoBranches:
  assumes "k \<in> set (required_keys BB_actionListRepoBranches)"
    and "required_missing (params_or_empty options) k"
    and "\<forall>k' \<in> set (trimmed_keys BB_actionListRepoBranches). string_or_absent (params_or_empty options) k'"
  shows "bb_actionListRepoBranches T options s =
           (Inl (AppError ''Please required field (repository name)'' 400 None), s)"
  using assms
  by (auto simp: bb_actionListRepoBranches_def bb_actionListRepoBranches_body_def bb_actionListRepoBranches_catch_def catch_shape_defs
        missing_params_def bnd_def lift_e_def throw_def try_catch_def Let_def
        get_trimmed_missing get_trimmed_typed get_trim_typed split: sum.splits)

lemma missing_bb_actionListBranchCommits:
  assumes "k \<in> set (required_keys BB_actionListBranchCommits)"
    and "required_missing (params_or_empty options) k"
    and "\<forall>k' \<in> set (trimmed_keys BB_actionListBranchCommits). string_or_absent (params_or_empty options) k'"
  shows "bb_actionListBranchCommits T options s =
           (Inl (AppError ''Failed to fetch commits'' 500 (Some ''FETCH_COMMITS_FAILED'')), s)"
  using assms
  by (auto simp: bb_actionListBranchCommits_def bb_actionListBranchCommits_body_def bb_actionListBranchCommits_catch_def catch_shape_defs
        missing_params_def bnd_def lift_e_def throw_def try_catch_def Let_def
        get_trimmed_missing get_trimmed_typed get_trim_typed split: sum.splits)

lemma missing_bb_actionListCommitModifications:
  assumes "k \<in> set (required_keys BB_actionListCommitModifications)"
    and "required_missing (params_or_empty options) k"
    and "\<forall>k' \<in> set (trimmed_keys BB_actionListCommitModifications). string_or_absent (params_or_empty options) k'"
  shows "bb_actionListCommitModifications T options s =
           (Inl (missing_params ''Repository name and commit SHA are required''), s)"
  using assms
  by (auto simp: bb_actionListCommitModifications_def bb_actionListCommitModifications_body_def bb_actionListCommitModifications_catch_def catch_shape_defs
        missing_params_def bnd_def lift_e_def throw_def try_catch_def Let_def
        get_trimmed_missing get_trimmed_typed get_trim_typed split: sum.splits)

lemma missing_bb_actionCommitsDiff:
  assumes "k \<in> set (required_keys BB_actionCommitsDiff)"
    and "required_missing (params_or_empty options) k"
    and "\<forall>k' \<in> set (trimmed_keys BB_actionCommitsDiff). string_or_absent (params_or_empty options) k'"
  shows "bb_actionCommitsDiff T options s =
           (Inl (missing_params ''Repository name, base commit and head commit are required''), s)"
  using assms
  by (auto simp: bb_actionCommitsDiff_def bb_actionCommitsDiff_body_def bb_actionCommitsDiff_catch_def catch_shape_defs
        missing_params_def bnd_def lift_e_def throw_def try_catch_def Let_def
        get_trimmed_missing get_trimmed_typed get_trim_typed split: sum.splits)

lemma missing_bb_actionCommentPRs:
  assumes "k \<in> set (required_keys BB_actionCommentPRs)"
    and "required_missing (params_or_empty options) k"
    and "\<forall>k' \<in> set (trimmed_keys BB_actionCommentPRs). string_or_absent (params_or_empty options) k'"
  shows "bb_actionCommentPRs T options s =
           (Inl (missing_params ''Repository name, PR number and comment text are required''), s)"
  using assms
  by (auto simp: bb_actionCommentPRs_def bb_actionCommentPRs_body_def bb_actionCommentPRs_catch_def catch_shape_defs
        missing_params_def bnd_def lift_e_def throw_def try_catch_def Let_def
        get_trimmed_missing get_trimmed_typed get_trim_typed split: sum.splits)

lemma missing_bb_actionListPipelines:
  assumes "k \<in> set (required_keys BB_actionListPipelines)"
    and "required_missing (params_or_empty options) k"
    and "\<forall>k' \<in> set (trimmed_keys BB_actionListPipelines). string_or_absent (params_or_empty options) k'"
  shows "bb_actionListPipelines T options s =
           (Inl (missing_params ''Repository name is required''), s)"
  using assms
  by (auto simp: bb_actionListPipelines_def bb_actionListPipelines_body_def bb_actionListPipelines_catch_def catch_shape_defs
        missing_params_def bnd_def lift_e_def throw_def try_catch_def Let_def
        get_trimmed_missing get_trimmed_typed get_trim_typed split: sum.splits)

lemma missing_bb_actionListDeployments:
  assumes "k \<in> set (required_keys BB_actionListDeployments)"
    and "required_missing (params_or_empty options) k"
    and "\<forall>k' \<in> set (trimmed_keys BB_actionListDeployments). string_or_absent (params_or_empty options) k'"
  shows "bb_actionListDeployments T options s =
           (Inl (missing_params ''Repository name is required''), s)"
  using assms
  by (auto simp: bb_actionListDeployments_def bb_actionListDeployments_body_def bb_actionListDeployments_catch_def catch_shape_defs
        missing_params_def bnd_def lift_e_def throw_def try_catch_def Let_def
        get_trimmed_missing get_trimmed_typed get_trim_typed split: sum.splits)

lemma nocall_gh_actionGetRepo:
  assumes "k \<in> set (required_keys GH_actionGetRepo)"
    and "required_missing (params_or_empty options) k"
  shows "\<exists>e. gh_actionGetRepo T options s = (Inl e, s) \<and> is_AppError e"
  using assms
  by (auto simp: gh_actionGetRepo_def gh_actionGetRepo_body_def gh_actionGetRepo_catch_def catch_shape_defs
        missing_params_def bnd_def lift_e_def throw_def try_catch_def Let_def
        get_trimmed_missing split: sum.splits dest!: get_trimmed_Inl get_trim_Inl)

lemma nocall_gh_actionListRepoContents:
  assumes "k \<in> set (required_keys GH_actionListRepoContents)"
    and "required_missing (params_or_empty options) k"
  shows "\<exists>e. gh_actionListRepoContents T options s = (Inl e, s) \<and> is_AppError e"
  using assms
  by (auto simp: gh_actionListRepoContents_def gh_actionListRepoContents_body_def gh_actionListRepoContents_catch_def catch_shape_defs
        missing_params_def bnd_def lift_e_def throw_def try_catch_def Let_def
        get_trimmed_missing split: sum.splits dest!: get_trimmed_Inl get_trim_Inl)

lemma nocall_gh_actionGetRepoFileContent:
  assumes "k \<in> set (required_keys GH_actionGetRepoFileContent)"
    and "required_missing (params_or_empty options) k"
  shows "\<exists>e. gh_actionGetRepoFileContent T options s = (Inl e, s) \<and> is_AppError e"
  using assms
  by (auto simp: gh_actionGetRepoFileContent_def gh_actionGetRepoFileContent_body_def gh_actionGetRepoFileContent_catch_def catch_shape_defs
        missing_params_def bnd_def lift_e_def throw_def try_catch_def Let_def
        get_trimmed_missing split: sum.splits dest!: get_trimmed_Inl get_trim_Inl)

lemma nocall_gh_actionListBranches:
  assumes "k \<in> set (required_keys GH_actionListBranches)"
    and "required_missing (params_or_empty options) k"
  shows "\<exists>e. gh_actionListBranches T options s = (Inl e, s) \<and> is_AppError e"
  using assms
  by (auto simp: gh_actionListBranches_def gh_actionListBranches_body_def gh_actionListBranches_catch_def catch_shape_defs
        missing_params_def bnd_def lift_e_def throw_def try_catch_def Let_def
        get_trimmed_missing split: sum.splits dest!: get_trimmed_Inl get_trim_Inl)

lemma nocall_gh_actionListBranchCommits:
  assumes "k \<in> set (required_keys GH_actionListBranchCommits)"
    and "required_missing (params_or_empty options) k"
  shows "\<exists>e. gh_actionListBranchCommits T options s = (Inl e, s) \<and> is_AppError e"
  using assms
  by (auto simp: gh_actionListBranchCommits_def gh_actionListBranchCommits_body_def gh_actionListBranchCommits_catch_def catch_shape_defs
        missing_params_def bnd_def lift_e_def throw_def try_catch_def Let_def
        get_trimmed_missing split: sum.splits dest!: get_trimmed_Inl get_trim_Inl)

lemma nocall_gh_actionGetCommitDetails:
  assumes "k \<in> set (required_keys GH_actionGetCommitDetails)"
    and "required_missing (params_or_empty options) k"
  shows "\<exists>e. gh_actionGetCommitDetails T options s = (Inl e, s) \<and> is_AppError e"
  using assms
  by (auto simp: gh_actionGetCommitDetails_def gh_actionGetCommitDetails_body_def gh_actionGetCommitDetails_catch_def catch_shape_defs
        missing_params_def bnd_def lift_e_def throw_def try_catch_def Let_def
        get_trimmed_missing split: sum.splits dest!: get_trimmed_Inl get_trim_Inl)

lemma nocall_gh_actionCommitsDiff:
  assumes "k \<in> set (required_keys GH_actionCommitsDiff)"
    and "required_missing (params_or_empty options) k"
  shows "\<exists>e. gh_actionCommitsDiff T options s = (Inl e, s) \<and> is_AppError e"
  using assms
  by (auto simp: gh_actionCommitsDiff_def gh_actionCommitsDiff_body_def gh_actionCommitsDiff_catch_def catch_shape_defs
        missing_params_def bnd_def lift_e_def throw_def try_catch_def Let_def
        get_trimmed_missing split: sum.splits dest!: get_trimmed_Inl get_trim_Inl)

lemma nocall_gh_actionCommentPrs:
  assumes "k \<in> set (required_keys GH_actionCommentPrs)"
    and "required_missing (params_or_empty options) k"
  shows "\<exists>e. gh_actionCommentPrs T options s = (Inl e, s) \<and> is_AppError e"
  using assms
  by (auto simp: gh_actionCommentPrs_def gh_actionCommentPrs_body_def gh_actionCommentPrs_catch_def catch_shape_defs
        missing_params_def bnd_def lift_e_def throw_def try_catch_def Let_def
        get_trimmed_missing split: sum.splits dest!: get_trimmed_Inl get_trim_Inl)

lemma nocall_gh_actionListPipelines:
  assumes "k \<in> set (required_keys GH_actionListPipelines)"
    and "required_missing (params_or_empty options) k"
  shows "\<exists>e. gh_actionListPipelines T options s = (Inl e, s) \<and> is_AppError e"
  using assms
  by (auto simp: gh_actionListPipelines_def gh_actionListPipelines_body_def gh_actionListPipelines_catch_def catch_shape_defs
        missing_params_def bnd_def lift_e_def throw_def try_catch_def Let_def
        get_trimmed_missing split: sum.splits dest!: get_trimmed_Inl get_trim_Inl)

lemma nocall_gh_actionListDeployments:
  assumes "k \<in> set (required_keys GH_actionListDeployments)"
    and "required_missing (params_or_empty options) k"
  shows "\<exists>e. gh_actionListDeployments T options s = (Inl e, s) \<and> is_AppError e"
  using assms
  by (auto simp: gh_actionListDeployments_def gh_actionListDeployments_body_def gh_actionListDeployments_catch_def catch_shape_defs
        missing_params_def bnd_def lift_e_def throw_def try_catch_def Let_def
        get_trimmed_missing split: sum.splits dest!: get_trimmed_Inl get_trim_Inl)

lemma nocall_bb_actionGetRepo:
  assumes "k \<in> set (required_keys BB_actionGetRepo)"
    and "required_missing (params_or_empty options) k"
  shows "\<exists>e. bb_actionGetRepo T options s = (Inl e, s) \<and> is_AppError e"
  using assms
  by (auto simp: bb_actionGetRepo_def bb_actionGetRepo_body_def bb_actionGetRepo_catch_def catch_shape_defs
        missing_params_def bnd_def lift_e_def throw_def try_catch_def Let_def
        get_trimmed_missing split: sum.splits dest!: get_trimmed_Inl get_trim_Inl)

lemma nocall_bb_actionListRepoContents:
  assumes "k \<in> set (required_keys BB_actionListRepoContents)"
    and "required_missing (params_or_empty options) k"
  shows "\<exists>e. bb_actionListRepoContents T options s = (Inl e, s) \<and> is_AppError e"
  using assms
  by (auto simp: bb_actionListRepoContents_def bb_actionListRepoContents_body_def bb_actionListRepoContents_catch_def catch_shape_defs
        missing_params_def bnd_def lift_e_def throw_def try_catch_def Let_def
        get_trimmed_missing split: sum.splits dest!: get_trimmed_Inl get_trim_Inl)

lemma nocall_bb_actionGetRepoFileContent:
  assumes "k \<in> set (required_keys BB_actionGetRepoFileContent)"
    and "required_missing (params_or_empty options) k"
  shows "\<exists>e. bb_actionGetRepoFileContent T options s = (Inl e, s) \<and> is_AppError e"
  using assms
  by (auto simp: bb_actionGetRepoFileContent_def bb_actionGetRepoFileContent_body_def bb_actionGetRepoFileContent_catch_def catch_shape_defs
        missing_params_def bnd_def lift_e_def throw_def try_catch_def Let_def
        get_trimmed_missing split: sum.splits dest!: get_trimmed_Inl get_trim_Inl)

lemma nocall_bb_actionListRepoBranches:
  assumes "k \<in> set (required_keys BB_actionListRepoBranches)"
    and "required_missing (params_or_empty options) k"
  shows "\<exists>e. bb_actionListRepoBranches T options s = (Inl e, s) \<and> is_AppError e"
  using assms
  by (auto simp: bb_actionListRepoBranches_def bb_actionListRepoBranches_body_def bb_actionListRepoBranches_catch_def catch_shape_defs
        missing_params_def bnd_def lift_e_def throw_def try_catch_def Let_def
        get_trimmed_missing split: sum.splits dest!: get_trimmed_Inl get_trim_Inl)

lemma nocall_bb_actionListBranchCommits:
  assumes "k \<in> set (required_keys BB_actionListBranchCommits)"
    and "required_missing (params_or_empty options) k"
  shows "\<exists>e. bb_actionListBranchCommits T options s = (Inl e, s) \<and> is_AppError e"
  using assms
  by (auto simp: bb_actionListBranchCommits_def bb_actionListBranchCommits_body_def bb_actionListBranchCommits_catch_def catch_shape_defs
        missing_params_def bnd_def lift_e_def throw_def try_catch_def Let_def
        get_trimmed_missing split: sum.splits dest!: get_trimmed_Inl get_trim_Inl)

lemma nocall_bb_actionListCommitModifications:
  assumes "k \<in> set (required_keys BB_actionListCommitModifications)"
    and "required_missing (params_or_empty options) k"
  shows "\<exists>e. bb_actionListCommitModifications T options s = (Inl e, s) \<and> is_AppError e"
  using assms
  by (auto simp: bb_actionListCommitModifications_def bb_actionListCommitModifications_body_def bb_actionListCommitModifications_catch_def catch_shape_defs
        missing_params_def bnd_def lift_e_def throw_def try_catch_def Let_def
        get_trimmed_missing split: sum.splits dest!: get_trimmed_Inl get_trim_Inl)

lemma nocall_bb_actionGetCommitDetails:
  assumes "k \<in> set (required_keys BB_actionGetCommitDetails)"
    and "required_missing (params_or_empty options) k"
  shows "\<exists>e. bb_actionGetCommitDetails T options s = (Inl e, s) \<and> is_AppError e"
  using assms
  by (auto simp: bb_actionGetCommitDetails_def bb_actionGetCommitDetails_body_def bb_actionGetCommitDetails_catch_def catch_shape_defs
        missing_params_def bnd_def lift_e_def throw_def try_catch_def Let_def
        get_trimmed_missing split: sum.splits dest!: get_trimmed_Inl get_trim_Inl)

lemma nocall_bb_actionCommitsDiff:
  assumes "k \<in> set (required_keys BB_actionCommitsDiff)"
    and "required_missing (params_or_empty options) k"
  shows "\<exists>e. bb_actionCommitsDiff T options s = (Inl e, s) \<and> is_AppError e"
  using assms
  by (auto simp: bb_actionCommitsDiff_def bb_actionCommitsDiff_body_def bb_actionCommitsDiff_catch_def catch_shape_defs
        missing_params_def bnd_def lift_e_def throw_def try_catch_def Let_def
        get_trimmed_missing split: sum.splits dest!: get_trimmed_Inl get_trim_Inl)

lemma nocall_bb_actionCommentPRs:
  assumes "k \<in> set (required_keys BB_actionCommentPRs)"
    and "required_missing (params_or_empty options) k"
  shows "\<exists>e. bb_actionCommentPRs T options s = (Inl e, s) \<and> is_AppError e"
  using assms
  by (auto simp: bb_actionCommentPRs_def bb_actionCommentPRs_body_def bb_actionCommentPRs_catch_def catch_shape_defs
        missing_params_def bnd_def lift_e_def throw_def try_catch_def Let_def
        get_trimmed_missing split: sum.splits dest!: get_trimmed_Inl get_trim_Inl)

lemma nocall_bb_actionListPipelines:
  assumes "k \<in> set (required_keys BB_actionListPipelines)"
    and "required_missing (params_or_empty options) k"
  shows "\<exists>e. bb_actionListPipelines T options s = (Inl e, s) \<and> is_AppError e"
  using assms
  by (auto simp: bb_actionListPipelines_def bb_actionListPipelines_body_def bb_actionListPipelines_catch_def catch_shape_defs
        missing_params_def bnd_def lift_e_def throw_def try_catch_def Let_def
        get_trimmed_missing split: sum.splits dest!: get_trimmed_Inl get_trim_Inl)

lemma nocall_bb_actionListDeployments:
  assumes "k \<in> set (required_keys BB_actionListDeployments)"
    and "required_missing (params_or_empty options) k"
  shows "\<exists>e. bb_actionListDeployments T options s = (Inl e, s) \<and> is_AppError e"
  using assms
  by (auto simp: bb_actionListDeployments_def bb_actionListDeployments_body_def bb_actionListDeployments_catch_def catch_shape_defs
        missing_params_def bnd_def lift_e_def throw_def try_catch_def Let_def
        get_trimmed_missing split: sum.splits dest!: get_trimmed_Inl get_trim_Inl)

lemma nocall_gh_actionListCommitModifications:
  assumes "k \<in> set (required_keys GH_actionListCommitModifications)"
    and "required_missing (params_or_empty options) k"
  shows "\<exists>e. gh_actionListCommitModifications T options s = (Inl e, s) \<and> is_AppError e"
proof -
  let ?ps = "params_or_empty options"
  have k: "k = ''repoName'' \<or> k = ''commitSha''" using assms(1) by auto
  show ?thesis
  proof (cases "get_strict ?ps ''repoName'' (JStr [])")
    case (Inl e)
    then show ?thesis
      by (auto simp: gh_actionListCommitModifications_def gh_actionListCommitModifications_body_def
          gh_actionListCommitModifications_catch_def catch_404_400_500_def bnd_def lift_e_def
          throw_def try_catch_def Let_def dest!: get_strict_Inl)
  next
    case r: (Inr repoName)
    show ?thesis
    proof (cases "get_strict ?ps ''commitSha'' (JStr [])")
      case (Inl e)
      with r show ?thesis
        by (auto simp: gh_actionListCommitModifications_def gh_actionListCommitModifications_body_def
            gh_actionListCommitModifications_catch_def catch_404_400_500_def bnd_def lift_e_def
            throw_def try_catch_def Let_def dest!: get_strict_Inl)
    next
      case c: (Inr commitSha)
      from k assms(2) r c get_strict_missing[of ?ps k]
      have "\<not> truthy repoName \<or> \<not> truthy commitSha" by auto
      with r c show ?thesis
        by (auto simp: gh_actionListCommitModifications_def gh_actionListCommitModifications_body_def
            gh_actionListCommitModifications_catch_def catch_404_400_500_def bnd_def lift_e_def
            throw_def try_catch_def Let_def missing_params_def)
    qed
  qed
qed

lemma missing_fails_without_call:
  assumes "k \<in> set (required_keys a)"
    and "required_missing (params_or_empty options) k"
  shows "\<exists>e. run cm T a options s = (Inl e, s) \<and> is_AppError e"
proof (cases a)

  case GH_actionUpdatePluginConfig
  with assms show ?thesis by simp
next
  case GH_actionListRepos
  with assms show ?thesis by simp
next
  case GH_actionGetRepo
  with assms nocall_gh_actionGetRepo [of k options T s] show ?thesis by simp
next
  case GH_actionListRepoContents
  with assms nocall_gh_actionListRepoContents [of k options T s] show ?thesis by simp
next
  case GH_actionGetRepoFileContent
  with assms nocall_gh_actionGetRepoFileContent [of k options T s] show ?thesis by simp
next
  case GH_actionListBranches
  with assms nocall_gh_actionListBranches [of k options T s] show ?thesis by simp
next
  case GH_actionListBranchCommits
  with assms nocall_gh_actionListBranchCommits [of k options T s] show ?thesis by simp
next
  case GH_actionListCommitModifications
  with assms nocall_gh_actionListCommitModifications [of k options T s] show ?thesis by simp
next
  case GH_actionGetCommitDetails
  with assms nocall_gh_actionGetCommitDetails [of k options T s] show ?thesis by simp
next
  case GH_actionCommitsDiff
  with assms nocall_gh_actionCommitsDiff [of k options T s] show ?thesis by simp
next
  case GH_actionCommentPrs
  with assms nocall_gh_actionCommentPrs [of k options T s] show ?thesis by simp
next
  case GH_actionListPipelines
  with assms nocall_gh_actionListPipelines [of k options T s] show ?thesis by simp
next
  case GH_actionListDeployments
  with assms nocall_gh_actionListDeployments [of k options T s] show ?thesis by simp
next
  case BB_actionListBitbucketWorkspaces
  with assms show ?thesis by simp
next
  case BB_actionListRepos
  with assms show ?thesis by simp
next
  case BB_actionGetRepo
  with assms nocall_bb_actionGetRepo [of k options T s] show ?thesis by simp
next
  case BB_actionListRepoContents
  with assms nocall_bb_actionListRepoContents [of k options T s] show ?thesis by simp
next
  case BB_actionGetRepoFileContent
  with assms nocall_bb_actionGetRepoFileContent [of k options T s] show ?thesis by simp
next
  case BB_actionListRepoBranches
  with assms nocall_bb_actionListRepoBranches [of k options T s] show ?thesis by simp
next
  case BB_actionListBranchCommits
  with assms nocall_bb_actionListBranchCommits [of k options T s] show ?thesis by simp
next
  case BB_actionListCommitModifications
  with assms nocall_bb_actionListCommitModifications [of k options T s] show ?thesis by simp
next
  case BB_actionGetCommitDetails
  with assms nocall_bb_actionGetCommitDetails [of k options T s] show ?thesis by simp
next
  case BB_actionCommitsDiff
  with assms nocall_bb_actionCommitsDiff [of k options T s] show ?thesis by simp
next
  case BB_actionCommentPRs
  with assms nocall_bb_actionCommentPRs [of k options T s] show ?thesis by simp
next
  case BB_actionListPipelines
  with assms nocall_bb_actionListPipelines [of k options T s] show ?thesis by simp
next
  case BB_actionListDeployments
  with assms nocall_bb_actionListDeployments [of k options T s] show ?thesis by simp
qed


lemma missing_answer:
  assumes "k \<in> set (required_keys a)"
    and "required_missing (params_or_empty options) k"
    and "\<forall>k' \<in> set (trimmed_keys a). string_or_absent (params_or_empty options) k'"
    and "missing_error a \<noteq> None"
  shows "run cm T a options s = (Inl (the (missing_error a)), s)"
proof (cases a)

  case GH_actionUpdatePluginConfig
  with assms show ?thesis by simp
next
  case GH_actionListRepos
  with assms show ?thesis by simp
next
  case GH_actionGetRepo
  with assms missing_gh_actionGetRepo [of k options T s] show ?thesis by simp
next
  case GH_actionListRepoContents
  with assms missing_gh_actionListRepoContents [of k options T s] show ?thesis by simp
next
  case GH_actionGetRepoFileContent
  with assms missing_gh_actionGetRepoFileContent [of k options T s] show ?thesis by simp
next
  case GH_actionListBranches
  with assms missing_gh_actionListBranches [of k options T s] show ?thesis by simp
next
  case GH_actionListBranchCommits
  with assms missing_gh_actionListBranchCommits [of k options T s] show ?thesis by simp
next
  case GH_actionListCommitModifications
  with assms show ?thesis by simp
next
  case GH_actionGetCommitDetails
  with assms missing_gh_actionGetCommitDetails [of k options T s] show ?thesis by simp
next
  case GH_actionCommitsDiff
  with assms missing_gh_actionCommitsDiff [of k options T s] show ?thesis by simp
next
  case GH_actionCommentPrs
  with assms missing_gh_actionCommentPrs [of k options T s] show ?thesis by simp
next
  case GH_actionListPipelines
  with assms missing_gh_actionListPipelines [of k options T s] show ?thesis by simp
next
  case GH_actionListDeployments
  with assms missing_gh_actionListDeployments [of k options T s] show ?thesis by simp
next
  case BB_actionListBitbucketWorkspaces
  with assms show ?thesis by simp
next
  case BB_actionListRepos
  with assms show ?thesis by simp
next
  case BB_actionGetRepo
  with assms missing_bb_actionGetRepo [of k options T s] show ?thesis by simp
next
  case BB_actionListRepoContents
  with assms missing_bb_actionListRepoContents [of k options T s] show ?thesis by simp
next
  case BB_actionGetRepoFileContent
  with assms missing_bb_actionGetRepoFileContent [of k options T s] show ?thesis by simp
next
  case BB_actionListRepoBranches
  with assms missing_bb_actionListRepoBranches [of k options T s] show ?thesis by simp
next
  case BB_actionListBranchCommits
  with assms missing_bb_actionListBranchCommits [of k options T s] show ?thesis by simp
next
  case BB_actionListCommitModifications
  with assms missing_bb_actionListCommitModifications [of k options T s] show ?thesis by simp
next
  case BB_actionGetCommitDetails
  with assms show ?thesis by simp
next
  case BB_actionCommitsDiff
  with assms missing_bb_actionCommitsDiff [of k options T s] show ?thesis by simp
next
  case BB_actionCommentPRs
  with assms missing_bb_actionCommentPRs [of k options T s] show ?thesis by simp
next
  case BB_actionListPipelines
  with assms missing_bb_actionListPipelines [of k options T s] show ?thesis by simp
next
  case BB_actionListDeployments
  with assms missing_bb_actionListDeployments [of k options T s] show ?thesis by simp
qed

text \<open>
  C1 (as amended). Let a required parameter of an action be missing: absent from
  \<^verbatim>\<open>configs.params\<close>, or with no first value, or with a first value that is empty
  after trimming. Then the action fails with an AppError and leaves the provider as it
  was, so no HTTP call is made. When moreover the first value of every parameter that the
  action trims is a string, the error is the one \<open>missing_error\<close> lists: the AppError
  \<open>{statusCode: 400, errorCode: "MISSING_REQUIRED_PARAMS"}\<close> for the sixteen actions of
  \<open>missing_400_actions\<close>; the \<open>500 FETCH_REPO_FAILED\<close> resp.
  \<open>500 FETCH_COMMITS_FAILED\<close> of the catch block for BitbucketProvider.actionGetRepo and
  actionListBranchCommits; a 400 without error code for
  BitbucketProvider.actionGetRepoFileContent and actionListRepoBranches.
\<close>

theorem C1_missing_required_params:
  assumes "k \<in> set (required_keys a)"
    and "required_missing (params_or_empty options) k"
  shows "(\<exists>e. run cm T a options s = (Inl e, s) \<and> is_AppError e)
    \<and> ((\<forall>k' \<in> set (trimmed_keys a). string_or_absent (params_or_empty options) k') \<longrightarrow>
          (missing_error a \<noteq> None \<longrightarrow>
             run cm T a options s = (Inl (the (missing_error a)), s))
          \<and> (a \<in> set missing_400_actions \<longrightarrow>
               (\<exists>m. run cm T a options s
                      = (Inl (AppError m 400 (Some ''MISSING_REQUIRED_PARAMS'')), s))))"
proof -
  have 1: "\<exists>e. run cm T a options s = (Inl e, s) \<and> is_AppError e"
    using assms by (rule missing_fails_without_call)
  have 2: "run cm T a options s = (Inl (the (missing_error a)), s)"
    if "\<forall>k' \<in> set (trimmed_keys a). string_or_absent (params_or_empty options) k'"
      and "missing_error a \<noteq> None"
    using assms that by (rule missing_answer)
  have 3: "missing_error a \<noteq> None
           \<and> (\<exists>m. the (missing_error a) = AppError m 400 (Some ''MISSING_REQUIRED_PARAMS''))"
    if "a \<in> set missing_400_actions"
    using that by (auto simp: missing_400_actions_def missing_params_def)
  show ?thesis
    using 1 2 3 by metis
qed

theorem C1_missing_required_params_witness:
  "run one_group_store (answering JNull) GH_actionGetRepo (with_params []) github_ready
     = (Inl (AppError ''Repository name is required'' 400 (Some ''MISSING_REQUIRED_PARAMS'')),
        github_ready)
   \<and> run one_group_store (answering JNull) BB_actionCommentPRs
        (with_params [single ''repoName'' (JStr ''site''), single ''prNumber'' (JStr ''7''),
                      single ''comment'' (JStr ''   '')]) bitbucket_ready
     = (Inl (AppError ''Repository name, PR number and comment text are required'' 400
               (Some ''MISSING_REQUIRED_PARAMS'')),
        bitbucket_ready)"
proof -
  let ?o = "with_params [single ''repoName'' (JStr ''site''), single ''prNumber'' (JStr ''7''),
                         single ''comment'' (JStr ''   '')]"
  have a: "''repoName'' \<in> set (required_keys GH_actionGetRepo)"
    and b: "required_missing (params_or_empty (with_params [])) ''repoName''"
    and c: "\<forall>k' \<in> set (trimmed_keys GH_actionGetRepo).
              string_or_absent (params_or_empty (with_params [])) k'"
    and d: "missing_error GH_actionGetRepo \<noteq> None"
    by (simp_all add: required_missing_def string_or_absent_def params_or_empty_def
        call_params_def find_param_def first_value_def env_defs)
  have a': "''comment'' \<in> set (required_keys BB_actionCommentPRs)"
    and b': "required_missing (params_or_empty ?o) ''comment''"
    and c': "\<forall>k' \<in> set (trimmed_keys BB_actionCommentPRs). string_or_absent (params_or_empty ?o) k'"
    and d': "missing_error BB_actionCommentPRs \<noteq> None"
    by (simp_all add: required_missing_def string_or_absent_def params_or_empty_def
        call_params_def find_param_def first_value_def env_defs trim_def is_ws_def)
  from C1_missing_required_params [OF a b, of one_group_store "answering JNull" github_ready] c d
  have 1: "run one_group_store (answering JNull) GH_actionGetRepo (with_params []) github_ready
             = (Inl (the (missing_error GH_actionGetRepo)), github_ready)"
    by blast
  from C1_missing_required_params [OF a' b', of one_group_store "answering JNull" bitbucket_ready]
    c' d'
  have 2: "run one_group_store (answering JNull) BB_actionCommentPRs ?o bitbucket_ready
             = (Inl (the (missing_error BB_actionCommentPRs)), bitbucket_ready)"
    by blast
  from 1 2 show ?thesis
    by (simp add: missing_params_def)
qed

theorem C1_counterexample:
  "''repoName'' \<in> set (required_keys BB_actionGetRepo)
   \<and> required_missing (params_or_empty (with_params [])) ''repoName''
   \<and> fst (run one_group_store (answering JNull) BB_actionGetRepo (with_params []) bitbucket_ready)
       = Inl (AppError ''Failed to fetch repository'' 500 (Some ''FETCH_REPO_FAILED''))"
  by (simp add: required_missing_def params_or_empty_def call_params_def find_param_def
      env_defs bb_actionGetRepo_def bb_actionGetRepo_body_def bb_actionGetRepo_catch_def
      catch_500_def get_trimmed_def get_trim_def first_value_def js_or_def prog_defs)
section \<open>Errors at the boundary of the provider\<close>

lemma catch_of_cases:
  "is_AppError (catch_of a e) \<or> (passes_400 a \<and> is_400 e \<and> catch_of a e = e)"
  by (cases a) (auto simp: catch_defs catch_shape_defs is_400_def)

lemma catch_of_400:
  "passes_400 a \<Longrightarrow> catch_of a (AppError m 400 c) = AppError m 400 c"
  by (cases a) (auto simp: catch_defs catch_shape_defs)

lemma gh_init_catch_cases:
  "is_AppError (gh_init_catch e) \<or> (is_401 e \<and> gh_init_catch e = e)"
  by (auto simp: gh_init_catch_def is_401_def)

lemma bb_init_catch_cases:
  "is_AppError (bb_init_catch e) \<or> (is_401 e \<and> bb_init_catch e = e)"
  by (auto simp: bb_init_catch_def is_401_def)

lemma run_fails:
  assumes "run cm T a options s = (Inl e, s')"
  shows "is_AppError e \<or> (passes_400 a \<and> is_400 e \<and> body_of cm T a options s = (Inl e, s'))"
proof -
  from assms have "try_catch (body_of cm T a options) (\<lambda>error. throw (catch_of a error)) s = (Inl e, s')"
    by (simp add: run_try_catch)
  then obtain e0 where b: "body_of cm T a options s = (Inl e0, s')" and e: "e = catch_of a e0"
    by (cases rule: try_catch_cases) auto
  from catch_of_cases [of a e0] b e show ?thesis by auto
qed

lemma gh_init_fails:
  assumes "gh_init cm T s = (Inl e, s')"
  shows "is_AppError e \<or> (is_401 e \<and> gh_init_body cm T s = (Inl e, s'))"
proof -
  from assms obtain e0 where b: "gh_init_body cm T s = (Inl e0, s')" and e: "e = gh_init_catch e0"
    unfolding gh_init_def by (cases rule: try_catch_cases) auto
  from gh_init_catch_cases [of e0] b e show ?thesis by auto
qed

lemma bb_init_fails:
  assumes "bb_init cm T s = (Inl e, s')"
  shows "is_AppError e \<or> (is_401 e \<and> bb_init_body cm T s = (Inl e, s'))"
proof -
  from assms obtain e0 where b: "bb_init_body cm T s = (Inl e0, s')" and e: "e = bb_init_catch e0"
    unfolding bb_init_def by (cases rule: try_catch_cases) auto
  from bb_init_catch_cases [of e0] b e show ?thesis by auto
qed

lemma bb_createClient_fails:
  "bb_createClient T u p s = (Inl e, s') \<Longrightarrow>
     e = AppError ''Bitbucket authentication failed'' 401 (Some ''AUTH_FAILED'')"
  by (auto simp: bb_createClient_def try_catch_def throw_def split: prod.splits sum.splits)

lemma gh_createClient_fails:
  "gh_createClient T token s = (Inl e, s') \<Longrightarrow>
     e = AppError ''GitHub authentication failed'' 401 (Some ''AUTH_FAILED'')
     \<or> T (calls s) (gh_client token s) \<lparr>meth = GET, url = ''/user'', query = [], body = JUndefined\<rparr> = Inl e"
  by (auto simp: gh_createClient_def prog_defs split: prod.splits sum.splits if_splits)

lemma run_passes:
  assumes "passes_400 a" "body_of cm T a options s = (Inl (AppError m 400 c), s')"
  shows "run cm T a options s = (Inl (AppError m 400 c), s')"
  using assms try_catch_fail [of "body_of cm T a options" s "AppError m 400 c" s' "catch_of a"]
  by (simp add: run_try_catch catch_of_400)

lemma gh_init_passes:
  assumes "gh_init_body cm T s = (Inl (AppError m 401 c), s')"
  shows "gh_init cm T s = (Inl (AppError m 401 c), s')"
  using assms try_catch_fail [of "gh_init_body cm T" s "AppError m 401 c" s' gh_init_catch]
  by (simp add: gh_init_def gh_init_catch_def)

lemma bb_init_passes:
  assumes "bb_init_body cm T s = (Inl (AppError m 401 c), s')"
  shows "bb_init cm T s = (Inl (AppError m 401 c), s')"
  using assms try_catch_fail [of "bb_init_body cm T" s "AppError m 401 c" s' bb_init_catch]
  by (simp add: bb_init_def bb_init_catch_def)

lemma update_rewraps:
  assumes "gh_actionUpdatePluginConfig_body cm T options s = (Inl e, s')"
  shows "gh_actionUpdatePluginConfig cm T options s = (Inl config_update_failed, s')"
  using assms
    try_catch_fail [of "gh_actionUpdatePluginConfig_body cm T options" s e s'
      gh_actionUpdatePluginConfig_catch]
  by (simp add: gh_actionUpdatePluginConfig_def gh_actionUpdatePluginConfig_catch_def
      config_update_failed_def)

text \<open>
  C4 (as amended). A failure of an action is an AppError built by its catch block, or it
  is the very value thrown inside its try block, re-thrown by a catch block with a 400
  branch because that value carries the status 400: an AppError, or the rejection of the
  HTTP client for an upstream 400, which then leaves the action unshaped. A failure of
  \<^verbatim>\<open>init()\<close> is an AppError or the value thrown inside its try block, re-thrown
  because it carries the status 401. BitbucketProvider.createClient fails with the
  AppError \<open>401 AUTH_FAILED\<close> only; GithubProvider.createClient fails with its own
  \<open>401 AUTH_FAILED\<close> or re-throws the rejection of the HTTP client as it is.
\<close>

theorem C4_errors_at_the_boundary:
  "(run cm T a options s = (Inl e, s') \<longrightarrow>
      is_AppError e \<or> (passes_400 a \<and> is_400 e \<and> body_of cm T a options s = (Inl e, s')))
   \<and> (gh_init cm T s = (Inl e, s') \<longrightarrow>
        is_AppError e \<or> (is_401 e \<and> gh_init_body cm T s = (Inl e, s')))
   \<and> (bb_init cm T s = (Inl e, s') \<longrightarrow>
        is_AppError e \<or> (is_401 e \<and> bb_init_body cm T s = (Inl e, s')))
   \<and> (bb_createClient T username appPassword s = (Inl e, s') \<longrightarrow>
        e = AppError ''Bitbucket authentication failed'' 401 (Some ''AUTH_FAILED''))
   \<and> (gh_createClient T token s = (Inl e, s') \<longrightarrow>
        e = AppError ''GitHub authentication failed'' 401 (Some ''AUTH_FAILED'')
        \<or> T (calls s) (gh_client token s)
             \<lparr>meth = GET, url = ''/user'', query = [], body = JUndefined\<rparr> = Inl e)"
  using run_fails [of cm T a options s e s'] gh_init_fails [of cm T s e s']
    bb_init_fails [of cm T s e s'] bb_createClient_fails [of T username appPassword s e s']
    gh_createClient_fails [of T token s e s']
  by blast

theorem C4_errors_at_the_boundary_witness:
  "fst (run one_group_store (rejecting 503) GH_actionGetRepo
          (with_params [single ''repoName'' (JStr ''site'')]) github_ready)
     = Inl (AppError ''Failed to fetch repository'' 500 (Some ''FETCH_REPO_FAILED''))
   \<and> is_AppError (AppError ''Failed to fetch repository'' 500 (Some ''FETCH_REPO_FAILED''))"
proof -
  let ?e = "AppError ''Failed to fetch repository'' 500 (Some ''FETCH_REPO_FAILED'')"
  let ?o = "with_params [single ''repoName'' (JStr ''site'')]"
  have nb: "fst (body_of one_group_store (rejecting 503) GH_actionGetRepo ?o github_ready) \<noteq> Inl ?e"
    by (simp add: github_ready_def gh_init_defs prog_defs env_defs gh_actionGetRepo_body_def
        get_trimmed_def get_trim_def params_or_empty_def call_params_def trim_def is_ws_def)
  obtain s' where r: "run one_group_store (rejecting 503) GH_actionGetRepo ?o github_ready = (Inl ?e, s')"
    by (simp add: github_ready_def gh_init_defs prog_defs env_defs gh_actionGetRepo_def
        gh_actionGetRepo_body_def gh_actionGetRepo_catch_def catch_404_400_500_def
        get_trimmed_def get_trim_def params_or_empty_def call_params_def trim_def is_ws_def)
  from C4_errors_at_the_boundary [of one_group_store "rejecting 503" GH_actionGetRepo ?o
      github_ready ?e s'] r nb
  have "is_AppError ?e" by auto
  with r show ?thesis by simp
qed

theorem C4_counterexample:
  "fst (run one_group_store (rejecting 400) GH_actionListRepos (with_params []) github_ready)
     = Inl (TransportError (JNum 400) JUndefined)
   \<and> \<not> is_AppError (TransportError (JNum 400) JUndefined)"
  by (simp add: github_ready_def gh_init_defs prog_defs env_defs gh_actionListRepos_def
      gh_actionListRepos_body_def gh_actionListRepos_catch_def catch_404_400_500_def
      get_raw_def params_or_empty_def call_params_def)

text \<open>
  C5 (as amended). An AppError with statusCode 400 thrown inside the try block of an
  action whose catch block has a 400 branch (\<open>passes_400\<close>: every GithubProvider action
  but actionUpdatePluginConfig, and nine BitbucketProvider actions) reaches the caller
  unchanged; an AppError with statusCode 401 thrown inside the try block of
  \<^verbatim>\<open>init()\<close> reaches the caller of \<^verbatim>\<open>init()\<close> unchanged, in both providers.
  actionUpdatePluginConfig replaces whatever is thrown inside its try block, the
  \<open>AUTH_FAILED\<close> of \<^verbatim>\<open>init()\<close> included, by \<open>500 CONFIG_UPDATE_FAILED\<close>.
\<close>

theorem C5_propagation:
  "(passes_400 a \<longrightarrow> body_of cm T a options s = (Inl (AppError m 400 c), s') \<longrightarrow>
      run cm T a options s = (Inl (AppError m 400 c), s'))
   \<and> (gh_init_body cm T s = (Inl (AppError m 401 c), s') \<longrightarrow>
        gh_init cm T s = (Inl (AppError m 401 c), s'))
   \<and> (bb_init_body cm T s = (Inl (AppError m 401 c), s') \<longrightarrow>
        bb_init cm T s = (Inl (AppError m 401 c), s'))
   \<and> (gh_actionUpdatePluginConfig_body cm T options s = (Inl e, s') \<longrightarrow>
        gh_actionUpdatePluginConfig cm T options s = (Inl config_update_failed, s'))"
  using run_passes [of a cm T options s m c s'] gh_init_passes [of cm T s m c s']
    bb_init_passes [of cm T s m c s'] update_rewraps [of cm T options s e s']
  by blast

theorem C5_propagation_witness:
  "fst (gh_init one_group_store (answering JNull)
          (new_provider github_config (github_group '''' ''acme'')))
     = Inl (AppError ''GitHub token not found in configurations'' 401 (Some ''AUTH_FAILED''))
   \<and> fst (run one_group_store (answering JNull) GH_actionListBranches (with_params [])
            github_ready)
     = Inl (AppError ''Repository name is required'' 400 (Some ''MISSING_REQUIRED_PARAMS''))"
proof -
  let ?s = "new_provider github_config (github_group '''' ''acme'')"
  obtain s' where b: "gh_init_body one_group_store (answering JNull) ?s
      = (Inl (AppError ''GitHub token not found in configurations'' 401 (Some ''AUTH_FAILED'')), s')"
    by (simp add: gh_init_body_def config_param_def find_param_def first_value_def js_or_def
        prog_defs env_defs)
  obtain s'' where b': "body_of one_group_store (answering JNull) GH_actionListBranches
        (with_params []) github_ready
      = (Inl (AppError ''Repository name is required'' 400 (Some ''MISSING_REQUIRED_PARAMS'')), s'')"
    by (simp add: gh_actionListBranches_body_def missing_params_def get_trimmed_def get_trim_def
        params_or_empty_def call_params_def find_param_def first_value_def js_or_def
        prog_defs env_defs)
  have p: "passes_400 GH_actionListBranches" by simp
  from C5_propagation [of GH_actionListBranches one_group_store "answering JNull" "with_params []"
      github_ready "''Repository name is required''" "Some ''MISSING_REQUIRED_PARAMS''" s''] p b'
  have 1: "run one_group_store (answering JNull) GH_actionListBranches (with_params []) github_ready
      = (Inl (AppError ''Repository name is required'' 400 (Some ''MISSING_REQUIRED_PARAMS'')), s'')"
    by blast
  from C5_propagation [of _ one_group_store "answering JNull" _ ?s
      "''GitHub token not found in configurations''" "Some ''AUTH_FAILED''" s'] b
  have 2: "gh_init one_group_store (answering JNull) ?s
      = (Inl (AppError ''GitHub token not found in configurations'' 401 (Some ''AUTH_FAILED'')), s')"
    by blast
  from 1 2 show ?thesis by simp
qed

theorem C5_counterexample:
  "fst (gh_actionUpdatePluginConfig_body one_group_store (answering JNull)
          (with_params [single ''owner'' (JStr ''acme''), single ''token'' (JStr '''')])
          (new_provider github_config None))
     = Inl (AppError ''GitHub token not found in configurations'' 401 (Some ''AUTH_FAILED''))
   \<and> fst (gh_actionUpdatePluginConfig one_group_store (answering JNull)
          (with_params [single ''owner'' (JStr ''acme''), single ''token'' (JStr '''')])
          (new_provider github_config None))
     = Inl (AppError ''Failed to update plugin configuration'' 500 (Some ''CONFIG_UPDATE_FAILED''))"
  by (simp add: gh_actionUpdatePluginConfig_def gh_actionUpdatePluginConfig_body_def
      gh_actionUpdatePluginConfig_catch_def gh_init_defs prog_defs env_defs Let_def)
section \<open>Upstream failures\<close>

lemma no_call: "xs = h @ [x] \<Longrightarrow> length xs \<le> length h \<Longrightarrow> False"
  by simp

lemma two_calls: "xs @ [x, y] = h @ [z] \<longleftrightarrow> h = xs @ [x] \<and> y = z"
  by (metis append.assoc append.simps(1) append.simps(2) append1_eq_conv)

lemma last_call_gh_actionListRepos:
  assumes "gh_actionListRepos_body T options s = (r, s')"
    and "calls s' = h @ [(c, rq)]" and "length (calls s) \<le> length h" and "T h c rq = Inl e0"
  shows "r = Inl e0"
  using assms
  by (auto simp: gh_actionListRepos_body_def prog_defs Let_def missing_params_def two_calls
      split: sum.splits option.splits if_splits dest: no_call)

lemma last_call_gh_actionGetRepo:
  assumes "gh_actionGetRepo_body T options s = (r, s')"
    and "calls s' = h @ [(c, rq)]" and "length (calls s) \<le> length h" and "T h c rq = Inl e0"
  shows "r = Inl e0"
  using assms
  by (auto simp: gh_actionGetRepo_body_def prog_defs Let_def missing_params_def two_calls
      split: sum.splits option.splits if_splits dest: no_call)

lemma last_call_gh_actionListRepoContents:
  assumes "gh_actionListRepoContents_body T options s = (r, s')"
    and "calls s' = h @ [(c, rq)]" and "length (calls s) \<le> length h" and "T h c rq = Inl e0"
  shows "r = Inl e0"
  using assms
  by (auto simp: gh_actionListRepoContents_body_def prog_defs Let_def missing_params_def two_calls
      split: sum.splits option.splits if_splits dest: no_call)

lemma last_call_gh_actionGetRepoFileContent:
  assumes "gh_actionGetRepoFileContent_body T options s = (r, s')"
    and "calls s' = h @ [(c, rq)]" and "length (calls s) \<le> length h" and "T h c rq = Inl e0"
  shows "r = Inl e0"
  using assms
  by (auto simp: gh_actionGetRepoFileContent_body_def prog_defs Let_def missing_params_def two_calls
      split: sum.splits option.splits if_splits dest: no_call)

lemma last_call_gh_actionListBranches:
  assumes "gh_actionListBranches_body T options s = (r, s')"
    and "calls s' = h @ [(c, rq)]" and "length (calls s) \<le> length h" and "T h c rq = Inl e0"
  shows "r = Inl e0"
  using assms
  by (auto simp: gh_actionListBranches_body_def prog_defs Let_def missing_params_def two_calls
      split: sum.splits option.splits if_splits dest: no_call)

lemma last_call_gh_actionListBranchCommits:
  assumes "gh_actionListBranchCommits_body T options s = (r, s')"
    and "calls s' = h @ [(c, rq)]" and "length (calls s) \<le> length h" and "T h c rq = Inl e0"
  shows "r = Inl e0"
  using assms
  by (auto simp: gh_actionListBranchCommits_body_def prog_defs Let_def missing_params_def two_calls
      split: sum.splits option.splits if_splits dest: no_call)

lemma last_call_gh_actionListCommitModifications:
  assumes "gh_actionListCommitModifications_body T options s = (r, s')"
    and "calls s' = h @ [(c, rq)]" and "length (calls s) \<le> length h" and "T h c rq = Inl e0"
  shows "r = Inl e0"
  using assms
  by (auto simp: gh_actionListCommitModifications_body_def prog_defs Let_def missing_params_def two_calls
      split: sum.splits option.splits if_splits dest: no_call)

lemma last_call_gh_actionGetCommitDetails:
  assumes "gh_actionGetCommitDetails_body T options s = (r, s')"
    and "calls s' = h @ [(c, rq)]" and "length (calls s) \<le> length h" and "T h c rq = Inl e0"
  shows "r = Inl e0"
  using assms
  by (auto simp: gh_actionGetCommitDetails_body_def prog_defs Let_def missing_params_def two_calls
      split: sum.splits option.splits if_splits dest: no_call)

lemma last_call_gh_actionCommitsDiff:
  assumes "gh_actionCommitsDiff_body T options s = (r, s')"
    and "calls s' = h @ [(c, rq)]" and "length (calls s) \<le> length h" and "T h c rq = Inl e0"
  shows "r = Inl e0"
  using assms
  by (auto simp: gh_actionCommitsDiff_body_def prog_defs Let_def missing_params_def two_calls
      split: sum.splits option.splits if_splits dest: no_call)

lemma last_call_gh_actionCommentPrs:
  assumes "gh_actionCommentPrs_body T options s = (r, s')"
    and "calls s' = h @ [(c, rq)]" and "length (calls s) \<le> length h" and "T h c rq = Inl e0"
  shows "r = Inl e0"
  using assms
  by (auto simp: gh_actionCommentPrs_body_def prog_defs Let_def missing_params_def two_calls
      split: sum.splits option.splits if_splits dest: no_call)

lemma last_call_gh_actionListPipelines:
  assumes "gh_actionListPipelines_body T options s = (r, s')"
    and "calls s' = h @ [(c, rq)]" and "length (calls s) \<le> length h" and "T h c rq = Inl e0"
  shows "r = Inl e0"
  using assms
  by (auto simp: gh_actionListPipelines_body_def prog_defs Let_def missing_params_def two_calls
      split: sum.splits option.splits if_splits dest: no_call)

lemma last_call_gh_actionListDeployments:
  assumes "gh_actionListDeployments_body T options s = (r, s')"
    and "calls s' = h @ [(c, rq)]" and "length (calls s) \<le> length h" and "T h c rq = Inl e0"
  shows "r = Inl e0"
  using assms
  by (auto simp: gh_actionListDeployments_body_def prog_defs Let_def missing_params_def two_calls
      split: sum.splits option.splits if_splits dest: no_call)

lemma last_call_bb_actionListBitbucketWorkspaces:
  assumes "bb_actionListBitbucketWorkspaces_body T options s = (r, s')"
    and "calls s' = h @ [(c, rq)]" and "length (calls s) \<le> length h" and "T h c rq = Inl e0"
  shows "r = Inl e0"
  using assms
  by (auto simp: bb_actionListBitbucketWorkspaces_body_def prog_defs Let_def missing_params_def two_calls
      split: sum.splits option.splits if_splits dest: no_call)

lemma last_call_bb_actionListRepos:
  assumes "bb_actionListRepos_body T options s = (r, s')"
    and "calls s' = h @ [(c, rq)]" and "length (calls s) \<le> length h" and "T h c rq = Inl e0"
  shows "r = Inl e0"
  using assms
  by (auto simp: bb_actionListRepos_body_def prog_defs Let_def missing_params_def two_calls
      split: sum.splits option.splits if_splits dest: no_call)

lemma last_call_bb_actionGetRepo:
  assumes "bb_actionGetRepo_body T options s = (r, s')"
    and "calls s' = h @ [(c, rq)]" and "length (calls s) \<le> length h" and "T h c rq = Inl e0"
  shows "r = Inl e0"
  using assms
  by (auto simp: bb_actionGetRepo_body_def prog_defs Let_def missing_params_def two_calls
      split: sum.splits option.splits if_splits dest: no_call)

lemma last_call_bb_actionListRepoContents:
  assumes "bb_actionListRepoContents_body T options s = (r, s')"
    and "calls s' = h @ [(c, rq)]" and "length (calls s) \<le> length h" and "T h c rq = Inl e0"
  shows "r = Inl e0"
  using assms
  by (auto simp: bb_actionListRepoContents_body_def prog_defs Let_def missing_params_def two_calls
      split: sum.splits option.splits if_splits dest: no_call)

lemma last_call_bb_actionGetRepoFileContent:
  assumes "bb_actionGetRepoFileContent_body T options s = (r, s')"
    and "calls s' = h @ [(c, rq)]" and "length (calls s) \<le> length h" and "T h c rq = Inl e0"
  shows "r = Inl e0"
  using assms
  by (auto simp: bb_actionGetRepoFileContent_body_def prog_defs Let_def missing_params_def two_calls
      split: sum.splits option.splits if_splits dest: no_call)

lemma last_call_bb_actionListRepoBranches:
  assumes "bb_actionListRepoBranches_body T options s = (r, s')"
    and "calls s' = h @ [(c, rq)]" and "length (calls s) \<le> length h" and "T h c rq = Inl e0"
  shows "r = Inl e0"
  using assms
  by (auto simp: bb_actionListRepoBranches_body_def prog_defs Let_def missing_params_def two_calls
      split: sum.splits option.splits if_splits dest: no_call)

lemma last_call_bb_actionListBranchCommits:
  assumes "bb_actionListBranchCommits_body T options s = (r, s')"
    and "calls s' = h @ [(c, rq)]" and "length (calls s) \<le> length h" and "T h c rq = Inl e0"
  shows "r = Inl e0"
  using assms
  by (auto simp: bb_actionListBranchCommits_body_def prog_defs Let_def missing_params_def two_calls
      split: sum.splits option.splits if_splits dest: no_call)

lemma last_call_bb_actionListCommitModifications:
  assumes "bb_actionListCommitModifications_body T options s = (r, s')"
    and "calls s' = h @ [(c, rq)]" and "length (calls s) \<le> length h" and "T h c rq = Inl e0"
  shows "r = Inl e0"
  using assms
  by (auto simp: bb_actionListCommitModifications_body_def prog_defs Let_def missing_params_def two_calls
      split: sum.splits option.splits if_splits dest: no_call)

lemma last_call_bb_actionGetCommitDetails:
  assumes "bb_actionGetCommitDetails_body T options s = (r, s')"
    and "calls s' = h @ [(c, rq)]" and "length (calls s) \<le> length h" and "T h c rq = Inl e0"
  shows "r = Inl e0"
  using assms
  by (auto simp: bb_actionGetCommitDetails_body_def prog_defs Let_def missing_params_def two_calls
      split: sum.splits option.splits if_splits dest: no_call)

lemma last_call_bb_actionCommitsDiff:
  assumes "bb_actionCommitsDiff_body T options s = (r, s')"
    and "calls s' = h @ [(c, rq)]" and "length (calls s) \<le> length h" and "T h c rq = Inl e0"
  shows "r = Inl e0"
  using assms
  by (auto simp: bb_actionCommitsDiff_body_def prog_defs Let_def missing_params_def two_calls
      split: sum.splits option.splits if_splits dest: no_call)

lemma last_call_bb_actionCommentPRs:
  assumes "bb_actionCommentPRs_body T options s = (r, s')"
    and "calls s' = h @ [(c, rq)]" and "length (calls s) \<le> length h" and "T h c rq = Inl e0"
  shows "r = Inl e0"
  using assms
  by (auto simp: bb_actionCommentPRs_body_def prog_defs Let_def missing_params_def two_calls
      split: sum.splits option.splits if_splits dest: no_call)

lemma last_call_bb_actionListPipelines:
  assumes "bb_actionListPipelines_body T options s = (r, s')"
    and "calls s' = h @ [(c, rq)]" and "length (calls s) \<le> length h" and "T h c rq = Inl e0"
  shows "r = Inl e0"
  using assms
  by (auto simp: bb_actionListPipelines_body_def prog_defs Let_def missing_params_def two_calls
      split: sum.splits option.splits if_splits dest: no_call)

lemma last_call_bb_actionListDeployments:
  assumes "bb_actionListDeployments_body T options s = (r, s')"
    and "calls s' = h @ [(c, rq)]" and "length (calls s) \<le> length h" and "T h c rq = Inl e0"
  shows "r = Inl e0"
  using assms
  by (auto simp: bb_actionListDeployments_body_def prog_defs Let_def missing_params_def two_calls
      split: sum.splits option.splits if_splits dest: no_call)

lemma last_call_gh_actionUpdatePluginConfig:
  assumes "gh_actionUpdatePluginConfig cm T options s = (r, s')"
    and "calls s' = h @ [(c, rq)]" and "length (calls s) \<le> length h" and "T h c rq = Inl e0"
  shows "r = Inl config_update_failed"
  using assms
  by (auto simp: update_unfold gh_init_defs prog_defs Let_def
      split: sum.splits option.splits if_splits prod.splits dest: no_call)

lemma last_call_body:
  assumes "body_of cm T a options s = (r, s')" and "a \<noteq> GH_actionUpdatePluginConfig"
    and "calls s' = h @ [(c, rq)]" and "length (calls s) \<le> length h" and "T h c rq = Inl e0"
  shows "r = Inl e0"
proof (cases a)

  case GH_actionUpdatePluginConfig
  with assms show ?thesis by simp
next
  case GH_actionListRepos
  with assms last_call_gh_actionListRepos [of T options s r s' h c rq e0] show ?thesis by simp
next
  case GH_actionGetRepo
  with assms last_call_gh_actionGetRepo [of T options s r s' h c rq e0] show ?thesis by simp
next
  case GH_actionListRepoContents
  with assms last_call_gh_actionListRepoContents [of T options s r s' h c rq e0] show ?thesis by simp
next
  case GH_actionGetRepoFileContent
  with assms last_call_gh_actionGetRepoFileContent [of T options s r s' h c rq e0] show ?thesis by simp
next
  case GH_actionListBranches
  with assms last_call_gh_actionListBranches [of T options s r s' h c rq e0] show ?thesis by simp
next
  case GH_actionListBranchCommits
  with assms last_call_gh_actionListBranchCommits [of T options s r s' h c rq e0] show ?thesis by simp
next
  case GH_actionListCommitModifications
  with assms last_call_gh_actionListCommitModifications [of T options s r s' h c rq e0] show ?thesis by simp
next
  case GH_actionGetCommitDetails
  with assms last_call_gh_actionGetCommitDetails [of T options s r s' h c rq e0] show ?thesis by simp
next
  case GH_actionCommitsDiff
  with assms last_call_gh_actionCommitsDiff [of T options s r s' h c rq e0] show ?thesis by simp
next
  case GH_actionCommentPrs
  with assms last_call_gh_actionCommentPrs [of T options s r s' h c rq e0] show ?thesis by simp
next
  case GH_actionListPipelines
  with assms last_call_gh_actionListPipelines [of T options s r s' h c rq e0] show ?thesis by simp
next
  case GH_actionListDeployments
  with assms last_call_gh_actionListDeployments [of T options s r s' h c rq e0] show ?thesis by simp
next
  case BB_actionListBitbucketWorkspaces
  with assms last_call_bb_actionListBitbucketWorkspaces [of T options s r s' h c rq e0] show ?thesis by simp
next
  case BB_actionListRepos
  with assms last_call_bb_actionListRepos [of T options s r s' h c rq e0] show ?thesis by simp
next
  case BB_actionGetRepo
  with assms last_call_bb_actionGetRepo [of T options s r s' h c rq e0] show ?thesis by simp
next
  case BB_actionListRepoContents
  with assms last_call_bb_actionListRepoContents [of T options s r s' h c rq e0] show ?thesis by simp
next
  case BB_actionGetRepoFileContent
  with assms last_call_bb_actionGetRepoFileContent [of T options s r s' h c rq e0] show ?thesis by simp
next
  case BB_actionListRepoBranches
  with assms last_call_bb_actionListRepoBranches [of T options s r s' h c rq e0] show ?thesis by simp
next
  case BB_actionListBranchCommits
  with assms last_call_bb_actionListBranchCommits [of T options s r s' h c rq e0] show ?thesis by simp
next
  case BB_actionListCommitModifications
  with assms last_call_bb_actionListCommitModifications [of T options s r s' h c rq e0] show ?thesis by simp
next
  case BB_actionGetCommitDetails
  with assms last_call_bb_actionGetCommitDetails [of T options s r s' h c rq e0] show ?thesis by simp
next
  case BB_actionCommitsDiff
  with assms last_call_bb_actionCommitsDiff [of T options s r s' h c rq e0] show ?thesis by simp
next
  case BB_actionCommentPRs
  with assms last_call_bb_actionCommentPRs [of T options s r s' h c rq e0] show ?thesis by simp
next
  case BB_actionListPipelines
  with assms last_call_bb_actionListPipelines [of T options s r s' h c rq e0] show ?thesis by simp
next
  case BB_actionListDeployments
  with assms last_call_bb_actionListDeployments [of T options s r s' h c rq e0] show ?thesis by simp
qed

lemma last_call_run:
  assumes "run cm T a options s = (r, s')"
    and "calls s' = h @ [(c, rq)]" and "length (calls s) \<le> length h" and "T h c rq = Inl e0"
  shows "r = Inl (catch_of a e0)"
proof (cases "a = GH_actionUpdatePluginConfig")
  case True
  with assms last_call_gh_actionUpdatePluginConfig [of cm T options s r s' h c rq e0]
  show ?thesis
    by (simp add: gh_actionUpdatePluginConfig_catch_def config_update_failed_def)
next
  case False
  from assms(1)
  have "try_catch (body_of cm T a options) (\<lambda>error. throw (catch_of a error)) s = (r, s')"
    by (simp add: run_try_catch)
  then show ?thesis
  proof (cases rule: try_catch_cases)
    case (thrown e)
    from last_call_body [OF thrown(1) False assms(2,3,4)] thrown(2) show ?thesis by simp
  next
    case (returned x)
    from last_call_body [OF returned(1) False assms(2,3,4)] show ?thesis by simp
  qed
qed

lemma catch_upstream_404:
  "maps_404 a \<Longrightarrow>
     \<exists>m code. catch_of a (upstream 404) = AppError m 404 (Some code)
        \<and> code \<in> {''RESOURCE_NOT_FOUND'', ''REPOSITORY_NOT_FOUND''}"
  by (cases a) (simp_all add: catch_defs catch_shape_defs upstream_def)

lemma catch_upstream_404_generalised:
  "\<not> maps_404 a \<Longrightarrow> \<exists>m code. catch_of a (upstream 404) = AppError m 500 (Some code)"
  by (cases a) (simp_all add: catch_defs catch_shape_defs upstream_def)

lemma catch_upstream_400:
  "passes_400 a \<Longrightarrow> catch_of a (upstream 400) = upstream 400"
  by (cases a) (simp_all add: catch_defs catch_shape_defs upstream_def)

lemma catch_upstream_400_generalised:
  "\<not> passes_400 a \<Longrightarrow> \<exists>m code. catch_of a (upstream 400) = AppError m 500 (Some code)"
  by (cases a) (simp_all add: catch_defs catch_shape_defs upstream_def)

lemma catch_upstream_other:
  "n \<noteq> 404 \<Longrightarrow> n \<noteq> 400 \<Longrightarrow>
     \<exists>m code. catch_of a (upstream n) = AppError m 500 (Some code)"
  by (cases a) (simp_all add: catch_defs catch_shape_defs upstream_def)

text \<open>
  C2 (as amended). Let the last HTTP call of an action be rejected for an upstream
  response with status \<open>n\<close>. Then the action fails with what its catch block makes of
  that rejection. For \<open>n = 404\<close> this is an AppError with statusCode 404 and errorCode
  \<open>RESOURCE_NOT_FOUND\<close> or \<open>REPOSITORY_NOT_FOUND\<close> in the actions with a 404 branch
  (\<open>maps_404\<close>: every GithubProvider action but actionUpdatePluginConfig, and
  BitbucketProvider.actionGetCommitDetails), and the 500 of the action in all others.
  For \<open>n = 400\<close> the rejection itself is re-thrown by the actions with a 400 branch
  (\<open>passes_400\<close>) and becomes the 500 of the action in the others. Every other status,
  401 included, becomes the 500 of the action.
\<close>

theorem C2_upstream_status:
  assumes "run cm T a options s = (r, s')"
    and "calls s' = h @ [(c, rq)]"
    and "length (calls s) \<le> length h"
    and "T h c rq = Inl (upstream n)"
  shows "r = Inl (catch_of a (upstream n))
    \<and> (n = 404 \<longrightarrow> maps_404 a \<longrightarrow>
          (\<exists>m code. r = Inl (AppError m 404 (Some code))
              \<and> code \<in> {''RESOURCE_NOT_FOUND'', ''REPOSITORY_NOT_FOUND''}))
    \<and> (n = 404 \<longrightarrow> \<not> maps_404 a \<longrightarrow> (\<exists>m code. r = Inl (AppError m 500 (Some code))))
    \<and> (n = 400 \<longrightarrow> passes_400 a \<longrightarrow> r = Inl (upstream 400))
    \<and> (n = 400 \<longrightarrow> \<not> passes_400 a \<longrightarrow> (\<exists>m code. r = Inl (AppError m 500 (Some code))))
    \<and> (n \<noteq> 404 \<longrightarrow> n \<noteq> 400 \<longrightarrow> (\<exists>m code. r = Inl (AppError m 500 (Some code))))"
proof -
  have r: "r = Inl (catch_of a (upstream n))"
    using assms by (rule last_call_run)
  show ?thesis
    using r catch_upstream_404 [of a] catch_upstream_404_generalised [of a]
      catch_upstream_400 [of a] catch_upstream_400_generalised [of a]
      catch_upstream_other [of n a]
    by auto
qed

lemma github_ready_eq:
  "github_ready =
     \<lparr>client = Some (gh_client (JStr ''tok_1'') (new_provider github_config (None :: config_group option))),
      owner = JStr ''acme'', config = github_config, store = github_group ''tok_1'' ''acme'',
      calls = [(gh_client (JStr ''tok_1'') (new_provider github_config (None :: config_group option)),
                \<lparr>meth = GET, url = ''/user'', query = [], body = JUndefined\<rparr>)]\<rparr>"
  by (simp add: github_ready_def gh_init_defs prog_defs env_defs)

lemma bitbucket_ready_eq:
  "bitbucket_ready =
     \<lparr>client = Some (bb_client (JArr [JStr ''jane'']) (JArr [JStr ''app_pw''])
                       (new_provider bitbucket_config (None :: config_group option))),
      owner = JArr [JStr ''acme''], config = bitbucket_config,
      store = bitbucket_group ''jane'' ''app_pw'' ''acme'',
      calls = [(bb_client (JArr [JStr ''jane'']) (JArr [JStr ''app_pw''])
                  (new_provider bitbucket_config (None :: config_group option)),
                \<lparr>meth = GET, url = ''/user'', query = [], body = JUndefined\<rparr>)]\<rparr>"
  by (simp add: bitbucket_ready_def bb_init_defs prog_defs env_defs)

theorem C2_upstream_status_witness:
  "fst (run one_group_store (rejecting 404) GH_actionGetRepo
          (with_params [single ''repoName'' (JStr ''site'')]) github_ready)
     = Inl (catch_of GH_actionGetRepo (upstream 404))
   \<and> catch_of GH_actionGetRepo (upstream 404)
     = AppError ''Repository not found'' 404 (Some ''REPOSITORY_NOT_FOUND'')"
proof -
  let ?o = "with_params [single ''repoName'' (JStr ''site'')]"
  let ?c = "gh_client (JStr ''tok_1'') (new_provider github_config (None :: config_group option))"
  let ?rq = "\<lparr>meth = GET, url = ''/repos/acme/site'', query = [], body = JUndefined\<rparr>"
  let ?r = "fst (run one_group_store (rejecting 404) GH_actionGetRepo ?o github_ready)"
  let ?s' = "snd (run one_group_store (rejecting 404) GH_actionGetRepo ?o github_ready)"
  have run: "run one_group_store (rejecting 404) GH_actionGetRepo ?o github_ready = (?r, ?s')"
    by simp
  have log: "calls ?s' = calls github_ready @ [(?c, ?rq)]"
    by (simp add: github_ready_eq gh_actionGetRepo_def gh_actionGetRepo_body_def
        get_trimmed_def get_trim_def params_or_empty_def call_params_def find_param_def
        first_value_def js_or_def trim_def is_ws_def prog_defs env_defs gh_client_def)
  have rej: "rejecting 404 (calls github_ready) ?c ?rq = Inl (upstream 404)"
    by (simp add: rejecting_def)
  from C2_upstream_status [OF run log _ rej]
  have "?r = Inl (catch_of GH_actionGetRepo (upstream 404))"
    by simp
  then show ?thesis
    by (simp add: gh_actionGetRepo_catch_def catch_404_400_500_def upstream_def)
qed

theorem C2_counterexample:
  "fst (run one_group_store (rejecting 404) BB_actionListBranchCommits
          (with_params [single ''repoName'' (JStr ''site''), single ''branch'' (JStr ''main'')])
          bitbucket_ready)
     = Inl (AppError ''Failed to fetch commits'' 500 (Some ''FETCH_COMMITS_FAILED''))
   \<and> calls (snd (run one_group_store (rejecting 404) BB_actionListBranchCommits
          (with_params [single ''repoName'' (JStr ''site''), single ''branch'' (JStr ''main'')])
          bitbucket_ready))
     = calls bitbucket_ready
        @ [(the (client bitbucket_ready),
            \<lparr>meth = GET, url = ''/repositories/acme/site/commits/main'', query = [],
               body = JUndefined\<rparr>)]
   \<and> rejecting 404 (calls bitbucket_ready) (the (client bitbucket_ready))
        \<lparr>meth = GET, url = ''/repositories/acme/site/commits/main'', query = [],
           body = JUndefined\<rparr>
     = Inl (TransportError (JNum 404) JUndefined)"
  by (simp add: bitbucket_ready_eq bb_actionListBranchCommits_def bb_actionListBranchCommits_body_def
      bb_actionListBranchCommits_catch_def catch_500_def
      get_trimmed_def get_trim_def params_or_empty_def call_params_def find_param_def
      first_value_def js_or_def trim_def is_ws_def prog_defs env_defs)
section \<open>The input channel of the actions\<close>

lemma params_or_empty_cong:
  "call_params o1 = call_params o2 \<Longrightarrow> params_or_empty o1 = params_or_empty o2"
  by (simp add: params_or_empty_def)

lemma run_reads_params:
  assumes "a \<noteq> GH_actionUpdatePluginConfig" and "a \<noteq> BB_actionListRepos"
    and "call_params o1 = call_params o2"
  shows "run cm T a o1 s = run cm T a o2 s"
  using assms(1,2) params_or_empty_cong [OF assms(3)]
  by (cases a) (simp_all add: action_defs body_defs)

lemma bb_actionListRepos_reads_top_level:
  assumes "opt_sort o1 = opt_sort o2" and "opt_page o1 = opt_page o2"
    and "opt_perPage o1 = opt_perPage o2"
  shows "bb_actionListRepos T o1 s = bb_actionListRepos T o2 s"
  using assms by (simp add: bb_actionListRepos_def bb_actionListRepos_body_def)

lemma update_reads_configs:
  assumes "configs o1 = configs o2"
  shows "gh_actionUpdatePluginConfig cm T o1 s = gh_actionUpdatePluginConfig cm T o2 s"
  using assms
  by (simp add: gh_actionUpdatePluginConfig_def gh_actionUpdatePluginConfig_body_def)

text \<open>
  C9 (as amended). For every action other than GithubProvider.actionUpdatePluginConfig and
  BitbucketProvider.actionListRepos, two options values with the same
  \<^verbatim>\<open>configs.params\<close> give the same HTTP requests and the same result or error,
  whatever the provider state and the transport. actionUpdatePluginConfig depends on
  \<^verbatim>\<open>options.configs\<close> as a whole. BitbucketProvider.actionListRepos depends on the
  top-level \<^verbatim>\<open>sort\<close>, \<^verbatim>\<open>page\<close> and \<^verbatim>\<open>perPage\<close> of the options and on
  nothing else of them.
\<close>

theorem C9_input_channel:
  "(a \<noteq> GH_actionUpdatePluginConfig \<longrightarrow> a \<noteq> BB_actionListRepos \<longrightarrow>
      call_params o1 = call_params o2 \<longrightarrow> run cm T a o1 s = run cm T a o2 s)
   \<and> (configs o1 = configs o2 \<longrightarrow>
        run cm T GH_actionUpdatePluginConfig o1 s = run cm T GH_actionUpdatePluginConfig o2 s)
   \<and> (opt_sort o1 = opt_sort o2 \<longrightarrow> opt_page o1 = opt_page o2 \<longrightarrow>
        opt_perPage o1 = opt_perPage o2 \<longrightarrow>
        run cm T BB_actionListRepos o1 s = run cm T BB_actionListRepos o2 s)"
  using run_reads_params [of a o1 o2 cm T s] bb_actionListRepos_reads_top_level [of o1 o2 T s]
    update_reads_configs [of o1 o2 cm T s]
  by auto

theorem C9_input_channel_witness:
  "run one_group_store (answering (JArr [])) GH_actionListRepos
     (with_params [single ''sort'' (JStr ''created'')]) github_ready
   = run one_group_store (answering (JArr [])) GH_actionListRepos
     ((with_params [single ''sort'' (JStr ''created'')])\<lparr>opt_sort := JStr ''name'', opt_page := JNum 3\<rparr>)
     github_ready"
proof -
  let ?o1 = "with_params [single ''sort'' (JStr ''created'')]"
  let ?o2 = "?o1\<lparr>opt_sort := JStr ''name'', opt_page := JNum 3\<rparr>"
  have p: "call_params ?o1 = call_params ?o2"
    by (simp add: call_params_def with_params_def)
  have n: "GH_actionListRepos \<noteq> GH_actionUpdatePluginConfig" "GH_actionListRepos \<noteq> BB_actionListRepos"
    by simp_all
  from C9_input_channel [of GH_actionListRepos ?o1 ?o2 one_group_store "answering (JArr [])"
      github_ready] p n
  show ?thesis by blast
qed

theorem C9_counterexample:
  "call_params (with_params []) = call_params ((with_params [])\<lparr>opt_sort := JStr ''name''\<rparr>)
   \<and> map (\<lambda>c. query (snd c))
        (calls (snd (run one_group_store (answering (JObj [])) BB_actionListRepos
                       (with_params []) bitbucket_ready)))
     = [[], [(''sort'', JStr ''-updated_on''), (''page'', JNum 1), (''pagelen'', JNum 50)]]
   \<and> map (\<lambda>c. query (snd c))
        (calls (snd (run one_group_store (answering (JObj [])) BB_actionListRepos
                       ((with_params [])\<lparr>opt_sort := JStr ''name''\<rparr>) bitbucket_ready)))
     = [[], [(''sort'', JStr ''name''), (''page'', JNum 1), (''pagelen'', JNum 50)]]"
  by (simp add: call_params_def with_params_def bitbucket_ready_eq bb_actionListRepos_def
      bb_actionListRepos_body_def bb_actionListRepos_catch_def catch_500_def js_or_def prog_defs
      answering_def)
section \<open>GithubProvider.actionListRepoContents and actionGetRepoFileContent\<close>






section \<open>init\<close>

lemma credential_missing_falsy:
  "credential_missing cfgs k \<Longrightarrow> \<not> truthy (js_or (first_value (config_param cfgs k)) (JStr ''''))"
  by (auto simp: credential_missing_def first_value_def js_or_def split: option.splits list.splits)

lemma gh_init_missing:
  assumes "getConfig cm (store s) ''github_config'' = Inr cfgs"
    and "credential_missing cfgs ''token'' \<or> credential_missing cfgs ''owner''"
  shows "\<exists>m s'. gh_init cm T s = (Inl (AppError m 401 (Some ''AUTH_FAILED'')), s')
            \<and> calls s' = calls s \<and> client s' = client s"
  using assms credential_missing_falsy [of cfgs "''token''"]
    credential_missing_falsy [of cfgs "''owner''"]
  by (auto simp: gh_init_def gh_init_body_def gh_init_catch_def prog_defs Let_def)

lemma gh_init_other:
  assumes "gh_init cm T s = (Inl e, s')"
  shows "e = AppError ''Failed to initialize GitHub provider'' 500 None \<or> is_401 e"
proof -
  from assms obtain e0 where "e = gh_init_catch e0"
    unfolding gh_init_def by (cases rule: try_catch_cases) auto
  then show ?thesis
    by (auto simp: gh_init_catch_def is_401_def)
qed

lemma bb_init_absent:
  assumes "getConfig cm (store s) ''bitbucket_config'' = Inr cfgs"
    and "config_param cfgs ''username'' = None \<or> config_param cfgs ''appPassword'' = None"
  shows "\<exists>s'. bb_init cm T s
            = (Inl (AppError ''Bitbucket credentials not found'' 401 (Some ''AUTH_FAILED'')), s')
          \<and> calls s' = calls s \<and> client s' = client s"
  using assms
  by (auto simp: bb_init_def bb_init_body_def bb_init_catch_def config_value_def js_or_def
      prog_defs Let_def)

lemma bb_init_auth_failed:
  assumes "getConfig cm (store s) ''bitbucket_config'' = Inr cfgs"
    and "bb_init cm T s = (Inl e, s')"
  shows "\<exists>m. e = AppError m 401 (Some ''AUTH_FAILED'')"
  using assms
  by (auto simp: bb_init_def bb_init_body_def bb_init_catch_def bb_createClient_def
      prog_defs Let_def split: if_splits sum.splits option.splits)

lemma bb_init_other:
  assumes "bb_init cm T s = (Inl e, s')"
  shows "e = AppError ''Failed to initialize Bitbucket provider'' 500 None \<or> is_401 e"
proof -
  from assms obtain e0 where "e = bb_init_catch e0"
    unfolding bb_init_def by (cases rule: try_catch_cases) auto
  then show ?thesis
    by (auto simp: bb_init_catch_def is_401_def)
qed

lemma gh_init_rethrow:
  assumes "gh_init_body cm T s = (Inl e0, s')"
  shows "gh_init cm T s
           = (Inl (if is_401 e0 then e0
                   else AppError ''Failed to initialize GitHub provider'' 500 None), s')"
  using assms try_catch_fail [of "gh_init_body cm T" s e0 s' gh_init_catch]
  by (auto simp: gh_init_def gh_init_catch_def is_401_def)

lemma bb_init_rethrow:
  assumes "bb_init_body cm T s = (Inl e0, s')"
  shows "bb_init cm T s
           = (Inl (if resp_status e0 = JNum 401 \<or> status_code e0 = JNum 401 then e0
                   else AppError ''Failed to initialize Bitbucket provider'' 500 None), s')"
  using assms try_catch_fail [of "bb_init_body cm T" s e0 s' bb_init_catch]
  by (auto simp: bb_init_def bb_init_catch_def)

lemma gh_init_config_fails:
  assumes "getConfig cm (store s) ''github_config'' = Inl e0"
  shows "gh_init cm T s
           = (Inl (if is_401 e0 then e0
                   else AppError ''Failed to initialize GitHub provider'' 500 None), s)"
proof -
  from assms have "gh_init_body cm T s = (Inl e0, s)"
    by (simp add: gh_init_body_def prog_defs)
  then show ?thesis by (rule gh_init_rethrow)
qed

lemma bb_init_config_fails:
  assumes "getConfig cm (store s) ''bitbucket_config'' = Inl e0"
  shows "bb_init cm T s
           = (Inl (if resp_status e0 = JNum 401 \<or> status_code e0 = JNum 401 then e0
                   else AppError ''Failed to initialize Bitbucket provider'' 500 None), s)"
proof -
  from assms have "bb_init_body cm T s = (Inl e0, s)"
    by (simp add: bb_init_body_def prog_defs)
  then show ?thesis by (rule bb_init_rethrow)
qed

lemma gh_init_user_rejected:
  assumes "getConfig cm (store s) ''github_config'' = Inr cfgs"
    and "token = js_or (first_value (config_param cfgs ''token'')) (JStr '''')"
    and "own = js_or (first_value (config_param cfgs ''owner'')) (JStr '''')"
    and "truthy token" and "truthy own"
    and "T (calls s) (gh_client token s) user_request = Inl e0"
  shows "gh_init cm T s
           = (Inl (if is_401 e0 then e0
                   else AppError ''Failed to initialize GitHub provider'' 500 None),
              s\<lparr>client := Some (gh_client token s), owner := own,
                calls := calls s @ [(gh_client token s, user_request)]\<rparr>)"
proof -
  from assms have "gh_init_body cm T s
      = (Inl e0, s\<lparr>client := Some (gh_client token s), owner := own,
                   calls := calls s @ [(gh_client token s, user_request)]\<rparr>)"
    by (simp add: gh_init_body_def gh_createClient_def gh_client_def user_request_def
        prog_defs Let_def)
  then show ?thesis by (rule gh_init_rethrow)
qed

lemma gh_init_user_accepted:
  assumes "getConfig cm (store s) ''github_config'' = Inr cfgs"
    and "token = js_or (first_value (config_param cfgs ''token'')) (JStr '''')"
    and "own = js_or (first_value (config_param cfgs ''owner'')) (JStr '''')"
    and "truthy token" and "truthy own"
    and "T (calls s) (gh_client token s) user_request = Inr d"
  shows "gh_init cm T s
           = (Inr (), s\<lparr>client := Some (gh_client token s), owner := own,
                         calls := calls s @ [(gh_client token s, user_request)]\<rparr>)"
  using assms
  by (simp add: gh_init_def gh_init_body_def gh_createClient_def gh_client_def user_request_def
      prog_defs Let_def)

lemma bb_init_user_rejected:
  assumes "getConfig cm (store s) ''bitbucket_config'' = Inr cfgs"
    and "config_param cfgs ''username'' \<noteq> None" and "config_param cfgs ''appPassword'' \<noteq> None"
    and "T (calls s) (bb_client (config_value cfgs ''username'') (config_value cfgs ''appPassword'') s)
           user_request = Inl e0"
  shows "fst (bb_init cm T s)
           = Inl (AppError ''Bitbucket authentication failed'' 401 (Some ''AUTH_FAILED''))"
  using assms
  by (auto simp: bb_init_def bb_init_body_def bb_init_catch_def bb_createClient_def bb_client_def
      config_value_def js_or_def user_request_def prog_defs Let_def)

text \<open>
  C3 (as amended). GithubProvider.init() fails with the AppError \<open>401 AUTH_FAILED\<close>,
  without an HTTP call, whenever the token or the owner is missing or empty in the group
  \<^verbatim>\<open>github_config\<close>. Any other failure inside it (a failing \<^verbatim>\<open>getConfig\<close>, a
  rejected fetch-current-user call) surfaces as the AppError
  \<open>"Failed to initialize GitHub provider"\<close> with statusCode 500, except that a caught
  value that carries the status 401 is re-thrown as it is; with both credentials present
  and the fetch-current-user call accepted, it succeeds. BitbucketProvider.init() fails
  with \<open>401 AUTH_FAILED\<close> whenever the \<^verbatim>\<open>username\<close> or the \<^verbatim>\<open>appPassword\<close> entry
  is absent from \<^verbatim>\<open>bitbucket_config\<close>; with both entries present, a rejected
  fetch-current-user call gives \<open>401 AUTH_FAILED\<close> whatever the rejection, and once the
  group is read every failure of it is \<open>401 AUTH_FAILED\<close>. Its catch block re-throws a
  caught value whose \<^verbatim>\<open>response.status\<close> or \<^verbatim>\<open>statusCode\<close> is the number 401 and
  turns any other into the AppError \<open>"Failed to initialize Bitbucket provider"\<close> with
  statusCode 500, which only a failing \<^verbatim>\<open>getConfig\<close> reaches.
\<close>

theorem C3_init_failures:
  "(getConfig cm (store s) ''github_config'' = Inr cfgs \<longrightarrow>
      credential_missing cfgs ''token'' \<or> credential_missing cfgs ''owner'' \<longrightarrow>
      (\<exists>m s'. gh_init cm T s = (Inl (AppError m 401 (Some ''AUTH_FAILED'')), s')
          \<and> calls s' = calls s \<and> client s' = client s))
   \<and> (gh_init cm T s = (Inl e, s1) \<longrightarrow>
        e = AppError ''Failed to initialize GitHub provider'' 500 None \<or> is_401 e)
   \<and> (getConfig cm (store s) ''bitbucket_config'' = Inr cfgs \<longrightarrow>
        config_param cfgs ''username'' = None \<or> config_param cfgs ''appPassword'' = None \<longrightarrow>
        (\<exists>s'. bb_init cm T s
            = (Inl (AppError ''Bitbucket credentials not found'' 401 (Some ''AUTH_FAILED'')), s')
          \<and> calls s' = calls s \<and> client s' = client s))
   \<and> (getConfig cm (store s) ''bitbucket_config'' = Inr cfgs \<longrightarrow>
        bb_init cm T s = (Inl e, s1) \<longrightarrow> (\<exists>m. e = AppError m 401 (Some ''AUTH_FAILED'')))
   \<and> (bb_init cm T s = (Inl e, s1) \<longrightarrow>
        e = AppError ''Failed to initialize Bitbucket provider'' 500 None \<or> is_401 e)
   \<and> (gh_init_body cm T s = (Inl e0, s2) \<longrightarrow>
        gh_init cm T s
          = (Inl (if is_401 e0 then e0
                  else AppError ''Failed to initialize GitHub provider'' 500 None), s2))
   \<and> (getConfig cm (store s) ''github_config'' = Inl e0 \<longrightarrow>
        gh_init cm T s
          = (Inl (if is_401 e0 then e0
                  else AppError ''Failed to initialize GitHub provider'' 500 None), s))
   \<and> (getConfig cm (store s) ''github_config'' = Inr cfgs \<longrightarrow>
        token = js_or (first_value (config_param cfgs ''token'')) (JStr '''') \<longrightarrow>
        own = js_or (first_value (config_param cfgs ''owner'')) (JStr '''') \<longrightarrow>
        truthy token \<longrightarrow> truthy own \<longrightarrow>
        (T (calls s) (gh_client token s) user_request = Inl e0 \<longrightarrow>
           gh_init cm T s
             = (Inl (if is_401 e0 then e0
                     else AppError ''Failed to initialize GitHub provider'' 500 None),
                s\<lparr>client := Some (gh_client token s), owner := own,
                  calls := calls s @ [(gh_client token s, user_request)]\<rparr>))
        \<and> (T (calls s) (gh_client token s) user_request = Inr d \<longrightarrow>
           gh_init cm T s
             = (Inr (), s\<lparr>client := Some (gh_client token s), owner := own,
                           calls := calls s @ [(gh_client token s, user_request)]\<rparr>)))
   \<and> (bb_init_body cm T s = (Inl e0, s2) \<longrightarrow>
        bb_init cm T s
          = (Inl (if resp_status e0 = JNum 401 \<or> status_code e0 = JNum 401 then e0
                  else AppError ''Failed to initialize Bitbucket provider'' 500 None), s2))
   \<and> (getConfig cm (store s) ''bitbucket_config'' = Inl e0 \<longrightarrow>
        bb_init cm T s
          = (Inl (if resp_status e0 = JNum 401 \<or> status_code e0 = JNum 401 then e0
                  else AppError ''Failed to initialize Bitbucket provider'' 500 None), s))
   \<and> (getConfig cm (store s) ''bitbucket_config'' = Inr cfgs \<longrightarrow>
        config_param cfgs ''username'' \<noteq> None \<longrightarrow> config_param cfgs ''appPassword'' \<noteq> None \<longrightarrow>
        T (calls s)
          (bb_client (config_value cfgs ''username'') (config_value cfgs ''appPassword'') s)
          user_request = Inl e0 \<longrightarrow>
        fst (bb_init cm T s)
          = Inl (AppError ''Bitbucket authentication failed'' 401 (Some ''AUTH_FAILED'')))"
proof -
  note 1 = gh_init_missing [of cm s cfgs T]
  note 2 = gh_init_other [of cm T s e s1]
  note 3 = bb_init_absent [of cm s cfgs T]
  note 4 = bb_init_auth_failed [of cm s cfgs T e s1]
  note 5 = bb_init_other [of cm T s e s1]
  note 6 = gh_init_rethrow [of cm T s e0 s2]
  note 7 = gh_init_config_fails [of cm s e0 T]
  note 8 = gh_init_user_rejected [of cm s cfgs token own T e0]
  note 9 = gh_init_user_accepted [of cm s cfgs token own T d]
  note 10 = bb_init_rethrow [of cm T s e0 s2]
  note 11 = bb_init_config_fails [of cm s e0 T]
  note 12 = bb_init_user_rejected [of cm s cfgs T e0]
  have a: "getConfig cm (store s) ''github_config'' = Inr cfgs \<longrightarrow>
      credential_missing cfgs ''token'' \<or> credential_missing cfgs ''owner'' \<longrightarrow>
      (\<exists>m s'. gh_init cm T s = (Inl (AppError m 401 (Some ''AUTH_FAILED'')), s')
          \<and> calls s' = calls s \<and> client s' = client s)"
    using 1 by blast
  have b: "gh_init cm T s = (Inl e, s1) \<longrightarrow>
        e = AppError ''Failed to initialize GitHub provider'' 500 None \<or> is_401 e"
    using 2 by blast
  have c: "getConfig cm (store s) ''bitbucket_config'' = Inr cfgs \<longrightarrow>
        config_param cfgs ''username'' = None \<or> config_param cfgs ''appPassword'' = None \<longrightarrow>
        (\<exists>s'. bb_init cm T s
            = (Inl (AppError ''Bitbucket credentials not found'' 401 (Some ''AUTH_FAILED'')), s')
          \<and> calls s' = calls s \<and> client s' = client s)"
    using 3 by blast
  have d: "getConfig cm (store s) ''bitbucket_config'' = Inr cfgs \<longrightarrow>
        bb_init cm T s = (Inl e, s1) \<longrightarrow> (\<exists>m. e = AppError m 401 (Some ''AUTH_FAILED''))"
    using 4 by blast
  have e: "bb_init cm T s = (Inl e, s1) \<longrightarrow>
        e = AppError ''Failed to initialize Bitbucket provider'' 500 None \<or> is_401 e"
    using 5 by blast
  from a b c d e 6 7 8 9 10 11 12 show ?thesis
    by (intro conjI impI) simp_all
qed

theorem C3_init_failures_witness:
  "(\<exists>m. fst (gh_init one_group_store (answering JNull)
               (new_provider github_config (github_group '''' ''acme'')))
          = Inl (AppError m 401 (Some ''AUTH_FAILED'')))
   \<and> fst (gh_init one_group_store (rejecting 503)
               (new_provider github_config (github_group ''tok_1'' ''acme'')))
       = Inl (AppError ''Failed to initialize GitHub provider'' 500 None)
   \<and> fst (gh_init one_group_store (rejecting 401)
               (new_provider github_config (github_group ''tok_1'' ''acme'')))
       = Inl (TransportError (JNum 401) JUndefined)"
proof -
  let ?s = "new_provider github_config (github_group '''' ''acme'')"
  let ?t = "new_provider github_config (github_group ''tok_1'' ''acme'')"
  let ?g = "github_group ''tok_1'' ''acme''"
  have g: "getConfig one_group_store (store ?s) ''github_config'' = Inr (github_group '''' ''acme'')"
    by (simp add: env_defs)
  have m: "credential_missing (github_group '''' ''acme'') ''token''"
    by (simp add: credential_missing_def config_param_def find_param_def env_defs)
  from C3_init_failures [of one_group_store ?s "github_group '''' ''acme''" "answering JNull"] g m
  have 1: "\<exists>m. fst (gh_init one_group_store (answering JNull) ?s)
                 = Inl (AppError m 401 (Some ''AUTH_FAILED''))"
    by force
  have g': "getConfig one_group_store (store ?t) ''github_config'' = Inr ?g"
    by (simp add: env_defs)
  have tk: "JStr ''tok_1'' = js_or (first_value (config_param ?g ''token'')) (JStr '''')"
    and ow: "JStr ''acme'' = js_or (first_value (config_param ?g ''owner'')) (JStr '''')"
    and tr: "truthy (JStr ''tok_1'')" "truthy (JStr ''acme'')"
    by (simp_all add: config_param_def find_param_def first_value_def js_or_def env_defs)
  have r503: "rejecting 503 (calls ?t) (gh_client (JStr ''tok_1'') ?t) user_request
                = Inl (upstream 503)"
    and r401: "rejecting 401 (calls ?t) (gh_client (JStr ''tok_1'') ?t) user_request
                = Inl (upstream 401)"
    by (simp_all add: rejecting_def)
  from C3_init_failures [of one_group_store ?t ?g "rejecting 503" _ _ "upstream 503" _
      "JStr ''tok_1''" "JStr ''acme''"] g' tk ow tr r503
  have 2: "fst (gh_init one_group_store (rejecting 503) ?t)
             = Inl (if is_401 (upstream 503) then upstream 503
                    else AppError ''Failed to initialize GitHub provider'' 500 None)"
    by simp
  from C3_init_failures [of one_group_store ?t ?g "rejecting 401" _ _ "upstream 401" _
      "JStr ''tok_1''" "JStr ''acme''"] g' tk ow tr r401
  have 3: "fst (gh_init one_group_store (rejecting 401) ?t)
             = Inl (if is_401 (upstream 401) then upstream 401
                    else AppError ''Failed to initialize GitHub provider'' 500 None)"
    by simp
  from 1 2 3 show ?thesis
    by (simp add: is_401_def upstream_def)
qed

theorem C3_counterexample:
  "fst (bb_init one_group_store (rejecting 503)
          (new_provider bitbucket_config (bitbucket_group ''jane'' ''app_pw'' ''acme'')))
     = Inl (AppError ''Bitbucket authentication failed'' 401 (Some ''AUTH_FAILED''))
   \<and> fst (gh_init one_group_store (rejecting 401)
          (new_provider github_config (github_group ''tok_1'' ''acme'')))
     = Inl (TransportError (JNum 401) JUndefined)"
  by (simp add: bb_init_defs gh_init_defs first_value_def prog_defs env_defs)

section \<open>The client after a failed init\<close>

lemma gh_init_client:
  assumes "gh_init cm T s = (Inl e, s')"
  shows "client s' = client s
    \<or> (\<exists>token e0. client s' = Some (gh_client token s)
          \<and> calls s' = calls s @ [(gh_client token s, user_request)]
          \<and> T (calls s) (gh_client token s) user_request = Inl e0)"
  using assms
  by (auto simp: gh_init_def gh_init_body_def gh_createClient_def gh_client_def user_request_def
      prog_defs Let_def split: if_splits sum.splits option.splits)

lemma bb_init_client:
  assumes "bb_init cm T s = (Inl e, s')"
  shows "client s' = client s
    \<or> (\<exists>u p e0. client s' = Some (bb_client u p s)
          \<and> calls s' = calls s @ [(bb_client u p s, user_request)]
          \<and> T (calls s) (bb_client u p s) user_request = Inl e0)"
  using assms
  by (auto simp: bb_init_def bb_init_body_def bb_createClient_def bb_client_def user_request_def
      prog_defs Let_def split: if_splits sum.splits option.splits)

text \<open>
  C7 (as amended). After a failed \<^verbatim>\<open>init()\<close>, of either provider, the client is
  the one the instance held before the call (\<^verbatim>\<open>null\<close> on a fresh instance), or it is
  the client that \<^verbatim>\<open>createClient\<close> has just built and assigned, and the
  fetch-current-user call on it, the only call made, was rejected: the instance then
  holds a client that was never validated.
\<close>

theorem C7_client_after_failed_init:
  "(gh_init cm T s = (Inl e, s') \<longrightarrow>
      client s' = client s
      \<or> (\<exists>token e0. client s' = Some (gh_client token s)
            \<and> calls s' = calls s @ [(gh_client token s, user_request)]
            \<and> T (calls s) (gh_client token s) user_request = Inl e0))
   \<and> (bb_init cm T s = (Inl e, s') \<longrightarrow>
      client s' = client s
      \<or> (\<exists>u p e0. client s' = Some (bb_client u p s)
            \<and> calls s' = calls s @ [(bb_client u p s, user_request)]
            \<and> T (calls s) (bb_client u p s) user_request = Inl e0))"
  using gh_init_client [of cm T s e s'] bb_init_client [of cm T s e s']
  by blast

theorem C7_client_after_failed_init_witness:
  "client (snd (gh_init one_group_store (answering JNull)
                  (new_provider github_config (github_group '''' ''acme'')))) = None"
proof -
  let ?s = "new_provider github_config (github_group '''' ''acme'')"
  obtain e s' where f: "gh_init one_group_store (answering JNull) ?s = (Inl e, s')"
    and c: "calls s' = []"
    by (simp add: gh_init_defs prog_defs env_defs)
  from C7_client_after_failed_init [of one_group_store "answering JNull" ?s e s'] f c
  have "client s' = client ?s"
    by (auto simp: new_provider_def)
  with f show ?thesis
    by (simp add: new_provider_def)
qed

theorem C7_counterexample:
  "fst (gh_init one_group_store (rejecting 401)
          (new_provider github_config (github_group ''tok_1'' ''acme'')))
     = Inl (TransportError (JNum 401) JUndefined)
   \<and> client (new_provider github_config (github_group ''tok_1'' ''acme'')) = None
   \<and> client (snd (gh_init one_group_store (rejecting 401)
                    (new_provider github_config (github_group ''tok_1'' ''acme''))))
     = Some \<lparr>baseURL = ''https://api.github.com'',
             headers = [(''Authorization'', ''Bearer tok_1''),
                        (''Accept'', ''application/vnd.github+json''),
                        (''X-GitHub-Api-Version'', ''2022-11-28'')],
             auth = None\<rparr>"
  by (simp add: gh_init_defs prog_defs env_defs)

end
